theory Spec2Isabelle
  imports Complex_Main "HOL-Library.Word"
begin

section \<open>ts-nvml: a typed query layer over the NVIDIA management library\<close>

text \<open>
  The development follows the TypeScript sources: \<^verbatim>\<open>src/types/enums.ts\<close> and
  \<^verbatim>\<open>src/types/result.ts\<close> (status codes, \<^verbatim>\<open>NvmlError\<close>, \<^verbatim>\<open>Result\<close>),
  \<^verbatim>\<open>src/utils/library-path.ts\<close> and \<^verbatim>\<open>src/bindings/*.ts\<close> (library handle, lazily
  bound native functions, marshalling), \<^verbatim>\<open>src/device.ts\<close> (class \<^verbatim>\<open>Device\<close>) and
  \<^verbatim>\<open>src/nvml.ts\<close> (namespace \<^verbatim>\<open>Nvml\<close>).

  JavaScript numbers that hold integers are modelled by \<open>int\<close>, \<^verbatim>\<open>bigint\<close> by \<open>int\<close>,
  and native \<^verbatim>\<open>uint64\<close> fields by \<open>64 word\<close>. A number that results from a division
  is the \<open>real\<close> value of the IEEE double the division gives (\<open>js_divide\<close> below rounds
  the quotient to 53 significant bits, ties to even), and \<^verbatim>\<open>Number(bigint)\<close> rounds in
  the same way (\<open>Number_of_bigint\<close>). Strings are the UTF-8 bytes of their text.
\<close>

subsection \<open>Decimal rendering of integers (template literals)\<close>

text \<open>
  The digits of an integer. The integers printed this way come from a C \<^verbatim>\<open>int\<close> or
  \<^verbatim>\<open>unsigned int\<close>, far below \<open>2 ^ 53\<close>, where JavaScript prints a number digit for
  digit.
\<close>

definition digit_char :: "nat \<Rightarrow> char" where
  "digit_char d = ''0123456789'' ! d"

fun show_nat :: "nat \<Rightarrow> string" where
  "show_nat n =
     (if n < 10 then [digit_char n] else show_nat (n div 10) @ [digit_char (n mod 10)])"

declare show_nat.simps [simp del]

definition show_int :: "int \<Rightarrow> string" where
  "show_int i = (if i < 0 then ''-'' @ show_nat (nat (- i)) else show_nat (nat i))"

subsection \<open>Status codes and their messages (\<^verbatim>\<open>types/enums.ts\<close>)\<close>

text \<open>\<^verbatim>\<open>NvmlReturn\<close> is a numeric enum; a native call may return any integer.\<close>

type_synonym NvmlReturn = int

definition SUCCESS :: NvmlReturn where "SUCCESS = 0"
definition ERROR_UNINITIALIZED :: NvmlReturn where "ERROR_UNINITIALIZED = 1"
definition ERROR_INVALID_ARGUMENT :: NvmlReturn where "ERROR_INVALID_ARGUMENT = 2"
definition ERROR_NOT_SUPPORTED :: NvmlReturn where "ERROR_NOT_SUPPORTED = 3"
definition ERROR_NOT_FOUND :: NvmlReturn where "ERROR_NOT_FOUND = 6"
definition ERROR_UNKNOWN :: NvmlReturn where "ERROR_UNKNOWN = 999"

definition messages :: "(NvmlReturn \<times> string) list" where
  "messages =
    [(0, ''Success''),
     (1, ''NVML was not initialized''),
     (2, ''Invalid argument''),
     (3, ''Operation not supported''),
     (4, ''Insufficient permissions''),
     (5, ''NVML already initialized''),
     (6, ''Not found''),
     (7, ''Insufficient buffer size''),
     (8, ''Insufficient power''),
     (9, ''NVIDIA driver not loaded''),
     (10, ''Operation timed out''),
     (11, ''Interrupt request issue''),
     (12, ''NVML library not found''),
     (13, ''Function not found''),
     (14, ''InfoROM corrupted''),
     (15, ''GPU is lost''),
     (16, ''GPU reset required''),
     (17, ''Operating system error''),
     (18, ''RM/library version mismatch''),
     (19, ''GPU is in use''),
     (20, ''Memory allocation failed''),
     (21, ''No data available''),
     (22, ''vGPU ECC not supported''),
     (23, ''Insufficient resources''),
     (24, ''Frequency not supported''),
     (25, ''Argument version mismatch''),
     (26, ''Deprecated function''),
     (27, ''Not ready''),
     (28, ''GPU not found''),
     (29, ''Invalid state''),
     (999, ''Unknown error'')]"

text \<open>\<^verbatim>\<open>messages[ret] ?? `Unknown error code: ${ret}`\<close>\<close>

definition nvmlErrorString :: "NvmlReturn \<Rightarrow> string" where
  "nvmlErrorString r =
     (case map_of messages r of
        Some m \<Rightarrow> m
      | None \<Rightarrow> ''Unknown error code: '' @ show_int r)"

subsection \<open>\<^verbatim>\<open>NvmlError\<close> and \<^verbatim>\<open>Result\<close> (\<^verbatim>\<open>types/result.ts\<close>)\<close>

datatype NvmlError = NvmlError (code: NvmlReturn) (message: string)

text \<open>
  \<^verbatim>\<open>NvmlError.fromReturn(ret, context?)\<close>: an absent and an empty context are both falsy,
  so the optional context is a string and \<open>''''\<close> stands for "no context".
\<close>

definition fromReturn :: "NvmlReturn \<Rightarrow> string \<Rightarrow> NvmlError" where
  "fromReturn r context =
     (let baseMessage = nvmlErrorString r;
          msg = (if context \<noteq> [] then context @ '': '' @ baseMessage else baseMessage)
      in NvmlError r msg)"

datatype 'a Result = Ok (val: 'a) | Err (error: NvmlError)

definition ok :: "'a \<Rightarrow> 'a Result" where
  "ok v = Ok v"

definition err :: "NvmlError \<Rightarrow> 'a Result" where
  "err e = Err e"

definition errFromReturn :: "NvmlReturn \<Rightarrow> string \<Rightarrow> 'a Result" where
  "errFromReturn r context = err (fromReturn r context)"

text \<open>
  Everything a call of this library can throw; \<open>CallerError\<close> stands for what a callback
  handed to \<^verbatim>\<open>map\<close> or \<^verbatim>\<open>andThen\<close> throws.
\<close>

datatype exn =
    Nvml NvmlError
  | InvalidDeviceIndex real
  | InvalidDeviceUUID
  | LibraryNotFound "string list"
  | LibraryLoadFailed string
  | SymbolNotFound string
  | CallerError string

text \<open>\<^verbatim>\<open>unwrap\<close> returns the value or throws the error of the result.\<close>

definition unwrap :: "'a Result \<Rightarrow> exn + 'a" where
  "unwrap r = (case r of Ok v \<Rightarrow> Inr v | Err e \<Rightarrow> Inl (Nvml e))"

definition unwrapOr :: "'a Result \<Rightarrow> 'a \<Rightarrow> 'a" where
  "unwrapOr r defaultValue = (case r of Ok v \<Rightarrow> v | Err e \<Rightarrow> defaultValue)"

definition isSuccess :: "NvmlReturn \<Rightarrow> bool" where
  "isSuccess r \<longleftrightarrow> r = SUCCESS"

subsection \<open>The native side: what the wrapper cannot see\<close>

text \<open>
  The symbols bound by the binding modules; \<open>signature_of\<close> is the C signature string
  each lazy getter hands to \<^verbatim>\<open>lib.func\<close>.
\<close>

datatype symbol =
    sym_nvmlInit_v2
  | sym_nvmlInitWithFlags
  | sym_nvmlShutdown
  | sym_nvmlDeviceGetCount_v2
  | sym_nvmlDeviceGetHandleByIndex_v2
  | sym_nvmlDeviceGetHandleByUUID
  | sym_nvmlDeviceGetName
  | sym_nvmlDeviceGetUUID
  | sym_nvmlDeviceGetMemoryInfo
  | sym_nvmlDeviceGetUtilizationRates
  | sym_nvmlDeviceGetTemperature
  | sym_nvmlDeviceGetPowerUsage
  | sym_nvmlDeviceGetPowerManagementLimit
  | sym_nvmlDeviceGetFanSpeed
  | sym_nvmlDeviceGetPerformanceState
  | sym_nvmlDeviceGetPciInfo_v3
  | sym_nvmlDeviceGetPersistenceMode
  | sym_nvmlDeviceGetDisplayActive
  | sym_nvmlDeviceGetComputeMode
  | sym_nvmlDeviceGetMigMode
  | sym_nvmlDeviceGetTotalEccErrors
  | sym_nvmlSystemGetDriverVersion
  | sym_nvmlSystemGetNVMLVersion
  | sym_nvmlSystemGetCudaDriverVersion
  | sym_nvmlSystemGetCudaDriverVersion_v2
  | sym_nvmlSystemGetProcessName
  | sym_nvmlDeviceGetComputeRunningProcesses_v3
  | sym_nvmlDeviceGetGraphicsRunningProcesses_v3

primrec signature_of :: "symbol \<Rightarrow> string" where
  "signature_of sym_nvmlInit_v2 = ''int nvmlInit_v2()''"
| "signature_of sym_nvmlInitWithFlags = ''int nvmlInitWithFlags(uint flags)''"
| "signature_of sym_nvmlShutdown = ''int nvmlShutdown()''"
| "signature_of sym_nvmlDeviceGetCount_v2 =
     ''int nvmlDeviceGetCount_v2(_Out_ uint *deviceCount)''"
| "signature_of sym_nvmlDeviceGetHandleByIndex_v2 =
     ''int nvmlDeviceGetHandleByIndex_v2(uint index, _Out_ nvmlDevice* *device)''"
| "signature_of sym_nvmlDeviceGetHandleByUUID =
     ''int nvmlDeviceGetHandleByUUID(str uuid, _Out_ nvmlDevice* *device)''"
| "signature_of sym_nvmlDeviceGetName =
     ''int nvmlDeviceGetName(nvmlDevice* device, _Out_ str *name, uint length)''"
| "signature_of sym_nvmlDeviceGetUUID =
     ''int nvmlDeviceGetUUID(nvmlDevice* device, _Out_ str *uuid, uint length)''"
| "signature_of sym_nvmlDeviceGetMemoryInfo =
     ''int nvmlDeviceGetMemoryInfo(nvmlDevice* device, _Out_ nvmlMemory_t *memory)''"
| "signature_of sym_nvmlDeviceGetUtilizationRates =
     ''int nvmlDeviceGetUtilizationRates(nvmlDevice* device, _Out_ nvmlUtilization_t *utilization)''"
| "signature_of sym_nvmlDeviceGetTemperature =
     ''int nvmlDeviceGetTemperature(nvmlDevice* device, int sensorType, _Out_ uint *temp)''"
| "signature_of sym_nvmlDeviceGetPowerUsage =
     ''int nvmlDeviceGetPowerUsage(nvmlDevice* device, _Out_ uint *power)''"
| "signature_of sym_nvmlDeviceGetPowerManagementLimit =
     ''int nvmlDeviceGetPowerManagementLimit(nvmlDevice* device, _Out_ uint *limit)''"
| "signature_of sym_nvmlDeviceGetFanSpeed =
     ''int nvmlDeviceGetFanSpeed(nvmlDevice* device, _Out_ uint *speed)''"
| "signature_of sym_nvmlDeviceGetPerformanceState =
     ''int nvmlDeviceGetPerformanceState(nvmlDevice* device, _Out_ int *pState)''"
| "signature_of sym_nvmlDeviceGetPciInfo_v3 =
     ''int nvmlDeviceGetPciInfo_v3(nvmlDevice* device, _Out_ nvmlPciInfo_t *pci)''"
| "signature_of sym_nvmlDeviceGetPersistenceMode =
     ''int nvmlDeviceGetPersistenceMode(nvmlDevice* device, _Out_ int *mode)''"
| "signature_of sym_nvmlDeviceGetDisplayActive =
     ''int nvmlDeviceGetDisplayActive(nvmlDevice* device, _Out_ int *isActive)''"
| "signature_of sym_nvmlDeviceGetComputeMode =
     ''int nvmlDeviceGetComputeMode(nvmlDevice* device, _Out_ int *mode)''"
| "signature_of sym_nvmlDeviceGetMigMode =
     ''int nvmlDeviceGetMigMode(nvmlDevice* device, _Out_ int *currentMode, _Out_ int *pendingMode)''"
| "signature_of sym_nvmlDeviceGetTotalEccErrors =
     ''int nvmlDeviceGetTotalEccErrors(nvmlDevice* device, int errorType, int counterType, _Out_ uint64 *eccCounts)''"
| "signature_of sym_nvmlSystemGetDriverVersion =
     ''int nvmlSystemGetDriverVersion(_Out_ str *version, uint length)''"
| "signature_of sym_nvmlSystemGetNVMLVersion =
     ''int nvmlSystemGetNVMLVersion(_Out_ str *version, uint length)''"
| "signature_of sym_nvmlSystemGetCudaDriverVersion =
     ''int nvmlSystemGetCudaDriverVersion(_Out_ int *cudaDriverVersion)''"
| "signature_of sym_nvmlSystemGetCudaDriverVersion_v2 =
     ''int nvmlSystemGetCudaDriverVersion_v2(_Out_ int *cudaDriverVersion)''"
| "signature_of sym_nvmlSystemGetProcessName =
     ''int nvmlSystemGetProcessName(uint pid, _Out_ str *name, uint length)''"
| "signature_of sym_nvmlDeviceGetComputeRunningProcesses_v3 =
     ''int nvmlDeviceGetComputeRunningProcesses_v3(nvmlDevice* device, _Inout_ uint *infoCount, _Out_ nvmlProcessInfo_v2_t *infos)''"
| "signature_of sym_nvmlDeviceGetGraphicsRunningProcesses_v3 =
     ''int nvmlDeviceGetGraphicsRunningProcesses_v3(nvmlDevice* device, _Inout_ uint *infoCount, _Out_ nvmlProcessInfo_v2_t *infos)''"

text \<open>
  A loaded library object (\<^verbatim>\<open>IKoffiLib\<close>): every \<^verbatim>\<open>koffi.load\<close> makes a new object, told
  apart by the number of the load that made it. A bound function remembers the library
  object it was resolved against. Device handles are opaque.
\<close>

datatype lib_handle = LibHandle (load_no: nat) (lib_path: string)

datatype callable = Callable (bound_to: lib_handle) (bound_symbol: symbol)

datatype KoffiNvmlDevice = DevHandle nat

datatype arg = ADevice KoffiNvmlDevice | ANum int | AStr string

subsection \<open>Raw structs (\<^verbatim>\<open>bindings/types.ts\<close>, \<^verbatim>\<open>bindings/process.ts\<close>)\<close>

record RawNvmlMemory =
  raw_total :: "64 word"
  raw_free :: "64 word"
  raw_used :: "64 word"

record RawNvmlUtilization =
  raw_gpu :: int
  raw_memory :: int

record RawNvmlPciInfo =
  raw_busIdLegacy :: string
  raw_domain :: int
  raw_bus :: int
  raw_device :: int
  raw_pciDeviceId :: int
  raw_pciSubSystemId :: int
  raw_busId :: string

record RawProcessInfo =
  pid :: nat
  usedGpuMemory :: "64 word"
  gpuInstanceId :: int
  computeInstanceId :: int

text \<open>
  What a native call leaves behind: its return code and the content, after the call, of
  the out-parameters the caller passed (the primitive out cells, the byte buffer, the
  device cell, the structs, the process array). Only the fields that belong to the
  signature are read by the binding that made the call.
\<close>

record response =
  ret :: NvmlReturn
  out_num :: int
  out_num2 :: int
  out_text :: string
  out_device :: "KoffiNvmlDevice option"
  out_memory :: RawNvmlMemory
  out_utilization :: RawNvmlUtilization
  out_pci :: RawNvmlPciInfo
  out_infos :: "RawProcessInfo list"

text \<open>
  The environment of the process. \<open>native w t c args\<close> is the response of the bound
  function \<open>c\<close> to the in-arguments \<open>args\<close> when it is the \<open>t\<close>-th effect of the run, so a
  native function may answer differently over time. \<open>clock w t\<close> is what \<^verbatim>\<open>new Date()\<close>
  reads then. \<open>large_number_string\<close> is the engine's rendering of a number above \<open>2 ^ 53\<close>.
\<close>

record world =
  NVML_LIBRARY_PATH :: "string option"
  existsSync :: "string \<Rightarrow> bool"
  koffi_load :: "string \<Rightarrow> bool"
  koffi_func :: "string \<Rightarrow> string \<Rightarrow> bool"
  native :: "nat \<Rightarrow> callable \<Rightarrow> arg list \<Rightarrow> response"
  clock :: "nat \<Rightarrow> int"
  large_number_string :: "real \<Rightarrow> string"

text \<open>
  A number in a template literal: JavaScript prints an integer of magnitude up to
  \<open>2 ^ 53\<close> digit for digit. A larger number is printed from the shortest digits that
  read back as the same double, in exponent notation from \<open>10 ^ 21\<close>; that is left to the
  engine (\<open>large_number_string\<close>). The function is applied to integers only.
\<close>

definition js_number_string :: "world \<Rightarrow> real \<Rightarrow> string" where
  "js_number_string w x =
     (if \<bar>x\<bar> \<le> 2 ^ 53 then show_int \<lfloor>x\<rfloor> else large_number_string w x)"

subsection \<open>Module state and effects\<close>

datatype event = Invoke callable "arg list" | ClockRead

text \<open>
  The module-level variables: \<^verbatim>\<open>initialized\<close> (\<^verbatim>\<open>nvml.ts\<close>), \<^verbatim>\<open>lib\<close> and
  \<^verbatim>\<open>libraryPath\<close> (\<^verbatim>\<open>bindings/library.ts\<close>) and the lazily filled function variables of
  the binding modules, one per symbol (\<open>bindings\<close>). \<open>loads\<close> counts the library objects
  made so far and \<open>effects\<close> logs native invocations and clock reads in order; neither is a
  variable of the program.
\<close>

record state =
  initialized :: bool
  lib :: "lib_handle option"
  libraryPath :: "string option"
  bindings :: "symbol \<Rightarrow> callable option"
  loads :: nat
  effects :: "event list"

definition initial_state :: state where
  "initial_state =
     \<lparr>initialized = False, lib = None, libraryPath = None,
      bindings = (\<lambda>_. None), loads = 0, effects = []\<rparr>"

text \<open>A computation may throw or return, and changes the state either way.\<close>

type_synonym 'a M = "state \<Rightarrow> (exn + 'a) \<times> state"

definition returnM :: "'a \<Rightarrow> 'a M" where
  "returnM x = (\<lambda>s. (Inr x, s))"

definition throwM :: "exn \<Rightarrow> 'a M" where
  "throwM e = (\<lambda>s. (Inl e, s))"

definition bindM :: "'a M \<Rightarrow> ('a \<Rightarrow> 'b M) \<Rightarrow> 'b M" where
  "bindM m f = (\<lambda>s. case m s of (Inl e, s') \<Rightarrow> (Inl e, s') | (Inr x, s') \<Rightarrow> f x s')"

text \<open>
  \<^verbatim>\<open>map\<close> and \<^verbatim>\<open>andThen\<close> of \<^verbatim>\<open>types/result.ts\<close>. The callback is code of the caller:
  it may call the library, and it may throw.
\<close>

definition map_result :: "'a Result \<Rightarrow> ('a \<Rightarrow> 'b M) \<Rightarrow> 'b Result M" where
  "map_result r fn =
     (case r of
        Ok v \<Rightarrow> bindM (fn v) (\<lambda>u. returnM (ok u))
      | Err e \<Rightarrow> returnM (Err e))"

definition andThen :: "'a Result \<Rightarrow> ('a \<Rightarrow> 'b Result M) \<Rightarrow> 'b Result M" where
  "andThen r fn =
     (case r of
        Ok v \<Rightarrow> fn v
      | Err e \<Rightarrow> returnM (Err e))"

subsection \<open>Finding and loading the library (\<^verbatim>\<open>utils/library-path.ts\<close>, \<^verbatim>\<open>bindings/library.ts\<close>)\<close>

definition DEFAULT_LIBRARY_PATHS :: "string list" where
  "DEFAULT_LIBRARY_PATHS =
     [''libnvidia-ml.so.1'',
      ''libnvidia-ml.so'',
      ''/usr/lib/x86_64-linux-gnu/libnvidia-ml.so.1'',
      ''/usr/lib64/libnvidia-ml.so.1'',
      ''/usr/lib/libnvidia-ml.so.1'',
      ''/usr/lib/aarch64-linux-gnu/libnvidia-ml.so.1'',
      ''/usr/local/cuda/lib64/stubs/libnvidia-ml.so'',
      ''/usr/local/cuda/targets/x86_64-linux/lib/stubs/libnvidia-ml.so'']"

text \<open>The loop over the default paths: a bare name is left to the dynamic linker.\<close>

fun try_default_paths :: "world \<Rightarrow> string list \<Rightarrow> string option" where
  "try_default_paths w [] = None"
| "try_default_paths w (p # ps) =
     (if CHR ''/'' \<notin> set p then Some p
      else if existsSync w p then Some p
      else try_default_paths w ps)"

text \<open>The warning printed for an override that does not exist is not modelled.\<close>

definition findLibraryPath :: "world \<Rightarrow> string option" where
  "findLibraryPath w =
     (case NVML_LIBRARY_PATH w of
        Some envPath \<Rightarrow>
          if envPath \<noteq> [] \<and> existsSync w envPath then Some envPath
          else try_default_paths w DEFAULT_LIBRARY_PATHS
      | None \<Rightarrow> try_default_paths w DEFAULT_LIBRARY_PATHS)"

definition getSearchPaths :: "world \<Rightarrow> string list" where
  "getSearchPaths w =
     (case NVML_LIBRARY_PATH w of
        Some envPath \<Rightarrow>
          if envPath \<noteq> [] then envPath # DEFAULT_LIBRARY_PATHS else DEFAULT_LIBRARY_PATHS
      | None \<Rightarrow> DEFAULT_LIBRARY_PATHS)"

definition getLibrary :: "world \<Rightarrow> lib_handle M" where
  "getLibrary w = (\<lambda>s.
     case lib s of
       Some l \<Rightarrow> (Inr l, s)
     | None \<Rightarrow>
        (case findLibraryPath w of
           None \<Rightarrow> (Inl (LibraryNotFound (getSearchPaths w)), s)
         | Some p \<Rightarrow>
             if p = [] then (Inl (LibraryNotFound (getSearchPaths w)), s)
             else if koffi_load w p then
               (Inr (LibHandle (loads s) p),
                s\<lparr>lib := Some (LibHandle (loads s) p), libraryPath := Some p,
                  loads := Suc (loads s)\<rparr>)
             else (Inl (LibraryLoadFailed p), s)))"

definition isLibraryLoaded :: "state \<Rightarrow> bool" where
  "isLibraryLoaded s \<longleftrightarrow> lib s \<noteq> None"

definition getLoadedLibraryPath :: "state \<Rightarrow> string option" where
  "getLoadedLibraryPath s = libraryPath s"

definition unloadLibrary :: "state \<Rightarrow> state" where
  "unloadLibrary s = s\<lparr>lib := None, libraryPath := None\<rparr>"

subsection \<open>Lazily bound native functions\<close>

text \<open>
  Every getter of the binding modules (\<^verbatim>\<open>getNvmlInit\<close>, \<^verbatim>\<open>getDeviceGetCount\<close>, ...) has one
  shape: if its variable is still null, fetch the library, resolve the signature with
  \<^verbatim>\<open>lib.func\<close> and store the function in the variable; return the variable. \<open>getBinding\<close>
  is that shape, for the variable of symbol \<open>f\<close>. \<^verbatim>\<open>lib.func\<close> is koffi's; it throws when the
  library has no such symbol.
\<close>

definition getBinding :: "world \<Rightarrow> symbol \<Rightarrow> callable M" where
  "getBinding w f = (\<lambda>s.
     case bindings s f of
       Some c \<Rightarrow> (Inr c, s)
     | None \<Rightarrow>
        (case getLibrary w s of
           (Inl e, s') \<Rightarrow> (Inl e, s')
         | (Inr l, s') \<Rightarrow>
             if koffi_func w (lib_path l) (signature_of f) then
               (Inr (Callable l f), s'\<lparr>bindings := (bindings s')(f := Some (Callable l f))\<rparr>)
             else (Inl (SymbolNotFound (signature_of f)), s')))"

text \<open>Calling a bound function: the native side answers and the call is logged.\<close>

definition callBound :: "world \<Rightarrow> callable \<Rightarrow> arg list \<Rightarrow> response M" where
  "callBound w c args = (\<lambda>s.
     (Inr (native w (length (effects s)) c args),
      s\<lparr>effects := effects s @ [Invoke c args]\<rparr>))"

definition invoke :: "world \<Rightarrow> symbol \<Rightarrow> arg list \<Rightarrow> response M" where
  "invoke w f args = bindM (getBinding w f) (\<lambda>c. callBound w c args)"

subsection \<open>Bindings (\<^verbatim>\<open>bindings/init.ts\<close>, \<^verbatim>\<open>device.ts\<close>, \<^verbatim>\<open>system.ts\<close>, \<^verbatim>\<open>process.ts\<close>)\<close>

definition NVML_DEVICE_NAME_BUFFER_SIZE :: int where "NVML_DEVICE_NAME_BUFFER_SIZE = 64"
definition NVML_DEVICE_UUID_BUFFER_SIZE :: int where "NVML_DEVICE_UUID_BUFFER_SIZE = 80"
definition NVML_SYSTEM_DRIVER_VERSION_BUFFER_SIZE :: int where
  "NVML_SYSTEM_DRIVER_VERSION_BUFFER_SIZE = 80"
definition NVML_SYSTEM_NVML_VERSION_BUFFER_SIZE :: int where
  "NVML_SYSTEM_NVML_VERSION_BUFFER_SIZE = 80"
definition MAX_PROCESSES :: nat where "MAX_PROCESSES = 128"

text \<open>\<^verbatim>\<open>buffer.toString('utf8').replace(/\0/g, '')\<close>: every NUL byte is dropped.\<close>

definition strip_nuls :: "string \<Rightarrow> string" where
  "strip_nuls b = filter (\<lambda>c. c \<noteq> CHR 0x00) b"

text \<open>\<^verbatim>\<open>buffer.toString('utf8').split('\0')[0] ?? ''\<close>: the text before the first NUL.\<close>

definition first_field :: "string \<Rightarrow> string" where
  "first_field b = takeWhile (\<lambda>c. c \<noteq> CHR 0x00) b"

definition nvmlInit :: "world \<Rightarrow> NvmlReturn M" where
  "nvmlInit w = bindM (invoke w sym_nvmlInit_v2 []) (\<lambda>r. returnM (ret r))"

definition nvmlInitWithFlags :: "world \<Rightarrow> int \<Rightarrow> NvmlReturn M" where
  "nvmlInitWithFlags w flags =
     bindM (invoke w sym_nvmlInitWithFlags [ANum flags]) (\<lambda>r. returnM (ret r))"

definition nvmlShutdown :: "world \<Rightarrow> NvmlReturn M" where
  "nvmlShutdown w = bindM (invoke w sym_nvmlShutdown []) (\<lambda>r. returnM (ret r))"

text \<open>
  The bindings below return the object \<^verbatim>\<open>{ ret, ... }\<close> of the source as a pair of the
  return code and the decoded output.
\<close>

definition nvmlDeviceGetCount :: "world \<Rightarrow> (NvmlReturn \<times> int) M" where
  "nvmlDeviceGetCount w =
     bindM (invoke w sym_nvmlDeviceGetCount_v2 []) (\<lambda>r. returnM (ret r, out_num r))"

definition nvmlDeviceGetHandleByIndex ::
  "world \<Rightarrow> int \<Rightarrow> (NvmlReturn \<times> KoffiNvmlDevice option) M" where
  "nvmlDeviceGetHandleByIndex w index =
     bindM (invoke w sym_nvmlDeviceGetHandleByIndex_v2 [ANum index])
       (\<lambda>r. returnM (ret r, out_device r))"

definition nvmlDeviceGetHandleByUUID ::
  "world \<Rightarrow> string \<Rightarrow> (NvmlReturn \<times> KoffiNvmlDevice option) M" where
  "nvmlDeviceGetHandleByUUID w uuid =
     bindM (invoke w sym_nvmlDeviceGetHandleByUUID [AStr uuid])
       (\<lambda>r. returnM (ret r, out_device r))"

definition nvmlDeviceGetName :: "world \<Rightarrow> KoffiNvmlDevice \<Rightarrow> (NvmlReturn \<times> string) M" where
  "nvmlDeviceGetName w device =
     bindM (invoke w sym_nvmlDeviceGetName [ADevice device, ANum NVML_DEVICE_NAME_BUFFER_SIZE])
       (\<lambda>r. returnM (ret r, strip_nuls (out_text r)))"

definition nvmlDeviceGetUUID :: "world \<Rightarrow> KoffiNvmlDevice \<Rightarrow> (NvmlReturn \<times> string) M" where
  "nvmlDeviceGetUUID w device =
     bindM (invoke w sym_nvmlDeviceGetUUID [ADevice device, ANum NVML_DEVICE_UUID_BUFFER_SIZE])
       (\<lambda>r. returnM (ret r, strip_nuls (out_text r)))"

definition nvmlDeviceGetMemoryInfo ::
  "world \<Rightarrow> KoffiNvmlDevice \<Rightarrow> (NvmlReturn \<times> RawNvmlMemory) M" where
  "nvmlDeviceGetMemoryInfo w device =
     bindM (invoke w sym_nvmlDeviceGetMemoryInfo [ADevice device])
       (\<lambda>r. returnM (ret r, out_memory r))"

definition nvmlDeviceGetUtilizationRates ::
  "world \<Rightarrow> KoffiNvmlDevice \<Rightarrow> (NvmlReturn \<times> RawNvmlUtilization) M" where
  "nvmlDeviceGetUtilizationRates w device =
     bindM (invoke w sym_nvmlDeviceGetUtilizationRates [ADevice device])
       (\<lambda>r. returnM (ret r, out_utilization r))"

definition nvmlDeviceGetTemperature ::
  "world \<Rightarrow> KoffiNvmlDevice \<Rightarrow> int \<Rightarrow> (NvmlReturn \<times> int) M" where
  "nvmlDeviceGetTemperature w device sensorType =
     bindM (invoke w sym_nvmlDeviceGetTemperature [ADevice device, ANum sensorType])
       (\<lambda>r. returnM (ret r, out_num r))"

definition nvmlDeviceGetPowerUsage :: "world \<Rightarrow> KoffiNvmlDevice \<Rightarrow> (NvmlReturn \<times> int) M" where
  "nvmlDeviceGetPowerUsage w device =
     bindM (invoke w sym_nvmlDeviceGetPowerUsage [ADevice device])
       (\<lambda>r. returnM (ret r, out_num r))"

definition nvmlDeviceGetPowerManagementLimit ::
  "world \<Rightarrow> KoffiNvmlDevice \<Rightarrow> (NvmlReturn \<times> int) M" where
  "nvmlDeviceGetPowerManagementLimit w device =
     bindM (invoke w sym_nvmlDeviceGetPowerManagementLimit [ADevice device])
       (\<lambda>r. returnM (ret r, out_num r))"

definition nvmlDeviceGetFanSpeed :: "world \<Rightarrow> KoffiNvmlDevice \<Rightarrow> (NvmlReturn \<times> int) M" where
  "nvmlDeviceGetFanSpeed w device =
     bindM (invoke w sym_nvmlDeviceGetFanSpeed [ADevice device])
       (\<lambda>r. returnM (ret r, out_num r))"

definition nvmlDeviceGetPerformanceState ::
  "world \<Rightarrow> KoffiNvmlDevice \<Rightarrow> (NvmlReturn \<times> int) M" where
  "nvmlDeviceGetPerformanceState w device =
     bindM (invoke w sym_nvmlDeviceGetPerformanceState [ADevice device])
       (\<lambda>r. returnM (ret r, out_num r))"

definition nvmlDeviceGetPciInfo ::
  "world \<Rightarrow> KoffiNvmlDevice \<Rightarrow> (NvmlReturn \<times> RawNvmlPciInfo) M" where
  "nvmlDeviceGetPciInfo w device =
     bindM (invoke w sym_nvmlDeviceGetPciInfo_v3 [ADevice device])
       (\<lambda>r. returnM (ret r, out_pci r))"

definition nvmlDeviceGetPersistenceMode ::
  "world \<Rightarrow> KoffiNvmlDevice \<Rightarrow> (NvmlReturn \<times> bool) M" where
  "nvmlDeviceGetPersistenceMode w device =
     bindM (invoke w sym_nvmlDeviceGetPersistenceMode [ADevice device])
       (\<lambda>r. returnM (ret r, out_num r = 1))"

definition nvmlDeviceGetDisplayActive ::
  "world \<Rightarrow> KoffiNvmlDevice \<Rightarrow> (NvmlReturn \<times> bool) M" where
  "nvmlDeviceGetDisplayActive w device =
     bindM (invoke w sym_nvmlDeviceGetDisplayActive [ADevice device])
       (\<lambda>r. returnM (ret r, out_num r = 1))"

definition nvmlDeviceGetComputeMode :: "world \<Rightarrow> KoffiNvmlDevice \<Rightarrow> (NvmlReturn \<times> int) M" where
  "nvmlDeviceGetComputeMode w device =
     bindM (invoke w sym_nvmlDeviceGetComputeMode [ADevice device])
       (\<lambda>r. returnM (ret r, out_num r))"

definition nvmlDeviceGetMigMode ::
  "world \<Rightarrow> KoffiNvmlDevice \<Rightarrow> (NvmlReturn \<times> int \<times> int) M" where
  "nvmlDeviceGetMigMode w device =
     bindM (invoke w sym_nvmlDeviceGetMigMode [ADevice device])
       (\<lambda>r. returnM (ret r, out_num r, out_num2 r))"

definition nvmlDeviceGetTotalEccErrors ::
  "world \<Rightarrow> KoffiNvmlDevice \<Rightarrow> int \<Rightarrow> int \<Rightarrow> (NvmlReturn \<times> int) M" where
  "nvmlDeviceGetTotalEccErrors w device errorType counterType =
     bindM (invoke w sym_nvmlDeviceGetTotalEccErrors
              [ADevice device, ANum errorType, ANum counterType])
       (\<lambda>r. returnM (ret r, out_num r))"

definition nvmlSystemGetDriverVersion :: "world \<Rightarrow> (NvmlReturn \<times> string) M" where
  "nvmlSystemGetDriverVersion w =
     bindM (invoke w sym_nvmlSystemGetDriverVersion
              [ANum NVML_SYSTEM_DRIVER_VERSION_BUFFER_SIZE])
       (\<lambda>r. returnM (ret r, strip_nuls (out_text r)))"

definition nvmlSystemGetNvmlVersion :: "world \<Rightarrow> (NvmlReturn \<times> string) M" where
  "nvmlSystemGetNvmlVersion w =
     bindM (invoke w sym_nvmlSystemGetNVMLVersion
              [ANum NVML_SYSTEM_NVML_VERSION_BUFFER_SIZE])
       (\<lambda>r. returnM (ret r, strip_nuls (out_text r)))"

definition nvmlSystemGetCudaDriverVersion :: "world \<Rightarrow> (NvmlReturn \<times> int) M" where
  "nvmlSystemGetCudaDriverVersion w =
     bindM (invoke w sym_nvmlSystemGetCudaDriverVersion []) (\<lambda>r. returnM (ret r, out_num r))"

definition nvmlSystemGetCudaDriverVersion_v2 :: "world \<Rightarrow> (NvmlReturn \<times> int) M" where
  "nvmlSystemGetCudaDriverVersion_v2 w =
     bindM (invoke w sym_nvmlSystemGetCudaDriverVersion_v2 [])
       (\<lambda>r. returnM (ret r, out_num r))"

definition nvmlSystemGetProcessName :: "world \<Rightarrow> nat \<Rightarrow> (NvmlReturn \<times> string) M" where
  "nvmlSystemGetProcessName w p =
     bindM (invoke w sym_nvmlSystemGetProcessName [ANum (int p), ANum 256])
       (\<lambda>r. returnM (ret r, first_field (out_text r)))"

text \<open>
  The extraction loop \<^verbatim>\<open>for (i = 0; i < count && i < MAX_PROCESSES; i++)\<close> keeps the
  entries below the returned count whose pid is positive, in array order; \<open>count\<close> is the
  content of the in/out cell after the call.
\<close>

definition extract_processes :: "int \<Rightarrow> RawProcessInfo list \<Rightarrow> RawProcessInfo list" where
  "extract_processes count infos =
     filter (\<lambda>info. pid info > 0) (take (min (nat count) MAX_PROCESSES) infos)"

definition nvmlDeviceGetComputeRunningProcesses ::
  "world \<Rightarrow> KoffiNvmlDevice \<Rightarrow> (NvmlReturn \<times> RawProcessInfo list) M" where
  "nvmlDeviceGetComputeRunningProcesses w device =
     bindM (invoke w sym_nvmlDeviceGetComputeRunningProcesses_v3
              [ADevice device, ANum (int MAX_PROCESSES)])
       (\<lambda>r. returnM (ret r, extract_processes (out_num r) (out_infos r)))"

definition nvmlDeviceGetGraphicsRunningProcesses ::
  "world \<Rightarrow> KoffiNvmlDevice \<Rightarrow> (NvmlReturn \<times> RawProcessInfo list) M" where
  "nvmlDeviceGetGraphicsRunningProcesses w device =
     bindM (invoke w sym_nvmlDeviceGetGraphicsRunningProcesses_v3
              [ADevice device, ANum (int MAX_PROCESSES)])
       (\<lambda>r. returnM (ret r, extract_processes (out_num r) (out_infos r)))"

text \<open>
  \<^verbatim>\<open>cudaVersionToString\<close>. The version comes from a C \<^verbatim>\<open>int\<close>; \<^verbatim>\<open>%\<close> is JavaScript's
  remainder, which takes the sign of the dividend. For a C \<^verbatim>\<open>int\<close> the double of the
  quotient has the floor of the quotient itself.
\<close>

definition js_rem :: "int \<Rightarrow> int \<Rightarrow> int" where
  "js_rem a b = sgn a * (\<bar>a\<bar> mod \<bar>b\<bar>)"

definition js_floor_div :: "int \<Rightarrow> int \<Rightarrow> int" where
  "js_floor_div a b = \<lfloor>real_of_int a / real_of_int b\<rfloor>"

definition cudaVersionToString :: "int \<Rightarrow> string" where
  "cudaVersionToString version =
     (let major = js_floor_div version 1000;
          minor = js_floor_div (js_rem version 1000) 10
      in show_int major @ ''.'' @ show_int minor)"

subsection \<open>Domain structs (\<^verbatim>\<open>types/structs.ts\<close>)\<close>

record MemoryInfo =
  mem_total :: int
  mem_free :: int
  mem_used :: int

record UtilizationRates =
  util_gpu :: int
  util_memory :: int

record PciInfo =
  pci_busId :: string
  pci_domain :: int
  pci_bus :: int
  pci_device :: int
  pci_function :: int
  pci_pciDeviceId :: int
  pci_pciSubsystemId :: int

record GpuBasicInfo =
  info_index :: int
  info_name :: string
  info_memoryTotalMiB :: int
  info_memoryTotalGiB :: real

record GpuStatus =
  status_index :: int
  status_name :: string
  persistenceMode :: bool
  pciBusId :: string
  displayActive :: bool
  eccErrorsCorrected :: "int option"
  fanSpeed :: "int option"
  temperature :: int
  pstate :: int
  powerDraw :: real
  powerLimit :: real
  memoryUsedMiB :: int
  memoryTotalMiB :: int
  utilizationGpu :: int
  utilizationMemory :: int
  computeMode :: int
  migMode :: "bool option"

record GpuProcess =
  gpuIndex :: int
  proc_pid :: nat
  processName :: string
  usedMemoryMiB :: int

record DriverInfo =
  driverVersion :: string
  nvmlVersion :: string
  cudaVersion :: string

record SystemSnapshot =
  timestamp :: int
  driver :: DriverInfo
  gpus :: "GpuStatus list"
  processes :: "GpuProcess list"

subsection \<open>Numbers: division and \<^verbatim>\<open>Number(bigint)\<close>\<close>

text \<open>The number of binary digits of a natural number.\<close>

fun bits :: "nat \<Rightarrow> nat" where
  "bits n = (if n = 0 then 0 else Suc (bits (n div 2)))"

declare bits.simps [simp del]

text \<open>The integer nearest to \<open>x / y\<close>, the even one of two that are equally near.\<close>

definition round_half_even :: "nat \<Rightarrow> nat \<Rightarrow> nat" where
  "round_half_even x y =
     (let q = x div y; r = x mod y
      in if 2 * r < y then q
         else if y < 2 * r then q + 1
         else if even q then q else q + 1)"

text \<open>For positive \<open>a\<close> and \<open>b\<close>, the \<open>e\<close> with \<open>2 ^ e \<le> a / b < 2 ^ (e + 1)\<close>.\<close>

definition binary_exponent :: "nat \<Rightarrow> nat \<Rightarrow> int" where
  "binary_exponent a b =
     (let e = int (bits a) - int (bits b)
      in if (if 0 \<le> e then b * 2 ^ nat e \<le> a else b \<le> a * 2 ^ nat (- e)) then e else e - 1)"

text \<open>
  The double nearest to \<open>a / b\<close>: the quotient is scaled to a significand of 53 bits,
  rounded to an integer, and scaled back. Quotients in the normal range of doubles only
  (no overflow, no subnormals).
\<close>

definition double_quotient :: "nat \<Rightarrow> nat \<Rightarrow> real" where
  "double_quotient a b =
     (if a = 0 then 0
      else let t = 52 - binary_exponent a b
           in if 0 \<le> t then real (round_half_even (a * 2 ^ nat t) b) / 2 ^ nat t
              else real (round_half_even a (b * 2 ^ nat (- t))) * 2 ^ nat (- t))"

text \<open>
  \<^verbatim>\<open>a / b\<close> on numbers that hold an integer \<open>a\<close> and a positive integer \<open>b\<close>, both
  below \<open>2 ^ 53\<close> in magnitude (the divisor is a positive literal at every use).
\<close>

definition js_divide :: "int \<Rightarrow> nat \<Rightarrow> real" where
  "js_divide a b =
     (if a < 0 then - double_quotient (nat (- a)) b else double_quotient (nat a) b)"

text \<open>\<^verbatim>\<open>Number(n)\<close> on a \<^verbatim>\<open>bigint\<close>: the double nearest to \<open>n\<close>, which is an integer.\<close>

definition Number_of_bigint :: "int \<Rightarrow> int" where
  "Number_of_bigint n =
     (if \<bar>n\<bar> < 2 ^ 53 then n
      else let k = bits (nat \<bar>n\<bar>) - 53
           in sgn n * int (round_half_even (nat \<bar>n\<bar>) (2 ^ k) * 2 ^ k))"

subsection \<open>Class \<^verbatim>\<open>Device\<close> (\<^verbatim>\<open>device.ts\<close>)\<close>

record Device =
  handle :: KoffiNvmlDevice
  index :: int

definition NvmlTemperatureSensors_GPU :: int where "NvmlTemperatureSensors_GPU = 0"
definition NvmlMemoryErrorType_CORRECTED :: int where "NvmlMemoryErrorType_CORRECTED = 0"
definition NvmlEccCounterType_VOLATILE :: int where "NvmlEccCounterType_VOLATILE = 0"

definition isInteger :: "real \<Rightarrow> bool" where
  "isInteger x \<longleftrightarrow> of_int \<lfloor>x\<rfloor> = x"

text \<open>
  \<^verbatim>\<open>Device.getByIndex\<close>. The argument is a JavaScript number (\<^verbatim>\<open>NaN\<close> and the infinities,
  which the guard also rejects, are outside \<open>real\<close>).
\<close>

definition getByIndex :: "world \<Rightarrow> real \<Rightarrow> Device M" where
  "getByIndex w i =
     (if \<not> isInteger i \<or> i < 0 then throwM (InvalidDeviceIndex i)
      else bindM (nvmlDeviceGetHandleByIndex w \<lfloor>i\<rfloor>) (\<lambda>(r, device).
        if \<not> isSuccess r \<or> device = None then
          throwM (Nvml (fromReturn r
                          (''Failed to get device at index '' @ js_number_string w i)))
        else returnM \<lparr>handle = the device, index = \<lfloor>i\<rfloor>\<rparr>))"

text \<open>
  \<^verbatim>\<open>uuid.trim().length === 0\<close>. \<^verbatim>\<open>trim\<close> strips the white space and the line terminators
  of ECMAScript: U+0009 to U+000D, U+0020, U+00A0, U+1680, U+2000 to U+200A, U+2028,
  U+2029, U+202F, U+205F, U+3000 and U+FEFF, listed here in UTF-8.
\<close>

definition js_white_space :: "string list" where
  "js_white_space =
     [[CHR 0x09], [CHR 0x0A], [CHR 0x0B], [CHR 0x0C], [CHR 0x0D], [CHR 0x20],
      [CHR 0xC2, CHR 0xA0],
      [CHR 0xE1, CHR 0x9A, CHR 0x80],
      [CHR 0xE2, CHR 0x80, CHR 0x80], [CHR 0xE2, CHR 0x80, CHR 0x81],
      [CHR 0xE2, CHR 0x80, CHR 0x82], [CHR 0xE2, CHR 0x80, CHR 0x83],
      [CHR 0xE2, CHR 0x80, CHR 0x84], [CHR 0xE2, CHR 0x80, CHR 0x85],
      [CHR 0xE2, CHR 0x80, CHR 0x86], [CHR 0xE2, CHR 0x80, CHR 0x87],
      [CHR 0xE2, CHR 0x80, CHR 0x88], [CHR 0xE2, CHR 0x80, CHR 0x89],
      [CHR 0xE2, CHR 0x80, CHR 0x8A],
      [CHR 0xE2, CHR 0x80, CHR 0xA8], [CHR 0xE2, CHR 0x80, CHR 0xA9],
      [CHR 0xE2, CHR 0x80, CHR 0xAF],
      [CHR 0xE2, CHR 0x81, CHR 0x9F],
      [CHR 0xE3, CHR 0x80, CHR 0x80],
      [CHR 0xEF, CHR 0xBB, CHR 0xBF]]"

text \<open>The number of bytes of the white-space character a text begins with, if it does.\<close>

definition js_space_prefix :: "string \<Rightarrow> nat" where
  "js_space_prefix s =
     (case find (\<lambda>u. take (length u) s = u) js_white_space of
        Some u \<Rightarrow> length u
      | None \<Rightarrow> 0)"

function trim_is_empty :: "string \<Rightarrow> bool" where
  "trim_is_empty s =
     (if s = [] then True
      else if js_space_prefix s = 0 then False
      else trim_is_empty (drop (js_space_prefix s) s))"
  by pat_completeness auto

termination trim_is_empty
  by (relation "measure length") auto

declare trim_is_empty.simps [simp del]

definition getByUUID :: "world \<Rightarrow> string \<Rightarrow> Device M" where
  "getByUUID w uuid =
     (if trim_is_empty uuid then throwM InvalidDeviceUUID
      else bindM (nvmlDeviceGetHandleByUUID w uuid) (\<lambda>(r, device).
        if \<not> isSuccess r \<or> device = None then
          throwM (Nvml (fromReturn r (''Failed to get device with UUID '' @ uuid)))
        else returnM \<lparr>handle = the device, index = - 1\<rparr>))"

definition getName :: "world \<Rightarrow> Device \<Rightarrow> string Result M" where
  "getName w d =
     bindM (nvmlDeviceGetName w (handle d)) (\<lambda>(r, name).
       if \<not> isSuccess r then returnM (errFromReturn r ''Failed to get device name'')
       else returnM (ok name))"

definition getUUID :: "world \<Rightarrow> Device \<Rightarrow> string Result M" where
  "getUUID w d =
     bindM (nvmlDeviceGetUUID w (handle d)) (\<lambda>(r, uuid).
       if \<not> isSuccess r then returnM (errFromReturn r ''Failed to get device UUID'')
       else returnM (ok uuid))"

definition getMemoryInfo :: "world \<Rightarrow> Device \<Rightarrow> MemoryInfo Result M" where
  "getMemoryInfo w d =
     bindM (nvmlDeviceGetMemoryInfo w (handle d)) (\<lambda>(r, memory).
       if \<not> isSuccess r then returnM (errFromReturn r ''Failed to get memory info'')
       else returnM (ok \<lparr>mem_total = uint (raw_total memory),
                          mem_free = uint (raw_free memory),
                          mem_used = uint (raw_used memory)\<rparr>))"

definition getUtilizationRates :: "world \<Rightarrow> Device \<Rightarrow> UtilizationRates Result M" where
  "getUtilizationRates w d =
     bindM (nvmlDeviceGetUtilizationRates w (handle d)) (\<lambda>(r, utilization).
       if \<not> isSuccess r then returnM (errFromReturn r ''Failed to get utilization rates'')
       else returnM (ok \<lparr>util_gpu = raw_gpu utilization,
                          util_memory = raw_memory utilization\<rparr>))"

definition getTemperature :: "world \<Rightarrow> Device \<Rightarrow> int Result M" where
  "getTemperature w d =
     bindM (nvmlDeviceGetTemperature w (handle d) NvmlTemperatureSensors_GPU) (\<lambda>(r, t).
       if \<not> isSuccess r then returnM (errFromReturn r ''Failed to get temperature'')
       else returnM (ok t))"

definition getPowerUsage :: "world \<Rightarrow> Device \<Rightarrow> real Result M" where
  "getPowerUsage w d =
     bindM (nvmlDeviceGetPowerUsage w (handle d)) (\<lambda>(r, power).
       if \<not> isSuccess r then returnM (errFromReturn r ''Failed to get power usage'')
       else returnM (ok (js_divide power 1000)))"

definition getPowerLimit :: "world \<Rightarrow> Device \<Rightarrow> real Result M" where
  "getPowerLimit w d =
     bindM (nvmlDeviceGetPowerManagementLimit w (handle d)) (\<lambda>(r, limit).
       if \<not> isSuccess r then returnM (errFromReturn r ''Failed to get power limit'')
       else returnM (ok (js_divide limit 1000)))"

definition getFanSpeed :: "world \<Rightarrow> Device \<Rightarrow> int option Result M" where
  "getFanSpeed w d =
     bindM (nvmlDeviceGetFanSpeed w (handle d)) (\<lambda>(r, speed).
       if r = ERROR_NOT_SUPPORTED then returnM (ok None)
       else if \<not> isSuccess r then returnM (errFromReturn r ''Failed to get fan speed'')
       else returnM (ok (Some speed)))"

definition getPerformanceState :: "world \<Rightarrow> Device \<Rightarrow> int Result M" where
  "getPerformanceState w d =
     bindM (nvmlDeviceGetPerformanceState w (handle d)) (\<lambda>(r, pState).
       if \<not> isSuccess r then returnM (errFromReturn r ''Failed to get performance state'')
       else returnM (ok pState))"

definition getPciInfo :: "world \<Rightarrow> Device \<Rightarrow> PciInfo Result M" where
  "getPciInfo w d =
     bindM (nvmlDeviceGetPciInfo w (handle d)) (\<lambda>(r, pci).
       if \<not> isSuccess r then returnM (errFromReturn r ''Failed to get PCI info'')
       else returnM (ok \<lparr>pci_busId = raw_busId pci,
                          pci_domain = raw_domain pci,
                          pci_bus = raw_bus pci,
                          pci_device = raw_device pci,
                          pci_function = 0,
                          pci_pciDeviceId = raw_pciDeviceId pci,
                          pci_pciSubsystemId = raw_pciSubSystemId pci\<rparr>))"

definition getPersistenceMode :: "world \<Rightarrow> Device \<Rightarrow> bool Result M" where
  "getPersistenceMode w d =
     bindM (nvmlDeviceGetPersistenceMode w (handle d)) (\<lambda>(r, enabled).
       if \<not> isSuccess r then returnM (errFromReturn r ''Failed to get persistence mode'')
       else returnM (ok enabled))"

definition getDisplayActive :: "world \<Rightarrow> Device \<Rightarrow> bool Result M" where
  "getDisplayActive w d =
     bindM (nvmlDeviceGetDisplayActive w (handle d)) (\<lambda>(r, active).
       if \<not> isSuccess r then returnM (errFromReturn r ''Failed to get display active status'')
       else returnM (ok active))"

definition getComputeMode :: "world \<Rightarrow> Device \<Rightarrow> int Result M" where
  "getComputeMode w d =
     bindM (nvmlDeviceGetComputeMode w (handle d)) (\<lambda>(r, mode).
       if \<not> isSuccess r then returnM (errFromReturn r ''Failed to get compute mode'')
       else returnM (ok mode))"

definition getMigMode :: "world \<Rightarrow> Device \<Rightarrow> bool option Result M" where
  "getMigMode w d =
     bindM (nvmlDeviceGetMigMode w (handle d)) (\<lambda>(r, currentMode, pendingMode).
       if r = ERROR_NOT_SUPPORTED then returnM (ok None)
       else if \<not> isSuccess r then returnM (errFromReturn r ''Failed to get MIG mode'')
       else returnM (ok (Some (currentMode = 1))))"

definition getEccErrorsCorrected :: "world \<Rightarrow> Device \<Rightarrow> int option Result M" where
  "getEccErrorsCorrected w d =
     bindM (nvmlDeviceGetTotalEccErrors w (handle d)
              NvmlMemoryErrorType_CORRECTED NvmlEccCounterType_VOLATILE) (\<lambda>(r, count).
       if r = ERROR_NOT_SUPPORTED then returnM (ok None)
       else if \<not> isSuccess r then returnM (errFromReturn r ''Failed to get ECC errors'')
       else returnM (ok (Some (Number_of_bigint count))))"

text \<open>
  \<^verbatim>\<open>Number(bytes / (1024n * 1024n))\<close> on a \<^verbatim>\<open>bigint\<close> that holds an unsigned count.
  \<^verbatim>\<open>Math.round\<close> rounds half up.
\<close>

definition bytesToMiB :: "int \<Rightarrow> int" where
  "bytesToMiB b = Number_of_bigint (b div (1024 * 1024))"

definition js_round :: "real \<Rightarrow> int" where
  "js_round x = \<lfloor>x + 1 / 2\<rfloor>"

text \<open>
  In \<^verbatim>\<open>Math.round((totalMiB / 1024) * 10) / 10\<close> the division by 1024 and the product
  by 10 are exact for a count of MiB below \<open>2 ^ 44\<close> (a power of two divides, and the
  product has fewer than 53 bits); the last division rounds.
\<close>

definition getBasicInfo :: "world \<Rightarrow> Device \<Rightarrow> GpuBasicInfo Result M" where
  "getBasicInfo w d =
     bindM (getName w d) (\<lambda>nameResult.
       case nameResult of Err e \<Rightarrow> returnM (Err e) | Ok name \<Rightarrow>
     bindM (getMemoryInfo w d) (\<lambda>memoryResult.
       case memoryResult of Err e \<Rightarrow> returnM (Err e) | Ok memory \<Rightarrow>
     returnM (ok \<lparr>info_index = index d,
                   info_name = name,
                   info_memoryTotalMiB = bytesToMiB (mem_total memory),
                   info_memoryTotalGiB =
                     js_divide
                       (js_round (real_of_int (bytesToMiB (mem_total memory)) / 1024 * 10))
                       10\<rparr>)))"

definition getStatus :: "world \<Rightarrow> Device \<Rightarrow> GpuStatus Result M" where
  "getStatus w d =
     bindM (getName w d) (\<lambda>nameResult.
       case nameResult of Err e \<Rightarrow> returnM (Err e) | Ok name \<Rightarrow>
     bindM (getPersistenceMode w d) (\<lambda>persistenceResult.
       case persistenceResult of Err e \<Rightarrow> returnM (Err e) | Ok persistence \<Rightarrow>
     bindM (getPciInfo w d) (\<lambda>pciResult.
       case pciResult of Err e \<Rightarrow> returnM (Err e) | Ok pci \<Rightarrow>
     bindM (getDisplayActive w d) (\<lambda>displayResult.
       case displayResult of Err e \<Rightarrow> returnM (Err e) | Ok display \<Rightarrow>
     bindM (getEccErrorsCorrected w d) (\<lambda>eccResult.
       case eccResult of Err e \<Rightarrow> returnM (Err e) | Ok ecc \<Rightarrow>
     bindM (getFanSpeed w d) (\<lambda>fanResult.
       case fanResult of Err e \<Rightarrow> returnM (Err e) | Ok fan \<Rightarrow>
     bindM (getTemperature w d) (\<lambda>tempResult.
       case tempResult of Err e \<Rightarrow> returnM (Err e) | Ok temp \<Rightarrow>
     bindM (getPerformanceState w d) (\<lambda>pstateResult.
       case pstateResult of Err e \<Rightarrow> returnM (Err e) | Ok pstateValue \<Rightarrow>
     bindM (getPowerUsage w d) (\<lambda>powerResult.
       case powerResult of Err e \<Rightarrow> returnM (Err e) | Ok powerValue \<Rightarrow>
     bindM (getPowerLimit w d) (\<lambda>powerLimitResult.
       case powerLimitResult of Err e \<Rightarrow> returnM (Err e) | Ok limit \<Rightarrow>
     bindM (getMemoryInfo w d) (\<lambda>memoryResult.
       case memoryResult of Err e \<Rightarrow> returnM (Err e) | Ok memory \<Rightarrow>
     bindM (getUtilizationRates w d) (\<lambda>utilResult.
       case utilResult of Err e \<Rightarrow> returnM (Err e) | Ok util \<Rightarrow>
     bindM (getComputeMode w d) (\<lambda>computeModeResult.
       case computeModeResult of Err e \<Rightarrow> returnM (Err e) | Ok cmode \<Rightarrow>
     bindM (getMigMode w d) (\<lambda>migResult.
       case migResult of Err e \<Rightarrow> returnM (Err e) | Ok mig \<Rightarrow>
     returnM (ok \<lparr>status_index = index d,
                   status_name = name,
                   persistenceMode = persistence,
                   pciBusId = pci_busId pci,
                   displayActive = display,
                   eccErrorsCorrected = ecc,
                   fanSpeed = fan,
                   temperature = temp,
                   pstate = pstateValue,
                   powerDraw = powerValue,
                   powerLimit = limit,
                   memoryUsedMiB = bytesToMiB (mem_used memory),
                   memoryTotalMiB = bytesToMiB (mem_total memory),
                   utilizationGpu = util_gpu util,
                   utilizationMemory = util_memory util,
                   computeMode = cmode,
                   migMode = mig\<rparr>)))))))))))))))"

text \<open>
  The loop of \<^verbatim>\<open>getProcesses\<close> over the combined raw list, with its set \<^verbatim>\<open>seenPids\<close> and
  the array \<^verbatim>\<open>processes\<close> it pushes to.
\<close>

fun collect_processes ::
  "world \<Rightarrow> int \<Rightarrow> RawProcessInfo list \<Rightarrow> nat set \<Rightarrow> GpuProcess list \<Rightarrow> GpuProcess list M"
where
  "collect_processes w gi [] seenPids acc = returnM acc"
| "collect_processes w gi (rawProc # rest) seenPids acc =
     (if pid rawProc \<in> seenPids then collect_processes w gi rest seenPids acc
      else bindM (nvmlSystemGetProcessName w (pid rawProc)) (\<lambda>(r, name).
        collect_processes w gi rest (insert (pid rawProc) seenPids)
          (acc @ [\<lparr>gpuIndex = gi,
                    proc_pid = pid rawProc,
                    processName = (if isSuccess r then name
                                   else ''pid:'' @ show_nat (pid rawProc)),
                    usedMemoryMiB = bytesToMiB (uint (usedGpuMemory rawProc))\<rparr>])))"

definition getProcesses :: "world \<Rightarrow> Device \<Rightarrow> GpuProcess list Result M" where
  "getProcesses w d =
     bindM (nvmlDeviceGetComputeRunningProcesses w (handle d)) (\<lambda>(cret, cprocs).
       if \<not> isSuccess cret then
         returnM (errFromReturn cret ''Failed to get compute processes'')
       else
     bindM (nvmlDeviceGetGraphicsRunningProcesses w (handle d)) (\<lambda>(gret, gprocs).
       if \<not> isSuccess gret then
         returnM (errFromReturn gret ''Failed to get graphics processes'')
       else
     bindM (collect_processes w (index d) (cprocs @ gprocs) {} []) (\<lambda>ps.
     returnM (ok ps))))"

definition getHandle :: "Device \<Rightarrow> KoffiNvmlDevice" where
  "getHandle d = handle d"

subsection \<open>Namespace \<^verbatim>\<open>Nvml\<close> (\<^verbatim>\<open>nvml.ts\<close>)\<close>

definition set_initialized :: "bool \<Rightarrow> unit M" where
  "set_initialized b = (\<lambda>s. (Inr (), s\<lparr>initialized := b\<rparr>))"

definition init :: "world \<Rightarrow> unit M" where
  "init w =
     bindM (nvmlInit w) (\<lambda>r.
       if \<not> isSuccess r then throwM (Nvml (fromReturn r ''Failed to initialize NVML''))
       else set_initialized True)"

definition shutdown :: "world \<Rightarrow> unit M" where
  "shutdown w =
     bindM (nvmlShutdown w) (\<lambda>r.
       if \<not> isSuccess r then throwM (Nvml (fromReturn r ''Failed to shutdown NVML''))
       else set_initialized False)"

definition isInitialized :: "bool M" where
  "isInitialized = (\<lambda>s. (Inr (initialized s), s))"

definition ensureInitialized :: "unit M" where
  "ensureInitialized = (\<lambda>s.
     if \<not> initialized s then
       (Inl (Nvml (NvmlError ERROR_UNINITIALIZED
                     ''NVML not initialized. Call Nvml.init() first.'')), s)
     else (Inr (), s))"

definition getDeviceCount :: "world \<Rightarrow> int M" where
  "getDeviceCount w =
     bindM ensureInitialized (\<lambda>_.
     bindM (nvmlDeviceGetCount w) (\<lambda>(r, count).
       if \<not> isSuccess r then throwM (Nvml (fromReturn r ''Failed to get device count''))
       else returnM count))"

definition getDevice :: "world \<Rightarrow> real \<Rightarrow> Device M" where
  "getDevice w i = bindM ensureInitialized (\<lambda>_. getByIndex w i)"

definition getDeviceByUUID :: "world \<Rightarrow> string \<Rightarrow> Device M" where
  "getDeviceByUUID w uuid = bindM ensureInitialized (\<lambda>_. getByUUID w uuid)"

text \<open>The loops \<^verbatim>\<open>for (let i = 0; i < count; i++)\<close> run over \<open>indices count\<close>.\<close>

definition indices :: "int \<Rightarrow> nat list" where
  "indices count = [0..<nat count]"

fun getAllDevices_loop :: "world \<Rightarrow> nat list \<Rightarrow> Device list \<Rightarrow> Device list M" where
  "getAllDevices_loop w [] devices = returnM devices"
| "getAllDevices_loop w (i # rest) devices =
     bindM (getByIndex w (real i)) (\<lambda>device.
     getAllDevices_loop w rest (devices @ [device]))"

definition getAllDevices :: "world \<Rightarrow> Device list M" where
  "getAllDevices w =
     bindM (getDeviceCount w) (\<lambda>count. getAllDevices_loop w (indices count) [])"

definition getDriverInfo :: "world \<Rightarrow> DriverInfo Result M" where
  "getDriverInfo w =
     bindM ensureInitialized (\<lambda>_.
     bindM (nvmlSystemGetDriverVersion w) (\<lambda>(dret, dversion).
       if \<not> isSuccess dret then returnM (errFromReturn dret ''Failed to get driver version'')
       else
     bindM (nvmlSystemGetNvmlVersion w) (\<lambda>(nret, nversion).
       if \<not> isSuccess nret then returnM (errFromReturn nret ''Failed to get NVML version'')
       else
     bindM (nvmlSystemGetCudaDriverVersion_v2 w) (\<lambda>(cret, cversion).
       if \<not> isSuccess cret then returnM (errFromReturn cret ''Failed to get CUDA version'')
       else
     returnM (ok \<lparr>driverVersion = dversion,
                   nvmlVersion = nversion,
                   cudaVersion = cudaVersionToString cversion\<rparr>)))))"

definition getDriverVersion :: "world \<Rightarrow> string Result M" where
  "getDriverVersion w =
     bindM ensureInitialized (\<lambda>_.
     bindM (nvmlSystemGetDriverVersion w) (\<lambda>(r, version).
       if \<not> isSuccess r then returnM (errFromReturn r ''Failed to get driver version'')
       else returnM (ok version)))"

definition getNvmlVersion :: "world \<Rightarrow> string Result M" where
  "getNvmlVersion w =
     bindM ensureInitialized (\<lambda>_.
     bindM (nvmlSystemGetNvmlVersion w) (\<lambda>(r, version).
       if \<not> isSuccess r then returnM (errFromReturn r ''Failed to get NVML version'')
       else returnM (ok version)))"

definition getCudaVersion :: "world \<Rightarrow> string Result M" where
  "getCudaVersion w =
     bindM ensureInitialized (\<lambda>_.
     bindM (nvmlSystemGetCudaDriverVersion_v2 w) (\<lambda>(r, version).
       if \<not> isSuccess r then returnM (errFromReturn r ''Failed to get CUDA version'')
       else returnM (ok (cudaVersionToString version))))"

fun getAllGpuStatus_loop ::
  "world \<Rightarrow> nat list \<Rightarrow> GpuStatus list \<Rightarrow> GpuStatus list Result M" where
  "getAllGpuStatus_loop w [] statuses = returnM (ok statuses)"
| "getAllGpuStatus_loop w (i # rest) statuses =
     bindM (getByIndex w (real i)) (\<lambda>device.
     bindM (getStatus w device) (\<lambda>statusResult.
       case statusResult of
         Err e \<Rightarrow> returnM (Err e)
       | Ok st \<Rightarrow> getAllGpuStatus_loop w rest (statuses @ [st])))"

definition getAllGpuStatus :: "world \<Rightarrow> GpuStatus list Result M" where
  "getAllGpuStatus w =
     bindM ensureInitialized (\<lambda>_.
     bindM (nvmlDeviceGetCount w) (\<lambda>(r, count).
       if \<not> isSuccess r then returnM (errFromReturn r ''Failed to get device count'')
       else getAllGpuStatus_loop w (indices count) []))"

fun allProcesses_loop ::
  "world \<Rightarrow> nat list \<Rightarrow> GpuProcess list \<Rightarrow> GpuProcess list Result M" where
  "allProcesses_loop w [] allProcesses = returnM (ok allProcesses)"
| "allProcesses_loop w (i # rest) allProcesses =
     bindM (getByIndex w (real i)) (\<lambda>device.
     bindM (getProcesses w device) (\<lambda>processResult.
       case processResult of
         Err e \<Rightarrow> returnM (Err e)
       | Ok ps \<Rightarrow> allProcesses_loop w rest (allProcesses @ ps)))"

text \<open>\<^verbatim>\<open>new Date()\<close>.\<close>

definition newDate :: "world \<Rightarrow> int M" where
  "newDate w = (\<lambda>s.
     (Inr (clock w (length (effects s))), s\<lparr>effects := effects s @ [ClockRead]\<rparr>))"

definition getSystemSnapshot :: "world \<Rightarrow> SystemSnapshot Result M" where
  "getSystemSnapshot w =
     bindM ensureInitialized (\<lambda>_.
     bindM (getDriverInfo w) (\<lambda>driverInfoResult.
       case driverInfoResult of Err e \<Rightarrow> returnM (Err e) | Ok driverInfo \<Rightarrow>
     bindM (getAllGpuStatus w) (\<lambda>gpuStatusResult.
       case gpuStatusResult of Err e \<Rightarrow> returnM (Err e) | Ok gpuStatus \<Rightarrow>
     bindM (nvmlDeviceGetCount w) (\<lambda>(r, count).
       if \<not> isSuccess r then
         returnM (errFromReturn r ''Failed to get device count for process query'')
       else
     bindM (allProcesses_loop w (indices count) []) (\<lambda>processesResult.
       case processesResult of Err e \<Rightarrow> returnM (Err e) | Ok allProcesses \<Rightarrow>
     bindM (newDate w) (\<lambda>now.
     returnM (ok \<lparr>timestamp = now,
                   driver = driverInfo,
                   gpus = gpuStatus,
                   processes = allProcesses\<rparr>)))))))"

section \<open>Vocabulary of the properties\<close>

text \<open>
  The definitions of this section are not code of the library; they name what the
  properties talk about.
\<close>

subsection \<open>The single-field queries of \<^verbatim>\<open>Device\<close>\<close>

datatype field_query =
    QName | QUUID | QMemoryInfo | QUtilizationRates | QTemperature | QPowerUsage
  | QPowerLimit | QFanSpeed | QPerformanceState | QPciInfo | QPersistenceMode
  | QDisplayActive | QComputeMode | QMigMode | QEccErrorsCorrected

text \<open>The failure of a result, if it is one; \<open>failure_only\<close> forgets the value of a query.\<close>

definition failure_of :: "'a Result \<Rightarrow> NvmlError option" where
  "failure_of r = (case r of Ok v \<Rightarrow> None | Err e \<Rightarrow> Some e)"

definition failure_only :: "'a Result M \<Rightarrow> NvmlError option M" where
  "failure_only m = bindM m (\<lambda>r. returnM (failure_of r))"

primrec run_query :: "world \<Rightarrow> Device \<Rightarrow> field_query \<Rightarrow> NvmlError option M" where
  "run_query w d QName = failure_only (getName w d)"
| "run_query w d QUUID = failure_only (getUUID w d)"
| "run_query w d QMemoryInfo = failure_only (getMemoryInfo w d)"
| "run_query w d QUtilizationRates = failure_only (getUtilizationRates w d)"
| "run_query w d QTemperature = failure_only (getTemperature w d)"
| "run_query w d QPowerUsage = failure_only (getPowerUsage w d)"
| "run_query w d QPowerLimit = failure_only (getPowerLimit w d)"
| "run_query w d QFanSpeed = failure_only (getFanSpeed w d)"
| "run_query w d QPerformanceState = failure_only (getPerformanceState w d)"
| "run_query w d QPciInfo = failure_only (getPciInfo w d)"
| "run_query w d QPersistenceMode = failure_only (getPersistenceMode w d)"
| "run_query w d QDisplayActive = failure_only (getDisplayActive w d)"
| "run_query w d QComputeMode = failure_only (getComputeMode w d)"
| "run_query w d QMigMode = failure_only (getMigMode w d)"
| "run_query w d QEccErrorsCorrected = failure_only (getEccErrorsCorrected w d)"

text \<open>The symbol a query calls, the in-arguments it passes and the context of its failure.\<close>

primrec query_symbol :: "field_query \<Rightarrow> symbol" where
  "query_symbol QName = sym_nvmlDeviceGetName"
| "query_symbol QUUID = sym_nvmlDeviceGetUUID"
| "query_symbol QMemoryInfo = sym_nvmlDeviceGetMemoryInfo"
| "query_symbol QUtilizationRates = sym_nvmlDeviceGetUtilizationRates"
| "query_symbol QTemperature = sym_nvmlDeviceGetTemperature"
| "query_symbol QPowerUsage = sym_nvmlDeviceGetPowerUsage"
| "query_symbol QPowerLimit = sym_nvmlDeviceGetPowerManagementLimit"
| "query_symbol QFanSpeed = sym_nvmlDeviceGetFanSpeed"
| "query_symbol QPerformanceState = sym_nvmlDeviceGetPerformanceState"
| "query_symbol QPciInfo = sym_nvmlDeviceGetPciInfo_v3"
| "query_symbol QPersistenceMode = sym_nvmlDeviceGetPersistenceMode"
| "query_symbol QDisplayActive = sym_nvmlDeviceGetDisplayActive"
| "query_symbol QComputeMode = sym_nvmlDeviceGetComputeMode"
| "query_symbol QMigMode = sym_nvmlDeviceGetMigMode"
| "query_symbol QEccErrorsCorrected = sym_nvmlDeviceGetTotalEccErrors"

primrec query_args :: "Device \<Rightarrow> field_query \<Rightarrow> arg list" where
  "query_args d QName = [ADevice (handle d), ANum 64]"
| "query_args d QUUID = [ADevice (handle d), ANum 80]"
| "query_args d QMemoryInfo = [ADevice (handle d)]"
| "query_args d QUtilizationRates = [ADevice (handle d)]"
| "query_args d QTemperature = [ADevice (handle d), ANum 0]"
| "query_args d QPowerUsage = [ADevice (handle d)]"
| "query_args d QPowerLimit = [ADevice (handle d)]"
| "query_args d QFanSpeed = [ADevice (handle d)]"
| "query_args d QPerformanceState = [ADevice (handle d)]"
| "query_args d QPciInfo = [ADevice (handle d)]"
| "query_args d QPersistenceMode = [ADevice (handle d)]"
| "query_args d QDisplayActive = [ADevice (handle d)]"
| "query_args d QComputeMode = [ADevice (handle d)]"
| "query_args d QMigMode = [ADevice (handle d)]"
| "query_args d QEccErrorsCorrected = [ADevice (handle d), ANum 0, ANum 0]"

primrec query_context :: "field_query \<Rightarrow> string" where
  "query_context QName = ''Failed to get device name''"
| "query_context QUUID = ''Failed to get device UUID''"
| "query_context QMemoryInfo = ''Failed to get memory info''"
| "query_context QUtilizationRates = ''Failed to get utilization rates''"
| "query_context QTemperature = ''Failed to get temperature''"
| "query_context QPowerUsage = ''Failed to get power usage''"
| "query_context QPowerLimit = ''Failed to get power limit''"
| "query_context QFanSpeed = ''Failed to get fan speed''"
| "query_context QPerformanceState = ''Failed to get performance state''"
| "query_context QPciInfo = ''Failed to get PCI info''"
| "query_context QPersistenceMode = ''Failed to get persistence mode''"
| "query_context QDisplayActive = ''Failed to get display active status''"
| "query_context QComputeMode = ''Failed to get compute mode''"
| "query_context QMigMode = ''Failed to get MIG mode''"
| "query_context QEccErrorsCorrected = ''Failed to get ECC errors''"

definition optional_query :: "field_query \<Rightarrow> bool" where
  "optional_query q \<longleftrightarrow> q = QFanSpeed \<or> q = QMigMode \<or> q = QEccErrorsCorrected"

text \<open>The order in which the composite methods ask.\<close>

definition basic_info_sequence :: "field_query list" where
  "basic_info_sequence = [QName, QMemoryInfo]"

definition status_sequence :: "field_query list" where
  "status_sequence =
     [QName, QPersistenceMode, QPciInfo, QDisplayActive, QEccErrorsCorrected, QFanSpeed,
      QTemperature, QPerformanceState, QPowerUsage, QPowerLimit, QMemoryInfo,
      QUtilizationRates, QComputeMode, QMigMode]"

text \<open>
  Asking the queries of a sequence one after the other from state \<open>s\<close>: the position and
  the failure of the first query that fails, with the state right after it; \<open>None\<close> when
  none fails (or one throws).
\<close>

fun first_failure ::
  "world \<Rightarrow> Device \<Rightarrow> field_query list \<Rightarrow> state \<Rightarrow> (nat \<times> NvmlError \<times> state) option" where
  "first_failure w d [] s = None"
| "first_failure w d (q # qs) s =
     (case run_query w d q s of
        (Inr (Some e), s') \<Rightarrow> Some (0, e, s')
      | (Inr None, s') \<Rightarrow>
          (case first_failure w d qs s' of
             None \<Rightarrow> None
           | Some (k, e, s'') \<Rightarrow> Some (Suc k, e, s''))
      | (Inl x, s') \<Rightarrow> None)"

text \<open>The symbols invoked by a stretch of the effect log, in order.\<close>

primrec event_symbol :: "event \<Rightarrow> symbol option" where
  "event_symbol (Invoke c args) = Some (bound_symbol c)"
| "event_symbol ClockRead = None"

definition effects_since :: "state \<Rightarrow> state \<Rightarrow> event list" where
  "effects_since s s' = drop (length (effects s)) (effects s')"

subsection \<open>The error thrown before initialisation\<close>

definition uninitialized_error :: exn where
  "uninitialized_error =
     Nvml (NvmlError ERROR_UNINITIALIZED ''NVML not initialized. Call Nvml.init() first.'')"

subsection \<open>A cache that holds, for each symbol, a binding of that symbol\<close>

definition bindings_wf :: "state \<Rightarrow> bool" where
  "bindings_wf s \<longleftrightarrow> (\<forall>f c. bindings s f = Some c \<longrightarrow> bound_symbol c = f)"

subsection \<open>When a binding can be had\<close>

text \<open>
  \<open>can_bind w s f\<close>: symbol \<open>f\<close> is already bound, or can be bound against the loaded
  library, or against the library that would be found and loaded now.
\<close>

definition can_bind :: "world \<Rightarrow> state \<Rightarrow> symbol \<Rightarrow> bool" where
  "can_bind w s f \<longleftrightarrow>
     bindings s f \<noteq> None
     \<or> (case lib s of
          Some l \<Rightarrow> koffi_func w (lib_path l) (signature_of f)
        | None \<Rightarrow>
           (case findLibraryPath w of
              None \<Rightarrow> False
            | Some p \<Rightarrow> p \<noteq> [] \<and> koffi_load w p \<and> koffi_func w p (signature_of f)))"

text \<open>
  A computation that, from every state in which the symbols of \<open>F\<close> can be bound, returns
  (it does not throw), keeps bindable what was bindable and keeps the flag.
\<close>

definition returns_value :: "world \<Rightarrow> symbol set \<Rightarrow> 'a M \<Rightarrow> bool" where
  "returns_value w F m \<longleftrightarrow>
     (\<forall>s. (\<forall>f \<in> F. can_bind w s f) \<longrightarrow>
        (\<exists>x s'. m s = (Inr x, s') \<and> (\<forall>g. can_bind w s g \<longrightarrow> can_bind w s' g)
                \<and> initialized s' = initialized s))"

subsection \<open>Process lists\<close>

text \<open>Of the entries that share a pid, the first one only.\<close>

primrec first_by_pid :: "RawProcessInfo list \<Rightarrow> RawProcessInfo list" where
  "first_by_pid [] = []"
| "first_by_pid (p # ps) = p # filter (\<lambda>q. pid q \<noteq> pid p) (first_by_pid ps)"

text \<open>
  The in-arguments of the name lookup made for a raw entry, and the entry \<^verbatim>\<open>getProcesses\<close>
  pushes for it when the lookup answers \<open>a\<close>.
\<close>

definition name_lookup_args :: "RawProcessInfo \<Rightarrow> arg list" where
  "name_lookup_args r = [ANum (int (pid r)), ANum 256]"

definition process_entry :: "int \<Rightarrow> RawProcessInfo \<Rightarrow> response \<Rightarrow> GpuProcess" where
  "process_entry gi r a =
     \<lparr>gpuIndex = gi,
      proc_pid = pid r,
      processName = (if ret a = SUCCESS then first_field (out_text a)
                     else ''pid:'' @ show_nat (pid r)),
      usedMemoryMiB = bytesToMiB (uint (usedGpuMemory r))\<rparr>"

subsection \<open>The place of the timestamp\<close>

definition is_process_enumeration :: "symbol option \<Rightarrow> bool" where
  "is_process_enumeration y \<longleftrightarrow>
     y = Some sym_nvmlDeviceGetComputeRunningProcesses_v3
     \<or> y = Some sym_nvmlDeviceGetGraphicsRunningProcesses_v3"

text \<open>
  In a stretch of the log (a clock read shows as \<open>None\<close> under \<open>event_symbol\<close>): the clock
  is read, and no process enumeration comes before the first read.
\<close>

definition stamped_before_process_enumeration :: "event list \<Rightarrow> bool" where
  "stamped_before_process_enumeration evs \<longleftrightarrow>
     None \<in> set (map event_symbol evs)
     \<and> list_all (\<lambda>y. \<not> is_process_enumeration y)
          (takeWhile (\<lambda>y. y \<noteq> None) (map event_symbol evs))"

text \<open>A computation that, whatever it does, only adds native calls to the log.\<close>

definition only_invokes :: "'a M \<Rightarrow> bool" where
  "only_invokes m \<longleftrightarrow>
     (\<forall>s x s'. m s = (x, s') \<longrightarrow>
        (\<exists>evs. effects s' = effects s @ evs \<and> ClockRead \<notin> set evs))"

subsection \<open>A simulated single-GPU system\<close>

text \<open>
  The data of the unit-test mock (\<^verbatim>\<open>test/mocks/nvml-mock.ts\<close>), served at the native
  level: memory 8 GiB in total, temperature 55, power usage 150000 mW, CUDA version 12040.
  The graphics list repeats pid 5678 of the compute list and holds a pid without a name.
  \<open>blank\<close> is a response that leaves the out-parameters as the bindings initialise them.
\<close>

definition blank :: response where
  "blank =
     \<lparr>ret = 0, out_num = 0, out_num2 = 0, out_text = [], out_device = None,
      out_memory = \<lparr>raw_total = 0, raw_free = 0, raw_used = 0\<rparr>,
      out_utilization = \<lparr>raw_gpu = 0, raw_memory = 0\<rparr>,
      out_pci = \<lparr>raw_busIdLegacy = [], raw_domain = 0, raw_bus = 0, raw_device = 0,
                  raw_pciDeviceId = 0, raw_pciSubSystemId = 0, raw_busId = []\<rparr>,
      out_infos = []\<rparr>"

definition sim_compute :: "RawProcessInfo list" where
  "sim_compute =
     [\<lparr>pid = 1234, usedGpuMemory = 536870912, gpuInstanceId = 0, computeInstanceId = 0\<rparr>,
      \<lparr>pid = 5678, usedGpuMemory = 1073741824, gpuInstanceId = 0, computeInstanceId = 0\<rparr>]"

definition sim_graphics :: "RawProcessInfo list" where
  "sim_graphics =
     [\<lparr>pid = 5678, usedGpuMemory = 67108864, gpuInstanceId = 0, computeInstanceId = 0\<rparr>,
      \<lparr>pid = 9999, usedGpuMemory = 268435456, gpuInstanceId = 0, computeInstanceId = 0\<rparr>,
      \<lparr>pid = 4242, usedGpuMemory = 16777216, gpuInstanceId = 0, computeInstanceId = 0\<rparr>]"

primrec sim_response :: "symbol \<Rightarrow> arg list \<Rightarrow> response" where
  "sim_response sym_nvmlInit_v2 args = blank"
| "sim_response sym_nvmlInitWithFlags args = blank"
| "sim_response sym_nvmlShutdown args = blank"
| "sim_response sym_nvmlDeviceGetCount_v2 args = blank\<lparr>out_num := 1\<rparr>"
| "sim_response sym_nvmlDeviceGetHandleByIndex_v2 args =
     (if args = [ANum 0] then blank\<lparr>out_device := Some (DevHandle 0)\<rparr>
      else blank\<lparr>ret := 2\<rparr>)"
| "sim_response sym_nvmlDeviceGetHandleByUUID args =
     (if args = [AStr ''GPU-mock-uuid-1234-5678-abcdef'']
      then blank\<lparr>out_device := Some (DevHandle 0)\<rparr>
      else blank\<lparr>ret := 6\<rparr>)"
| "sim_response sym_nvmlDeviceGetName args =
     blank\<lparr>out_text := ''NVIDIA Mock GPU'' @ [CHR 0x00, CHR 0x00, CHR 0x00]\<rparr>"
| "sim_response sym_nvmlDeviceGetUUID args =
     blank\<lparr>out_text := ''GPU-mock-uuid-1234-5678-abcdef'' @ [CHR 0x00, CHR 0x00]\<rparr>"
| "sim_response sym_nvmlDeviceGetMemoryInfo args =
     blank\<lparr>out_memory :=
       \<lparr>raw_total = 8589934592, raw_free = 6442450944, raw_used = 2147483648\<rparr>\<rparr>"
| "sim_response sym_nvmlDeviceGetUtilizationRates args =
     blank\<lparr>out_utilization := \<lparr>raw_gpu = 45, raw_memory = 25\<rparr>\<rparr>"
| "sim_response sym_nvmlDeviceGetTemperature args = blank\<lparr>out_num := 55\<rparr>"
| "sim_response sym_nvmlDeviceGetPowerUsage args = blank\<lparr>out_num := 150000\<rparr>"
| "sim_response sym_nvmlDeviceGetPowerManagementLimit args = blank\<lparr>out_num := 300000\<rparr>"
| "sim_response sym_nvmlDeviceGetFanSpeed args = blank\<lparr>out_num := 50\<rparr>"
| "sim_response sym_nvmlDeviceGetPerformanceState args = blank"
| "sim_response sym_nvmlDeviceGetPciInfo_v3 args =
     blank\<lparr>out_pci :=
       \<lparr>raw_busIdLegacy = ''0000:00:1E.1'', raw_domain = 0, raw_bus = 0, raw_device = 30,
        raw_pciDeviceId = 1193046, raw_pciSubSystemId = 7903932,
        raw_busId = ''00000000:00:1E.1''\<rparr>\<rparr>"
| "sim_response sym_nvmlDeviceGetPersistenceMode args = blank\<lparr>out_num := 1\<rparr>"
| "sim_response sym_nvmlDeviceGetDisplayActive args = blank"
| "sim_response sym_nvmlDeviceGetComputeMode args = blank"
| "sim_response sym_nvmlDeviceGetMigMode args = blank"
| "sim_response sym_nvmlDeviceGetTotalEccErrors args = blank"
| "sim_response sym_nvmlSystemGetDriverVersion args =
     blank\<lparr>out_text := ''535.154.05'' @ [CHR 0x00]\<rparr>"
| "sim_response sym_nvmlSystemGetNVMLVersion args =
     blank\<lparr>out_text := ''12.535.154.05'' @ [CHR 0x00]\<rparr>"
| "sim_response sym_nvmlSystemGetCudaDriverVersion args = blank\<lparr>out_num := 12040\<rparr>"
| "sim_response sym_nvmlSystemGetCudaDriverVersion_v2 args = blank\<lparr>out_num := 12040\<rparr>"
| "sim_response sym_nvmlSystemGetProcessName args =
     (if args = [ANum 1234, ANum 256]
      then blank\<lparr>out_text := ''/usr/bin/python3'' @ [CHR 0x00] @ ''train.py'' @ [CHR 0x00]\<rparr>
      else if args = [ANum 5678, ANum 256]
      then blank\<lparr>out_text := ''/opt/cuda/bin/cuda-app'' @ [CHR 0x00]\<rparr>
      else if args = [ANum 9999, ANum 256]
      then blank\<lparr>out_text := ''/usr/bin/Xorg'' @ [CHR 0x00]\<rparr>
      else blank\<lparr>ret := 6\<rparr>)"
| "sim_response sym_nvmlDeviceGetComputeRunningProcesses_v3 args =
     blank\<lparr>out_num := 2, out_infos := sim_compute\<rparr>"
| "sim_response sym_nvmlDeviceGetGraphicsRunningProcesses_v3 args =
     blank\<lparr>out_num := 3, out_infos := sim_graphics\<rparr>"

definition sim_world :: world where
  "sim_world =
     \<lparr>NVML_LIBRARY_PATH = None,
      existsSync = (\<lambda>p. False),
      koffi_load = (\<lambda>p. True),
      koffi_func = (\<lambda>p sg. True),
      native = (\<lambda>t c args. sim_response (bound_symbol c) args),
      clock = (\<lambda>t. 1700000000000 + int t),
      large_number_string = (\<lambda>x. ''9007199254740994'')\<rparr>"

text \<open>The same system, except that the native function of symbol \<open>f\<close> returns code \<open>r\<close>.\<close>

definition sim_world_returning :: "symbol \<Rightarrow> NvmlReturn \<Rightarrow> world" where
  "sim_world_returning f r =
     sim_world\<lparr>native := (\<lambda>t c args.
       if bound_symbol c = f then (sim_response f args)\<lparr>ret := r\<rparr>
       else sim_response (bound_symbol c) args)\<rparr>"

definition sim_device :: Device where
  "sim_device = \<lparr>handle = DevHandle 0, index = 0\<rparr>"

text \<open>The library object of the simulated system's first load, and the state after \<^verbatim>\<open>init()\<close>.\<close>

definition sim_lib :: lib_handle where
  "sim_lib = LibHandle 0 ''libnvidia-ml.so.1''"

definition sim_ready :: state where
  "sim_ready =
     \<lparr>initialized = True, lib = Some sim_lib, libraryPath = Some ''libnvidia-ml.so.1'',
      bindings = (\<lambda>f. if f = sym_nvmlInit_v2 then Some (Callable sim_lib sym_nvmlInit_v2)
                       else None),
      loads = 1, effects = [Invoke (Callable sim_lib sym_nvmlInit_v2) []]\<rparr>"

text \<open>The state one native call after \<open>sim_ready\<close>, the call being the first of its symbol.\<close>

definition sim_called :: "symbol \<Rightarrow> arg list \<Rightarrow> state" where
  "sim_called f args =
     sim_ready\<lparr>bindings := (bindings sim_ready)(f := Some (Callable sim_lib f)),
               effects := effects sim_ready @ [Invoke (Callable sim_lib f) args]\<rparr>"

text \<open>
  The state one native call after \<open>s\<close>, the call being bound against the library of the
  simulated system.
\<close>

definition sim_after :: "state \<Rightarrow> symbol \<Rightarrow> arg list \<Rightarrow> state" where
  "sim_after s f args =
     s\<lparr>bindings := (bindings s)(f := Some (Callable sim_lib f)),
       effects := effects s @ [Invoke (Callable sim_lib f) args]\<rparr>"

text \<open>The same system on a driver whose library does not export symbol \<open>f\<close>.\<close>

definition sim_world_lacking :: "symbol \<Rightarrow> world" where
  "sim_world_lacking f = sim_world\<lparr>koffi_func := (\<lambda>p sg. sg \<noteq> signature_of f)\<rparr>"

section \<open>Properties\<close>

subsection \<open>Sequencing\<close>

lemma bindM_returnM [simp]: "bindM (returnM x) f = f x"
  by (simp add: bindM_def returnM_def)

lemma bindM_throwM [simp]: "bindM (throwM e) f = throwM e"
  by (simp add: bindM_def throwM_def)

lemma bindM_assoc [simp]: "bindM (bindM m f) g = bindM m (\<lambda>x. bindM (f x) g)"
  by (auto simp: bindM_def fun_eq_iff split: prod.splits sum.splits)

lemma bindM_Inr: "m s = (Inr x, s') \<Longrightarrow> bindM m f s = f x s'"
  by (simp add: bindM_def)

lemma bindM_Inl: "m s = (Inl e, s') \<Longrightarrow> bindM m f s = (Inl e, s')"
  by (simp add: bindM_def)

lemma returnM_apply: "returnM x s = (Inr x, s)"
  by (simp add: returnM_def)

lemma throwM_apply: "throwM e s = (Inl e, s)"
  by (simp add: throwM_def)

subsection \<open>Calling a native function\<close>

lemma invoke_bound:
  "bindings s f = Some c \<Longrightarrow>
   invoke w f args s =
     (Inr (native w (length (effects s)) c args), s\<lparr>effects := effects s @ [Invoke c args]\<rparr>)"
  by (simp add: invoke_def getBinding_def callBound_def bindM_def)

lemma invoke_loaded:
  "bindings s f = None \<Longrightarrow> lib s = Some l \<Longrightarrow> koffi_func w (lib_path l) (signature_of f) \<Longrightarrow>
   invoke w f args s =
     (Inr (native w (length (effects s)) (Callable l f) args),
      s\<lparr>bindings := (bindings s)(f := Some (Callable l f)),
        effects := effects s @ [Invoke (Callable l f) args]\<rparr>)"
  by (simp add: invoke_def getBinding_def getLibrary_def callBound_def bindM_def)

lemma invoke_unloaded:
  "bindings s f = None \<Longrightarrow> lib s = None \<Longrightarrow> findLibraryPath w = Some p \<Longrightarrow> p \<noteq> [] \<Longrightarrow>
   koffi_load w p \<Longrightarrow> koffi_func w p (signature_of f) \<Longrightarrow>
   invoke w f args s =
     (Inr (native w (length (effects s)) (Callable (LibHandle (loads s) p) f) args),
      s\<lparr>lib := Some (LibHandle (loads s) p), libraryPath := Some p, loads := Suc (loads s),
        bindings := (bindings s)(f := Some (Callable (LibHandle (loads s) p) f)),
        effects := effects s @ [Invoke (Callable (LibHandle (loads s) p) f) args]\<rparr>)"
  by (simp add: invoke_def getBinding_def getLibrary_def callBound_def bindM_def)

lemma sim_world_simps [simp]:
  "NVML_LIBRARY_PATH sim_world = None"
  "existsSync sim_world p = False"
  "koffi_load sim_world p = True"
  "koffi_func sim_world p sg = True"
  "native sim_world t c args = sim_response (bound_symbol c) args"
  "clock sim_world t = 1700000000000 + int t"
  by (simp_all add: sim_world_def)

lemma sim_world_returning_simps [simp]:
  "NVML_LIBRARY_PATH (sim_world_returning f r) = None"
  "existsSync (sim_world_returning f r) p = False"
  "koffi_load (sim_world_returning f r) p = True"
  "koffi_func (sim_world_returning f r) p sg = True"
  "native (sim_world_returning f r) t c args =
     (if bound_symbol c = f then (sim_response f args)\<lparr>ret := r\<rparr>
      else sim_response (bound_symbol c) args)"
  "clock (sim_world_returning f r) t = 1700000000000 + int t"
  by (simp_all add: sim_world_returning_def sim_world_def)

lemma findLibraryPath_sim [simp]:
  "findLibraryPath sim_world = Some ''libnvidia-ml.so.1''"
  "findLibraryPath (sim_world_returning f r) = Some ''libnvidia-ml.so.1''"
  by (simp_all add: findLibraryPath_def DEFAULT_LIBRARY_PATHS_def)

lemma init_sim: "init sim_world initial_state = (Inr (), sim_ready)"
  by (simp add: init_def nvmlInit_def bindM_def invoke_unloaded [where p = "''libnvidia-ml.so.1''"]
      initial_state_def sim_ready_def sim_lib_def returnM_def
      set_initialized_def isSuccess_def SUCCESS_def blank_def fun_eq_iff)

subsection \<open>Each single-field query is one native call\<close>

lemmas code_defs = isSuccess_def SUCCESS_def ERROR_NOT_SUPPORTED_def ERROR_UNINITIALIZED_def
  ok_def err_def errFromReturn_def

lemmas binding_defs =
  nvmlInit_def nvmlInitWithFlags_def nvmlShutdown_def nvmlDeviceGetCount_def
  nvmlDeviceGetHandleByIndex_def nvmlDeviceGetHandleByUUID_def nvmlDeviceGetName_def
  nvmlDeviceGetUUID_def nvmlDeviceGetMemoryInfo_def nvmlDeviceGetUtilizationRates_def
  nvmlDeviceGetTemperature_def nvmlDeviceGetPowerUsage_def
  nvmlDeviceGetPowerManagementLimit_def nvmlDeviceGetFanSpeed_def
  nvmlDeviceGetPerformanceState_def nvmlDeviceGetPciInfo_def
  nvmlDeviceGetPersistenceMode_def nvmlDeviceGetDisplayActive_def
  nvmlDeviceGetComputeMode_def nvmlDeviceGetMigMode_def nvmlDeviceGetTotalEccErrors_def
  nvmlSystemGetDriverVersion_def nvmlSystemGetNvmlVersion_def
  nvmlSystemGetCudaDriverVersion_def nvmlSystemGetCudaDriverVersion_v2_def
  nvmlSystemGetProcessName_def nvmlDeviceGetComputeRunningProcesses_def
  nvmlDeviceGetGraphicsRunningProcesses_def
  NVML_DEVICE_NAME_BUFFER_SIZE_def NVML_DEVICE_UUID_BUFFER_SIZE_def
  NVML_SYSTEM_DRIVER_VERSION_BUFFER_SIZE_def NVML_SYSTEM_NVML_VERSION_BUFFER_SIZE_def
  NvmlTemperatureSensors_GPU_def NvmlMemoryErrorType_CORRECTED_def
  NvmlEccCounterType_VOLATILE_def

lemmas query_defs =
  getName_def getUUID_def getMemoryInfo_def getUtilizationRates_def getTemperature_def
  getPowerUsage_def getPowerLimit_def getFanSpeed_def getPerformanceState_def getPciInfo_def
  getPersistenceMode_def getDisplayActive_def getComputeMode_def getMigMode_def
  getEccErrorsCorrected_def

lemma run_query_eq:
  "run_query w d q =
     bindM (invoke w (query_symbol q) (query_args d q)) (\<lambda>r.
       returnM (if ret r = SUCCESS \<or> (optional_query q \<and> ret r = ERROR_NOT_SUPPORTED)
                then None else Some (fromReturn (ret r) (query_context q))))"
  by (cases q)
     (simp_all add: failure_only_def failure_of_def query_defs binding_defs code_defs
        optional_query_def fun_eq_iff bindM_def returnM_def split: prod.splits sum.splits)

lemma getFanSpeed_eq:
  "getFanSpeed w d =
     bindM (invoke w sym_nvmlDeviceGetFanSpeed [ADevice (handle d)]) (\<lambda>r.
       returnM (if ret r = ERROR_NOT_SUPPORTED then Ok None
                else if ret r \<noteq> SUCCESS then Err (fromReturn (ret r) ''Failed to get fan speed'')
                else Ok (Some (out_num r))))"
  by (simp add: getFanSpeed_def binding_defs code_defs fun_eq_iff bindM_def returnM_def
      split: prod.splits sum.splits)


lemma invoke_sim_ready:
  "f \<noteq> sym_nvmlInit_v2 \<Longrightarrow> koffi_func w ''libnvidia-ml.so.1'' (signature_of f) \<Longrightarrow>
   invoke w f args sim_ready = (Inr (native w 1 (Callable sim_lib f) args), sim_called f args)"
  by (simp add: invoke_loaded [where l = sim_lib] sim_ready_def sim_called_def sim_lib_def)



subsection \<open>The Result combinators\<close>

text \<open>
  Claim C9. On a success \<^verbatim>\<open>map\<close> invokes the callback on the value and wraps what it
  returns (what it throws is thrown, and its effects stay); for a callback without
  effects that is \<open>ok (g x)\<close>. On a failure \<^verbatim>\<open>map\<close> returns the same failure and the
  callback is not invoked: whatever the callback is, one that throws or one that calls a
  native function, nothing is thrown and the state with its log of native calls is the
  one before. \<^verbatim>\<open>andThen\<close> on a success is the callback's own outcome, and on a failure
  it returns that failure, again without invoking the callback.
\<close>

theorem result_combinator_laws:
  "map_result (ok x) f s
     = (case f x s of (Inl ex, s') \<Rightarrow> (Inl ex, s') | (Inr y, s') \<Rightarrow> (Inr (ok y), s'))
   \<and> map_result (ok x) (\<lambda>v. returnM (g v)) s = (Inr (ok (g x)), s)
   \<and> map_result (err e) f s = (Inr (err e), s)
   \<and> map_result (err e) (\<lambda>v. throwM ex :: 'c M) s = (Inr (err e), s)
   \<and> map_result (err e) (\<lambda>v. invoke w sy args) s = (Inr (err e), s)
   \<and> andThen (ok x) k s = k x s
   \<and> andThen (err e) k s = (Inr (err e), s)
   \<and> andThen (err e) (\<lambda>v. throwM ex :: 'c Result M) s = (Inr (err e), s)
   \<and> andThen (err e) (\<lambda>v. bindM (invoke w sy args) (\<lambda>r. returnM (ok r))) s = (Inr (err e), s)"
  by (simp add: map_result_def andThen_def ok_def err_def bindM_def returnM_def
      split: prod.splits sum.splits)

subsection \<open>More single-field queries in terms of their native call\<close>

lemma getTemperature_eq:
  "getTemperature w d =
     bindM (invoke w sym_nvmlDeviceGetTemperature [ADevice (handle d), ANum 0]) (\<lambda>r.
       returnM (if ret r \<noteq> SUCCESS then Err (fromReturn (ret r) ''Failed to get temperature'')
                else Ok (out_num r)))"
  by (simp add: getTemperature_def binding_defs code_defs fun_eq_iff bindM_def returnM_def
      split: prod.splits sum.splits)

lemma getPersistenceMode_eq:
  "getPersistenceMode w d =
     bindM (invoke w sym_nvmlDeviceGetPersistenceMode [ADevice (handle d)]) (\<lambda>r.
       returnM (if ret r \<noteq> SUCCESS
                then Err (fromReturn (ret r) ''Failed to get persistence mode'')
                else Ok (out_num r = 1)))"
  by (simp add: getPersistenceMode_def binding_defs code_defs fun_eq_iff bindM_def returnM_def
      split: prod.splits sum.splits)

lemma getMigMode_eq:
  "getMigMode w d =
     bindM (invoke w sym_nvmlDeviceGetMigMode [ADevice (handle d)]) (\<lambda>r.
       returnM (if ret r = ERROR_NOT_SUPPORTED then Ok None
                else if ret r \<noteq> SUCCESS then Err (fromReturn (ret r) ''Failed to get MIG mode'')
                else Ok (Some (out_num r = 1))))"
  by (simp add: getMigMode_def binding_defs code_defs fun_eq_iff bindM_def returnM_def
      split: prod.splits sum.splits)

lemma getEccErrorsCorrected_eq:
  "getEccErrorsCorrected w d =
     bindM (invoke w sym_nvmlDeviceGetTotalEccErrors [ADevice (handle d), ANum 0, ANum 0]) (\<lambda>r.
       returnM (if ret r = ERROR_NOT_SUPPORTED then Ok None
                else if ret r \<noteq> SUCCESS then Err (fromReturn (ret r) ''Failed to get ECC errors'')
                else Ok (Some (Number_of_bigint (out_num r)))))"
  by (simp add: getEccErrorsCorrected_def binding_defs code_defs fun_eq_iff bindM_def returnM_def
      split: prod.splits sum.splits)

lemma query_context_nonempty: "query_context q \<noteq> []"
  by (cases q) simp_all

lemma fromReturn_context:
  "context \<noteq> [] \<Longrightarrow>
   fromReturn r context = NvmlError r (context @ '': '' @ nvmlErrorString r)"
  by (simp add: fromReturn_def)

lemma nvmlErrorString_3: "nvmlErrorString 3 = ''Operation not supported''"
  by (simp add: nvmlErrorString_def messages_def)

subsection \<open>The PCI function number\<close>

lemma getPciInfo_eq:
  "getPciInfo w d =
     bindM (invoke w sym_nvmlDeviceGetPciInfo_v3 [ADevice (handle d)]) (\<lambda>r.
       returnM (if ret r \<noteq> SUCCESS then Err (fromReturn (ret r) ''Failed to get PCI info'')
                else Ok \<lparr>pci_busId = raw_busId (out_pci r),
                         pci_domain = raw_domain (out_pci r),
                         pci_bus = raw_bus (out_pci r),
                         pci_device = raw_device (out_pci r),
                         pci_function = 0,
                         pci_pciDeviceId = raw_pciDeviceId (out_pci r),
                         pci_pciSubsystemId = raw_pciSubSystemId (out_pci r)\<rparr>))"
  by (simp add: getPciInfo_def binding_defs code_defs fun_eq_iff bindM_def returnM_def
      split: prod.splits sum.splits)

text \<open>
  Claim C10. Whenever \<^verbatim>\<open>getPciInfo\<close> succeeds, the \<^verbatim>\<open>function\<close> field of its result
  is 0: the field is a constant of the method, the native struct has no such member, and
  the other fields are copied from the struct whatever it holds.
\<close>

theorem pci_function_is_constant_zero:
  "(getPciInfo w d s = (Inr (Ok p), s') \<longrightarrow> pci_function p = 0)
   \<and> (invoke w sym_nvmlDeviceGetPciInfo_v3 [ADevice (handle d)] s = (Inr r, s')
        \<and> ret r = SUCCESS
      \<longrightarrow> (\<exists>p. getPciInfo w d s = (Inr (Ok p), s')
               \<and> pci_function p = 0
               \<and> pci_busId p = raw_busId (out_pci r)
               \<and> pci_device p = raw_device (out_pci r)))"
  by (auto simp: getPciInfo_eq bindM_def returnM_def split: prod.splits sum.splits if_splits)

theorem pci_function_is_constant_zero_witness:
  "\<exists>p. getPciInfo sim_world sim_device sim_ready
          = (Inr (Ok p), sim_called sym_nvmlDeviceGetPciInfo_v3 [ADevice (DevHandle 0)])
       \<and> pci_function p = 0 \<and> pci_busId p = ''00000000:00:1E.1'' \<and> pci_device p = 30"
proof -
  have i: "invoke sim_world sym_nvmlDeviceGetPciInfo_v3 [ADevice (handle sim_device)] sim_ready
        = (Inr (native sim_world 1 (Callable sim_lib sym_nvmlDeviceGetPciInfo_v3)
                  [ADevice (handle sim_device)]),
           sim_called sym_nvmlDeviceGetPciInfo_v3 [ADevice (handle sim_device)])"
    by (rule invoke_sim_ready) simp_all
  show ?thesis
    using pci_function_is_constant_zero
            [of sim_world sim_device sim_ready _ _ _, THEN conjunct2, rule_format, OF conjI, OF i]
    by (simp add: sim_device_def blank_def SUCCESS_def)
qed

subsection \<open>Single-field queries in terms of their native call\<close>

lemma getPowerUsage_eq:
  "getPowerUsage w d =
     bindM (invoke w sym_nvmlDeviceGetPowerUsage [ADevice (handle d)]) (\<lambda>r.
       returnM (if ret r \<noteq> SUCCESS then Err (fromReturn (ret r) ''Failed to get power usage'')
                else Ok (js_divide (out_num r) 1000)))"
  by (simp add: getPowerUsage_def binding_defs code_defs fun_eq_iff bindM_def returnM_def
      split: prod.splits sum.splits)

lemma getPowerLimit_eq:
  "getPowerLimit w d =
     bindM (invoke w sym_nvmlDeviceGetPowerManagementLimit [ADevice (handle d)]) (\<lambda>r.
       returnM (if ret r \<noteq> SUCCESS then Err (fromReturn (ret r) ''Failed to get power limit'')
                else Ok (js_divide (out_num r) 1000)))"
  by (simp add: getPowerLimit_def binding_defs code_defs fun_eq_iff bindM_def returnM_def
      split: prod.splits sum.splits)

lemma js_floor_div_eq: "js_floor_div a b = a div b"
  by (simp add: js_floor_div_def floor_divide_of_int_eq)

lemma js_rem_nonneg: "0 \<le> a \<Longrightarrow> js_rem a b = a mod \<bar>b\<bar>"
  by (cases "a = 0") (simp_all add: js_rem_def)

lemma cudaVersionToString_eq:
  "cudaVersionToString v = show_int (v div 1000) @ ''.'' @ show_int (js_rem v 1000 div 10)"
  by (simp add: cudaVersionToString_def js_floor_div_eq Let_def)

lemma show_12: "show_int 12 = ''12''" and show_4: "show_int 4 = ''4''"
  by (simp_all add: show_int_def show_nat.simps digit_char_def)

lemma js_rem_12040: "js_rem 12040 1000 = 40"
  by (simp add: js_rem_def)

lemma cuda_roundtrip:
  assumes "0 \<le> major" "0 \<le> minor" "minor < 100"
  shows "cudaVersionToString (major * 1000 + minor * 10) = show_int major @ ''.'' @ show_int minor"
proof -
  let ?v = "major * 1000 + minor * 10"
  have v0: "0 \<le> ?v" using assms by simp
  have a: "?v div 1000 = major" using assms by auto
  have "?v mod 1000 = minor * 10" using assms by auto
  then have b: "js_rem ?v 1000 div 10 = minor"
    using v0 by (simp add: js_rem_nonneg)
  show ?thesis
    unfolding cudaVersionToString_eq a b ..
qed

lemmas run_defs = invoke_def getBinding_def getLibrary_def callBound_def bindM_def returnM_def
  throwM_def

subsection \<open>The lifecycle\<close>

lemma invoke_keeps_initialized:
  "invoke w f args s = (x, s') \<Longrightarrow> initialized s' = initialized s"
  by (auto simp: run_defs split: option.splits if_splits prod.splits sum.splits)

lemma init_eq:
  "init w =
     bindM (invoke w sym_nvmlInit_v2 []) (\<lambda>r.
       if ret r \<noteq> SUCCESS then throwM (Nvml (fromReturn (ret r) ''Failed to initialize NVML''))
       else set_initialized True)"
  by (simp add: init_def nvmlInit_def code_defs)

lemma shutdown_eq:
  "shutdown w =
     bindM (invoke w sym_nvmlShutdown []) (\<lambda>r.
       if ret r \<noteq> SUCCESS then throwM (Nvml (fromReturn (ret r) ''Failed to shutdown NVML''))
       else set_initialized False)"
  by (simp add: shutdown_def nvmlShutdown_def code_defs)

lemma ensureInitialized_False:
  "\<not> initialized s \<Longrightarrow> bindM ensureInitialized f s = (Inl uninitialized_error, s)"
  by (simp add: ensureInitialized_def bindM_def uninitialized_error_def)

lemma ensureInitialized_True:
  "initialized s \<Longrightarrow> bindM ensureInitialized f s = f () s"
  by (simp add: ensureInitialized_def bindM_def)

text \<open>
  Claim C2. \<^verbatim>\<open>isInitialized()\<close> reads the flag, which is false initially. When the
  native init call is made and returns \<open>SUCCESS\<close>, \<^verbatim>\<open>init()\<close> returns with the flag set;
  when the native shutdown call returns \<open>SUCCESS\<close>, \<^verbatim>\<open>shutdown()\<close> returns with the flag
  cleared. When either native call returns another code, the method throws an
  \<^verbatim>\<open>NvmlError\<close> with that code and the message "Failed to ... NVML: text of the code", and
  the flag is as before. While the flag is false, \<^verbatim>\<open>ensureInitialized()\<close> and every method
  that starts with it throw the \<^verbatim>\<open>NvmlError\<close> of code \<open>ERROR_UNINITIALIZED\<close> (1) and leave
  the whole state, the log of native calls included, as it was.
\<close>

theorem lifecycle_state_machine:
  "initialized initial_state = False
   \<and> isInitialized s = (Inr (initialized s), s)
   \<and> (invoke w sym_nvmlInit_v2 [] s = (Inr r, s') \<and> ret r = SUCCESS
      \<longrightarrow> init w s = (Inr (), s'\<lparr>initialized := True\<rparr>)
          \<and> fst (isInitialized (snd (init w s))) = Inr True)
   \<and> (invoke w sym_nvmlShutdown [] s = (Inr r, s') \<and> ret r = SUCCESS
      \<longrightarrow> shutdown w s = (Inr (), s'\<lparr>initialized := False\<rparr>)
          \<and> fst (isInitialized (snd (shutdown w s))) = Inr False)
   \<and> (invoke w sym_nvmlInit_v2 [] s = (Inr r, s') \<and> ret r \<noteq> SUCCESS
      \<longrightarrow> init w s
            = (Inl (Nvml (NvmlError (ret r)
                            (''Failed to initialize NVML: '' @ nvmlErrorString (ret r)))), s')
          \<and> initialized s' = initialized s)
   \<and> (invoke w sym_nvmlShutdown [] s = (Inr r, s') \<and> ret r \<noteq> SUCCESS
      \<longrightarrow> shutdown w s
            = (Inl (Nvml (NvmlError (ret r)
                            (''Failed to shutdown NVML: '' @ nvmlErrorString (ret r)))), s')
          \<and> initialized s' = initialized s)
   \<and> (\<not> initialized s
      \<longrightarrow> ensureInitialized s = (Inl uninitialized_error, s)
          \<and> getDeviceCount w s = (Inl uninitialized_error, s)
          \<and> getDevice w i s = (Inl uninitialized_error, s)
          \<and> getDeviceByUUID w uuid s = (Inl uninitialized_error, s)
          \<and> getAllDevices w s = (Inl uninitialized_error, s)
          \<and> getDriverInfo w s = (Inl uninitialized_error, s)
          \<and> getDriverVersion w s = (Inl uninitialized_error, s)
          \<and> getNvmlVersion w s = (Inl uninitialized_error, s)
          \<and> getCudaVersion w s = (Inl uninitialized_error, s)
          \<and> getAllGpuStatus w s = (Inl uninitialized_error, s)
          \<and> getSystemSnapshot w s = (Inl uninitialized_error, s))
   \<and> uninitialized_error
       = Nvml (NvmlError ERROR_UNINITIALIZED ''NVML not initialized. Call Nvml.init() first.'')
   \<and> ERROR_UNINITIALIZED = 1"
proof -
  have a: "invoke w sym_nvmlInit_v2 [] s = (Inr r, s') \<and> ret r = SUCCESS
      \<longrightarrow> init w s = (Inr (), s'\<lparr>initialized := True\<rparr>)
          \<and> fst (isInitialized (snd (init w s))) = Inr True"
    by (simp add: init_eq bindM_def set_initialized_def isInitialized_def)
  have b: "invoke w sym_nvmlShutdown [] s = (Inr r, s') \<and> ret r = SUCCESS
      \<longrightarrow> shutdown w s = (Inr (), s'\<lparr>initialized := False\<rparr>)
          \<and> fst (isInitialized (snd (shutdown w s))) = Inr False"
    by (simp add: shutdown_eq bindM_def set_initialized_def isInitialized_def)
  have c: "invoke w sym_nvmlInit_v2 [] s = (Inr r, s') \<and> ret r \<noteq> SUCCESS
      \<longrightarrow> init w s
            = (Inl (Nvml (NvmlError (ret r)
                            (''Failed to initialize NVML: '' @ nvmlErrorString (ret r)))), s')
          \<and> initialized s' = initialized s"
    using invoke_keeps_initialized [of w sym_nvmlInit_v2 "[]" s "Inr r" s']
    by (simp add: init_eq bindM_def throwM_def fromReturn_context)
  have d: "invoke w sym_nvmlShutdown [] s = (Inr r, s') \<and> ret r \<noteq> SUCCESS
      \<longrightarrow> shutdown w s
            = (Inl (Nvml (NvmlError (ret r)
                            (''Failed to shutdown NVML: '' @ nvmlErrorString (ret r)))), s')
          \<and> initialized s' = initialized s"
    using invoke_keeps_initialized [of w sym_nvmlShutdown "[]" s "Inr r" s']
    by (simp add: shutdown_eq bindM_def throwM_def fromReturn_context)
  have e: "\<not> initialized s
      \<longrightarrow> ensureInitialized s = (Inl uninitialized_error, s)
          \<and> getDeviceCount w s = (Inl uninitialized_error, s)
          \<and> getDevice w i s = (Inl uninitialized_error, s)
          \<and> getDeviceByUUID w uuid s = (Inl uninitialized_error, s)
          \<and> getAllDevices w s = (Inl uninitialized_error, s)
          \<and> getDriverInfo w s = (Inl uninitialized_error, s)
          \<and> getDriverVersion w s = (Inl uninitialized_error, s)
          \<and> getNvmlVersion w s = (Inl uninitialized_error, s)
          \<and> getCudaVersion w s = (Inl uninitialized_error, s)
          \<and> getAllGpuStatus w s = (Inl uninitialized_error, s)
          \<and> getSystemSnapshot w s = (Inl uninitialized_error, s)"
    by (simp add: getDeviceCount_def getDevice_def getDeviceByUUID_def getAllDevices_def
        getDriverInfo_def getDriverVersion_def getNvmlVersion_def getCudaVersion_def
        getAllGpuStatus_def getSystemSnapshot_def ensureInitialized_False)
       (simp add: ensureInitialized_def uninitialized_error_def)
  have f: "initialized initial_state = False" "isInitialized s = (Inr (initialized s), s)"
    by (simp_all add: initial_state_def isInitialized_def)
  have g: "uninitialized_error
       = Nvml (NvmlError ERROR_UNINITIALIZED ''NVML not initialized. Call Nvml.init() first.'')"
    "ERROR_UNINITIALIZED = 1"
    by (simp_all add: uninitialized_error_def ERROR_UNINITIALIZED_def)
  show ?thesis
    by (intro conjI) (rule a b c d e f g)+
qed

lemma shutdown_sim:
  "shutdown sim_world sim_ready
   = (Inr (), (sim_called sym_nvmlShutdown [])\<lparr>initialized := False\<rparr>)"
proof -
  have "invoke sim_world sym_nvmlShutdown [] sim_ready
          = (Inr blank, sim_called sym_nvmlShutdown [])"
    using invoke_sim_ready [of sym_nvmlShutdown sim_world "[]"] by simp
  then show ?thesis
    by (simp add: shutdown_eq bindM_def blank_def SUCCESS_def set_initialized_def)
qed

theorem lifecycle_state_machine_witness:
  "fst (isInitialized initial_state) = Inr False
   \<and> init sim_world initial_state = (Inr (), sim_ready)
   \<and> fst (isInitialized (snd (init sim_world initial_state))) = Inr True
   \<and> fst (isInitialized (snd (shutdown sim_world sim_ready))) = Inr False
   \<and> init (sim_world_returning sym_nvmlInit_v2 9) initial_state
       = (Inl (Nvml (NvmlError 9 ''Failed to initialize NVML: NVIDIA driver not loaded'')),
          sim_ready\<lparr>initialized := False\<rparr>)
   \<and> getDeviceCount sim_world initial_state
       = (Inl (Nvml (NvmlError 1 ''NVML not initialized. Call Nvml.init() first.'')),
          initial_state)
   \<and> getSystemSnapshot sim_world initial_state
       = (Inl (Nvml (NvmlError 1 ''NVML not initialized. Call Nvml.init() first.'')),
          initial_state)"
proof -
  have i: "invoke sim_world sym_nvmlInit_v2 [] initial_state
             = (Inr blank, sim_ready\<lparr>initialized := False\<rparr>)"
    by (simp add: run_defs initial_state_def sim_ready_def sim_lib_def fun_eq_iff)
  have j: "invoke (sim_world_returning sym_nvmlInit_v2 9) sym_nvmlInit_v2 [] initial_state
             = (Inr (blank\<lparr>ret := 9\<rparr>), sim_ready\<lparr>initialized := False\<rparr>)"
    by (simp add: run_defs initial_state_def sim_ready_def sim_lib_def fun_eq_iff)
  have k: "invoke sim_world sym_nvmlShutdown [] sim_ready
             = (Inr blank, sim_called sym_nvmlShutdown [])"
    using invoke_sim_ready [of sym_nvmlShutdown sim_world "[]"] by simp
  have n: "\<not> initialized initial_state"
    by (simp add: initial_state_def)
  have r: "sim_ready\<lparr>initialized := False, initialized := True\<rparr> = sim_ready"
    by (simp add: sim_ready_def)
  have rb: "ret blank = SUCCESS"
    by (simp add: blank_def SUCCESS_def)
  have c1: "fst (isInitialized initial_state) = Inr False"
    using lifecycle_state_machine [where s = initial_state, THEN conjunct2, THEN conjunct1]
          lifecycle_state_machine [THEN conjunct1]
    by simp
  have c2: "init sim_world initial_state = (Inr (), sim_ready)
            \<and> fst (isInitialized (snd (init sim_world initial_state))) = Inr True"
    using lifecycle_state_machine [where s = initial_state and w = sim_world,
            THEN conjunct2, THEN conjunct2, THEN conjunct1, rule_format, OF conjI, OF i rb,
            unfolded r] .
  have c3: "fst (isInitialized (snd (shutdown sim_world sim_ready))) = Inr False"
    using lifecycle_state_machine [where s = sim_ready and w = sim_world,
            THEN conjunct2, THEN conjunct2, THEN conjunct2, THEN conjunct1, rule_format,
            OF conjI, OF k rb]
    by blast
  have c4: "init (sim_world_returning sym_nvmlInit_v2 9) initial_state
       = (Inl (Nvml (NvmlError 9 ''Failed to initialize NVML: NVIDIA driver not loaded'')),
          sim_ready\<lparr>initialized := False\<rparr>)"
    using lifecycle_state_machine [where s = initial_state
            and w = "sim_world_returning sym_nvmlInit_v2 9",
            THEN conjunct2, THEN conjunct2, THEN conjunct2, THEN conjunct2, THEN conjunct1,
            rule_format, OF conjI, OF j]
    by (simp add: blank_def SUCCESS_def nvmlErrorString_def messages_def)
  have c5: "getDeviceCount sim_world initial_state
       = (Inl (Nvml (NvmlError 1 ''NVML not initialized. Call Nvml.init() first.'')),
          initial_state)
   \<and> getSystemSnapshot sim_world initial_state
       = (Inl (Nvml (NvmlError 1 ''NVML not initialized. Call Nvml.init() first.'')),
          initial_state)"
    using lifecycle_state_machine [where s = initial_state and w = sim_world,
            THEN conjunct2, THEN conjunct2, THEN conjunct2, THEN conjunct2, THEN conjunct2,
            THEN conjunct2, THEN conjunct1, rule_format, OF n]
    by (simp add: uninitialized_error_def ERROR_UNINITIALIZED_def)
  show ?thesis
    using c1 c2 c3 c4 c5 by blast
qed


subsection \<open>The binding cache and unloading\<close>

lemma invoke_keeps_bindings:
  "invoke w g args s = (x, s') \<Longrightarrow> bindings s f = Some c \<Longrightarrow> bindings s' f = Some c"
  by (auto simp: run_defs split: option.splits if_splits prod.splits sum.splits)

text \<open>
  Claim C3 says that \<^verbatim>\<open>unloadLibrary\<close> clears every cached binding, so that the next use
  of an operation binds against the library loaded anew. In the simulated system, after
  \<^verbatim>\<open>init()\<close> and \<^verbatim>\<open>unloadLibrary()\<close> the binding of \<^verbatim>\<open>nvmlInit_v2\<close> is still cached;
  asking for it returns the function bound to library object 0 and loads nothing, while a
  symbol not bound before is bound to the new library object 1.
\<close>

theorem unload_clears_bindings_counterexample:
  "bindings (unloadLibrary (snd (init sim_world initial_state))) sym_nvmlInit_v2
     = Some (Callable (LibHandle 0 ''libnvidia-ml.so.1'') sym_nvmlInit_v2)
   \<and> lib (unloadLibrary (snd (init sim_world initial_state))) = None
   \<and> getBinding sim_world sym_nvmlInit_v2 (unloadLibrary (snd (init sim_world initial_state)))
     = (Inr (Callable (LibHandle 0 ''libnvidia-ml.so.1'') sym_nvmlInit_v2),
        unloadLibrary (snd (init sim_world initial_state)))
   \<and> fst (getBinding sim_world sym_nvmlShutdown
            (unloadLibrary (snd (init sim_world initial_state))))
     = Inr (Callable (LibHandle 1 ''libnvidia-ml.so.1'') sym_nvmlShutdown)"
  by (simp add: init_sim unloadLibrary_def sim_ready_def sim_lib_def getBinding_def
      getLibrary_def)

text \<open>
  Claim C3, amended. A binding is cached per signature and never invalidated, not even
  by \<^verbatim>\<open>unloadLibrary\<close>: a cached binding is returned as it is, with no access to the
  library and no change of state; no native call removes a binding; \<^verbatim>\<open>unloadLibrary\<close>
  clears the library handle and path and leaves the bindings as they are, so that after it
  a cached binding is still returned as it is (bound to the library object it was resolved
  against), and only a symbol not yet bound is resolved against a newly loaded library.
\<close>

theorem bindings_survive_unload:
  "(bindings s f = Some c \<longrightarrow> getBinding w f s = (Inr c, s))
   \<and> (invoke w g args s = (x, s') \<and> bindings s f = Some c \<longrightarrow> bindings s' f = Some c)
   \<and> bindings (unloadLibrary s) = bindings s
   \<and> lib (unloadLibrary s) = None
   \<and> libraryPath (unloadLibrary s) = None
   \<and> (bindings s f = Some c
      \<longrightarrow> getBinding w f (unloadLibrary s) = (Inr c, unloadLibrary s))
   \<and> (bindings s f = None \<and> findLibraryPath w = Some p \<and> p \<noteq> [] \<and> koffi_load w p
        \<and> koffi_func w p (signature_of f)
      \<longrightarrow> getBinding w f (unloadLibrary s)
            = (Inr (Callable (LibHandle (loads s) p) f),
               s\<lparr>lib := Some (LibHandle (loads s) p), libraryPath := Some p,
                 loads := Suc (loads s),
                 bindings := (bindings s)(f := Some (Callable (LibHandle (loads s) p) f))\<rparr>))"
proof -
  have a: "invoke w g args s = (x, s') \<and> bindings s f = Some c \<longrightarrow> bindings s' f = Some c"
    using invoke_keeps_bindings by blast
  have b: "bindings s f = None \<and> findLibraryPath w = Some p \<and> p \<noteq> [] \<and> koffi_load w p
        \<and> koffi_func w p (signature_of f)
      \<longrightarrow> getBinding w f (unloadLibrary s)
            = (Inr (Callable (LibHandle (loads s) p) f),
               s\<lparr>lib := Some (LibHandle (loads s) p), libraryPath := Some p,
                 loads := Suc (loads s),
                 bindings := (bindings s)(f := Some (Callable (LibHandle (loads s) p) f))\<rparr>)"
    by (simp add: getBinding_def getLibrary_def unloadLibrary_def)
  show ?thesis
    using a b by (simp add: getBinding_def unloadLibrary_def)
qed

theorem bindings_survive_unload_witness:
  "getBinding sim_world sym_nvmlInit_v2 (unloadLibrary sim_ready)
     = (Inr (Callable sim_lib sym_nvmlInit_v2), unloadLibrary sim_ready)
   \<and> fst (getBinding sim_world sym_nvmlShutdown (unloadLibrary sim_ready))
     = Inr (Callable (LibHandle 1 ''libnvidia-ml.so.1'') sym_nvmlShutdown)
   \<and> bindings (snd (invoke sim_world sym_nvmlShutdown [] sim_ready)) sym_nvmlInit_v2
     = Some (Callable sim_lib sym_nvmlInit_v2)"
proof -
  have c: "bindings sim_ready sym_nvmlInit_v2 = Some (Callable sim_lib sym_nvmlInit_v2)"
    by (simp add: sim_ready_def)
  have n: "bindings sim_ready sym_nvmlShutdown = None
           \<and> findLibraryPath sim_world = Some ''libnvidia-ml.so.1''
           \<and> ''libnvidia-ml.so.1'' \<noteq> [] \<and> koffi_load sim_world ''libnvidia-ml.so.1''
           \<and> koffi_func sim_world ''libnvidia-ml.so.1'' (signature_of sym_nvmlShutdown)"
    by (simp add: sim_ready_def)
  have l: "loads sim_ready = 1"
    by (simp add: sim_ready_def)
  have i: "invoke sim_world sym_nvmlShutdown [] sim_ready
           = (fst (invoke sim_world sym_nvmlShutdown [] sim_ready),
              snd (invoke sim_world sym_nvmlShutdown [] sim_ready))"
    by simp
  have w1: "getBinding sim_world sym_nvmlInit_v2 (unloadLibrary sim_ready)
     = (Inr (Callable sim_lib sym_nvmlInit_v2), unloadLibrary sim_ready)"
    using bindings_survive_unload [where s = sim_ready and w = sim_world
            and f = sym_nvmlInit_v2,
            THEN conjunct2, THEN conjunct2, THEN conjunct2, THEN conjunct2, THEN conjunct2,
            THEN conjunct1, rule_format, OF c] .
  have w2: "fst (getBinding sim_world sym_nvmlShutdown (unloadLibrary sim_ready))
     = Inr (Callable (LibHandle 1 ''libnvidia-ml.so.1'') sym_nvmlShutdown)"
    using bindings_survive_unload [where s = sim_ready and w = sim_world
            and f = sym_nvmlShutdown,
            THEN conjunct2, THEN conjunct2, THEN conjunct2, THEN conjunct2, THEN conjunct2,
            THEN conjunct2, rule_format, OF n]
    by (simp add: l)
  have w3: "bindings (snd (invoke sim_world sym_nvmlShutdown [] sim_ready)) sym_nvmlInit_v2
     = Some (Callable sim_lib sym_nvmlInit_v2)"
    using bindings_survive_unload [where s = sim_ready and w = sim_world
            and f = sym_nvmlInit_v2,
            THEN conjunct2, THEN conjunct1, rule_format, OF conjI, OF i c] .
  show ?thesis using w1 w2 w3 by blast
qed


subsection \<open>Composite queries\<close>

lemma failure_only_apply:
  "failure_only m s =
     (case m s of (Inl x, s1) \<Rightarrow> (Inl x, s1) | (Inr r, s1) \<Rightarrow> (Inr (failure_of r), s1))"
  by (simp add: failure_only_def bindM_def returnM_def split: prod.splits sum.splits)

lemma step_iff:
  assumes q: "run_query w d q = failure_only m"
    and K: "\<And>v s e s'. (K v s = (Inr (Err e), s'))
                        = (\<exists>k. first_failure w d qs s = Some (k, e, s'))"
  shows "(bindM m (\<lambda>r. case r of Ok v \<Rightarrow> K v | Err x \<Rightarrow> returnM (Err x)) s = (Inr (Err e), s'))
         = (\<exists>k. first_failure w d (q # qs) s = Some (k, e, s'))"
proof (cases "m s")
  case (Pair x s1)
  show ?thesis
  proof (cases x)
    case (Inl ex)
    with Pair show ?thesis
      by (simp add: q failure_only_apply bindM_def)
  next
    case (Inr r)
    show ?thesis
    proof (cases r)
      case (Ok v)
      with Pair Inr show ?thesis
        by (auto simp: q failure_only_apply bindM_def failure_of_def K split: option.splits)
    next
      case (Err x)
      with Pair Inr show ?thesis
        by (auto simp: q failure_only_apply bindM_def failure_of_def returnM_def)
    qed
  qed
qed

lemma final_iff:
  "(returnM (ok v) s = (Inr (Err e), s')) = (\<exists>k. first_failure w d [] s = Some (k, e, s'))"
  by (simp add: returnM_def ok_def)

lemma getBasicInfo_first_failure:
  "(getBasicInfo w d s = (Inr (Err e), s'))
   = (\<exists>k. first_failure w d basic_info_sequence s = Some (k, e, s'))"
  unfolding getBasicInfo_def basic_info_sequence_def
  by (rule step_iff, simp)+ (rule final_iff)

lemma getStatus_first_failure:
  "(getStatus w d s = (Inr (Err e), s'))
   = (\<exists>k. first_failure w d status_sequence s = Some (k, e, s'))"
  unfolding getStatus_def status_sequence_def
  by (rule step_iff, simp)+ (rule final_iff)

lemma invoke_effects:
  assumes "invoke w f args s = (Inr r, s')"
  shows "\<exists>c. effects s' = effects s @ [Invoke c args]
             \<and> (bindings_wf s \<longrightarrow> bound_symbol c = f \<and> bindings_wf s')"
  using assms
  by (auto simp: run_defs bindings_wf_def split: option.splits if_splits prod.splits sum.splits)

lemma run_query_invoke:
  assumes "run_query w d q s = (Inr x, s')"
  shows "\<exists>r. invoke w (query_symbol q) (query_args d q) s = (Inr r, s')
             \<and> x = (if ret r = SUCCESS \<or> (optional_query q \<and> ret r = ERROR_NOT_SUPPORTED)
                      then None else Some (fromReturn (ret r) (query_context q)))"
  using assms
  by (auto simp: run_query_eq bindM_def returnM_def split: prod.splits sum.splits)

lemma run_query_effects:
  assumes "run_query w d q s = (Inr x, s')"
  shows "\<exists>c. effects s' = effects s @ [Invoke c (query_args d q)]
             \<and> (bindings_wf s \<longrightarrow> bound_symbol c = query_symbol q \<and> bindings_wf s')"
  using run_query_invoke [OF assms] invoke_effects by blast

lemma run_query_failure:
  assumes "run_query w d q s = (Inr (Some e), s')"
  shows "\<exists>r. r \<noteq> SUCCESS \<and> e = NvmlError r (query_context q @ '': '' @ nvmlErrorString r)"
  using run_query_invoke [OF assms]
  by (auto simp: fromReturn_context query_context_nonempty split: if_splits)

lemma first_failure_props:
  "first_failure w d qs s = Some (k, e, s') \<Longrightarrow>
     k < length qs
     \<and> (\<exists>r. r \<noteq> SUCCESS
              \<and> e = NvmlError r (query_context (qs ! k) @ '': '' @ nvmlErrorString r))
     \<and> (\<exists>evs. effects s' = effects s @ evs \<and> length evs = Suc k
              \<and> (bindings_wf s \<longrightarrow>
                    map event_symbol evs = map (\<lambda>q. Some (query_symbol q)) (take (Suc k) qs)))"
proof (induction qs arbitrary: s k)
  case Nil
  then show ?case by simp
next
  case (Cons q qs)
  obtain x s1 where run: "run_query w d q s = (x, s1)"
    by (cases "run_query w d q s")
  show ?case
  proof (cases x)
    case (Inl ex)
    with run Cons.prems show ?thesis by simp
  next
    case (Inr res)
    from run Inr run_query_effects obtain c where
      c: "effects s1 = effects s @ [Invoke c (query_args d q)]"
         "bindings_wf s \<longrightarrow> bound_symbol c = query_symbol q \<and> bindings_wf s1"
      by blast
    show ?thesis
    proof (cases res)
      case (Some e1)
      with run Inr Cons.prems have eq: "k = 0" "e = e1" "s' = s1" by simp_all
      from run Inr Some run_query_failure obtain r where
        "r \<noteq> SUCCESS" "e1 = NvmlError r (query_context q @ '': '' @ nvmlErrorString r)"
        by blast
      with eq c show ?thesis by auto
    next
      case None
      with run Inr Cons.prems obtain k' where
        k': "k = Suc k'" "first_failure w d qs s1 = Some (k', e, s')"
        by (auto split: option.splits)
      from Cons.IH [OF k'(2)] obtain r evs where
        ih: "k' < length qs" "r \<noteq> SUCCESS"
            "e = NvmlError r (query_context (qs ! k') @ '': '' @ nvmlErrorString r)"
            "effects s' = effects s1 @ evs" "length evs = Suc k'"
            "bindings_wf s1 \<longrightarrow>
               map event_symbol evs = map (\<lambda>q. Some (query_symbol q)) (take (Suc k') qs)"
        by blast
      have "effects s' = effects s @ (Invoke c (query_args d q) # evs)"
        using c(1) ih(4) by simp
      moreover have "length (Invoke c (query_args d q) # evs) = Suc k"
        using ih(5) k'(1) by simp
      moreover have "bindings_wf s \<longrightarrow>
          map event_symbol (Invoke c (query_args d q) # evs)
          = map (\<lambda>q. Some (query_symbol q)) (take (Suc k) (q # qs))"
        using c(2) ih(6) k'(1) by simp
      ultimately show ?thesis
        using ih(1,2,3) k'(1) by auto
    qed
  qed
qed

text \<open>
  Claim C6. \<^verbatim>\<open>getBasicInfo\<close> asks name, memory; \<^verbatim>\<open>getStatus\<close> asks name, persistence
  mode, PCI info, display, ECC, fan, temperature, P-state, power usage, power limit,
  memory, utilization, compute mode, MIG mode. Either returns a failure exactly when some
  query of its sequence fails after all earlier ones succeeded, and then it returns the
  error of that query itself, in the state that query left. That error carries the failing
  query's own context; and from the start of the composite to its return exactly the
  native calls of the queries up to the failing one were made, one each, in order (the
  symbols are those of the queries when every cached binding is a binding of its own
  symbol).
\<close>

theorem composites_short_circuit:
  "(getBasicInfo w d s = (Inr (Err e), s')
      \<longleftrightarrow> (\<exists>k. first_failure w d basic_info_sequence s = Some (k, e, s')))
   \<and> (getStatus w d s = (Inr (Err e), s')
      \<longleftrightarrow> (\<exists>k. first_failure w d status_sequence s = Some (k, e, s')))
   \<and> (first_failure w d qs s = Some (k, e, s') \<longrightarrow>
        k < length qs
        \<and> (\<exists>r. r \<noteq> SUCCESS
               \<and> e = NvmlError r (query_context (qs ! k) @ '': '' @ nvmlErrorString r))
        \<and> (\<exists>evs. effects s' = effects s @ evs \<and> length evs = Suc k
               \<and> (bindings_wf s \<longrightarrow>
                     map event_symbol evs
                     = map (\<lambda>q. Some (query_symbol q)) (take (Suc k) qs))))
   \<and> (getName w d s = (Inr (Err e), s') \<longrightarrow> getBasicInfo w d s = (Inr (Err e), s'))
   \<and> (getName w d s = (Inr (Ok n), s1) \<and> getMemoryInfo w d s1 = (Inr (Err e), s')
      \<longrightarrow> getBasicInfo w d s = (Inr (Err e), s'))
   \<and> (getName w d s = (Inr (Err e), s') \<longrightarrow> getStatus w d s = (Inr (Err e), s'))
   \<and> (getName w d s = (Inr (Ok n), s1) \<and> getPersistenceMode w d s1 = (Inr (Err e), s')
      \<longrightarrow> getStatus w d s = (Inr (Err e), s'))"
proof -
  have a: "first_failure w d qs s = Some (k, e, s') \<longrightarrow>
        k < length qs
        \<and> (\<exists>r. r \<noteq> SUCCESS
               \<and> e = NvmlError r (query_context (qs ! k) @ '': '' @ nvmlErrorString r))
        \<and> (\<exists>evs. effects s' = effects s @ evs \<and> length evs = Suc k
               \<and> (bindings_wf s \<longrightarrow>
                     map event_symbol evs
                     = map (\<lambda>q. Some (query_symbol q)) (take (Suc k) qs)))"
    using first_failure_props by blast
  have b: "getName w d s = (Inr (Err e), s') \<longrightarrow> getBasicInfo w d s = (Inr (Err e), s')"
          "getName w d s = (Inr (Ok n), s1) \<and> getMemoryInfo w d s1 = (Inr (Err e), s')
             \<longrightarrow> getBasicInfo w d s = (Inr (Err e), s')"
    by (simp_all add: getBasicInfo_def bindM_def returnM_def)
  have c: "getName w d s = (Inr (Err e), s') \<longrightarrow> getStatus w d s = (Inr (Err e), s')"
          "getName w d s = (Inr (Ok n), s1) \<and> getPersistenceMode w d s1 = (Inr (Err e), s')
             \<longrightarrow> getStatus w d s = (Inr (Err e), s')"
    by (simp_all add: getStatus_def bindM_def returnM_def)
  show ?thesis
    by (intro conjI) (rule getBasicInfo_first_failure getStatus_first_failure a b c)+
qed

lemma nvmlErrorString_15: "nvmlErrorString 15 = ''GPU is lost''"
  by (simp add: nvmlErrorString_def messages_def)

lemma bindings_wf_sim_ready: "bindings_wf sim_ready"
  by (simp add: bindings_wf_def sim_ready_def)

lemma effects_since_append: "effects s' = effects s @ evs \<Longrightarrow> effects_since s s' = evs"
  by (simp add: effects_since_def)


lemma first_failure_sim_temperature:
  "\<exists>s'. first_failure (sim_world_returning sym_nvmlDeviceGetTemperature 15) sim_device
           status_sequence sim_ready
         = Some (6, NvmlError 15 ''Failed to get temperature: GPU is lost'', s')"
  by (simp add: status_sequence_def run_query_eq run_defs sim_ready_def sim_lib_def
      sim_device_def blank_def SUCCESS_def ERROR_NOT_SUPPORTED_def optional_query_def
      fromReturn_def nvmlErrorString_15)


theorem composites_short_circuit_witness:
  "\<exists>s'. getStatus (sim_world_returning sym_nvmlDeviceGetTemperature 15) sim_device sim_ready
          = (Inr (Err (NvmlError 15 ''Failed to get temperature: GPU is lost'')), s')
        \<and> map event_symbol (effects_since sim_ready s')
          = [Some sym_nvmlDeviceGetName, Some sym_nvmlDeviceGetPersistenceMode,
             Some sym_nvmlDeviceGetPciInfo_v3, Some sym_nvmlDeviceGetDisplayActive,
             Some sym_nvmlDeviceGetTotalEccErrors, Some sym_nvmlDeviceGetFanSpeed,
             Some sym_nvmlDeviceGetTemperature]"
proof -
  let ?w = "sim_world_returning sym_nvmlDeviceGetTemperature 15"
  let ?e = "NvmlError 15 ''Failed to get temperature: GPU is lost''"
  from first_failure_sim_temperature obtain s' where
    ff: "first_failure ?w sim_device status_sequence sim_ready = Some (6, ?e, s')" ..
  have g: "getStatus ?w sim_device sim_ready = (Inr (Err ?e), s')"
    by (rule composites_short_circuit [where w = ?w and d = sim_device and s = sim_ready
            and e = ?e and s' = s', THEN conjunct2, THEN conjunct1, THEN iffD2, OF exI, OF ff])
  have "\<exists>evs. effects s' = effects sim_ready @ evs \<and> length evs = Suc 6
           \<and> (bindings_wf sim_ready \<longrightarrow>
                 map event_symbol evs
                 = map (\<lambda>q. Some (query_symbol q)) (take (Suc 6) status_sequence))"
    by (rule composites_short_circuit [where w = ?w and d = sim_device and s = sim_ready
            and e = ?e and s' = s' and qs = status_sequence and k = 6,
            THEN conjunct2, THEN conjunct2, THEN conjunct1, rule_format, OF ff,
            THEN conjunct2, THEN conjunct2])
  then obtain evs where
    evs: "effects s' = effects sim_ready @ evs"
         "bindings_wf sim_ready \<longrightarrow>
            map event_symbol evs
            = map (\<lambda>q. Some (query_symbol q)) (take (Suc 6) status_sequence)"
    by (elim exE conjE)
  have t: "map event_symbol (effects_since sim_ready s')
          = [Some sym_nvmlDeviceGetName, Some sym_nvmlDeviceGetPersistenceMode,
             Some sym_nvmlDeviceGetPciInfo_v3, Some sym_nvmlDeviceGetDisplayActive,
             Some sym_nvmlDeviceGetTotalEccErrors, Some sym_nvmlDeviceGetFanSpeed,
             Some sym_nvmlDeviceGetTemperature]"
    using evs bindings_wf_sim_ready
    by (simp add: effects_since_append status_sequence_def)
  show ?thesis
    by (rule exI [of _ s'], rule conjI, rule g, rule t)
qed


subsection \<open>Calls that cannot throw\<close>

lemma getBinding_cached: "bindings s f = Some c \<Longrightarrow> getBinding w f s = (Inr c, s)"
  by (simp add: getBinding_def)

lemma getBinding_Inr:
  assumes "getBinding w f s = (Inr c, sb)"
  shows "effects sb = effects s" and "initialized sb = initialized s"
    and "bindings sb f = Some c" and "can_bind w s g \<Longrightarrow> can_bind w sb g"
  using assms
  by (auto simp: getBinding_def getLibrary_def can_bind_def
      split: option.splits if_splits prod.splits sum.splits)

lemma can_bind_getBinding: "can_bind w s f \<Longrightarrow> \<exists>c sb. getBinding w f s = (Inr c, sb)"
  by (auto simp: getBinding_def getLibrary_def can_bind_def split: option.splits)

lemma invoke_binding:
  assumes "fst (getBinding w f s) = Inr c"
  shows "\<exists>s'. invoke w f args s = (Inr (native w (length (effects s)) c args), s')
              \<and> effects s' = effects s @ [Invoke c args]
              \<and> initialized s' = initialized s
              \<and> fst (getBinding w f s') = Inr c
              \<and> (\<forall>g. can_bind w s g \<longrightarrow> can_bind w s' g)"
proof -
  obtain sb where g: "getBinding w f s = (Inr c, sb)"
    using assms by (cases "getBinding w f s") simp
  let ?s' = "sb\<lparr>effects := effects sb @ [Invoke c args]\<rparr>"
  have run: "invoke w f args s = (Inr (native w (length (effects s)) c args), ?s')"
    using g getBinding_Inr(1) [OF g] by (simp add: invoke_def bindM_def callBound_def)
  have "bindings ?s' f = Some c" using getBinding_Inr(3) [OF g] by simp
  then have cached: "fst (getBinding w f ?s') = Inr c" by (simp add: getBinding_cached)
  have keep: "\<forall>g. can_bind w s g \<longrightarrow> can_bind w ?s' g"
    using getBinding_Inr(4) [OF g] by (simp add: can_bind_def)
  show ?thesis
    using run cached keep getBinding_Inr(1,2) [OF g] by simp
qed

lemma invoke_can:
  assumes "can_bind w s f"
  shows "\<exists>c s'. invoke w f args s = (Inr (native w (length (effects s)) c args), s')
              \<and> effects s' = effects s @ [Invoke c args]
              \<and> initialized s' = initialized s
              \<and> (\<forall>g. can_bind w s g \<longrightarrow> can_bind w s' g)"
proof -
  from can_bind_getBinding [OF assms] obtain c sb where "getBinding w f s = (Inr c, sb)"
    by blast
  then have "fst (getBinding w f s) = Inr c" by simp
  from invoke_binding [OF this, of args] show ?thesis by blast
qed

lemma invoke_keeps_can_bind:
  "invoke w f args s = (x, s') \<Longrightarrow> can_bind w s g \<Longrightarrow> can_bind w s' g"
  by (auto simp: run_defs can_bind_def split: option.splits if_splits prod.splits sum.splits)

subsection \<open>Deduplicated process lists\<close>

lemma image_except: "insert a (f ` {y \<in> A. f y \<noteq> a}) = insert a (f ` A)"
  by auto

lemma pids_first_by_pid: "pid ` set (first_by_pid xs) = pid ` set xs"
  by (induction xs) (simp_all add: image_except)

lemma distinct_first_by_pid: "distinct (map pid (first_by_pid xs))"
proof (induction xs)
  case Nil
  then show ?case by simp
next
  case (Cons x xs)
  have "pid x \<notin> pid ` set (filter (\<lambda>q. pid q \<noteq> pid x) (first_by_pid xs))"
    by auto
  moreover have "distinct (map pid (filter (\<lambda>q. pid q \<noteq> pid x) (first_by_pid xs)))"
    using Cons.IH by (simp add: distinct_map_filter)
  ultimately show ?case by simp
qed

lemma find_filter_other:
  "pid x \<noteq> n \<Longrightarrow>
   find (\<lambda>p. pid p = n) (filter (\<lambda>q. pid q \<noteq> pid x) ys) = find (\<lambda>p. pid p = n) ys"
  by (induction ys) auto

lemma find_first_by_pid:
  "find (\<lambda>p. pid p = n) (first_by_pid xs) = find (\<lambda>p. pid p = n) xs"
  by (induction xs) (auto simp: find_filter_other)

lemma find_append_first:
  "n \<in> pid ` set xs \<Longrightarrow> find (\<lambda>p. pid p = n) (xs @ ys) = find (\<lambda>p. pid p = n) xs"
  by (induction xs) auto

lemma first_by_pid_seen:
  "pid x \<in> seen \<Longrightarrow>
   filter (\<lambda>r. pid r \<notin> seen) (first_by_pid (x # xs))
   = filter (\<lambda>r. pid r \<notin> seen) (first_by_pid xs)"
  by (auto intro!: filter_cong)

lemma first_by_pid_unseen:
  "pid x \<notin> seen \<Longrightarrow>
   filter (\<lambda>r. pid r \<notin> seen) (first_by_pid (x # xs))
   = x # filter (\<lambda>r. pid r \<notin> insert (pid x) seen) (first_by_pid xs)"
  by (auto intro!: filter_cong)

lemma count_one:
  "distinct (map f xs) \<Longrightarrow> n \<in> f ` set xs \<Longrightarrow> length (filter (\<lambda>p. f p = n) xs) = 1"
proof (induction xs)
  case Nil
  then show ?case by simp
next
  case (Cons a xs)
  show ?case
  proof (cases "f a = n")
    case True
    from Cons.prems(1) have "\<forall>x \<in> set xs. f x \<noteq> f a"
      by (auto simp: image_iff)
    with True have "filter (\<lambda>p. f p = n) xs = []"
      by (simp add: filter_empty_conv)
    with True show ?thesis by simp
  next
    case False
    with Cons show ?thesis by auto
  qed
qed

lemma show_nat_4242: "show_nat 4242 = ''4242''"
  by (simp add: show_nat.simps digit_char_def)

lemma enumerate_shift:
  "map (\<lambda>(i, r). F (Suc i) r) (enumerate n xs) = map (\<lambda>(i, r). F i r) (enumerate (Suc n) xs)"
  by (induction xs arbitrary: n) simp_all

lemma collect_processes_spec:
  assumes "fst (getBinding w sym_nvmlSystemGetProcessName s) = Inr c"
  shows "\<exists>s'. collect_processes w gi raws seen acc s
                 = (Inr (acc @ map (\<lambda>(i, r). process_entry gi r
                                      (native w (length (effects s) + i) c (name_lookup_args r)))
                                 (enumerate 0 (filter (\<lambda>r. pid r \<notin> seen) (first_by_pid raws)))),
                    s')
              \<and> effects s' = effects s @ map (\<lambda>r. Invoke c (name_lookup_args r))
                                            (filter (\<lambda>r. pid r \<notin> seen) (first_by_pid raws))"
  using assms
proof (induction raws arbitrary: seen acc s)
  case Nil
  then show ?case by (simp add: returnM_def)
next
  case (Cons x xs)
  show ?case
  proof (cases "pid x \<in> seen")
    case True
    from Cons.IH [OF Cons.prems, of seen acc] True show ?thesis
      by (simp add: first_by_pid_seen del: first_by_pid.simps)
  next
    case False
    let ?a = "native w (length (effects s)) c (name_lookup_args x)"
    let ?kept = "filter (\<lambda>r. pid r \<notin> insert (pid x) seen) (first_by_pid xs)"
    from invoke_binding [OF Cons.prems, of "name_lookup_args x"] obtain s1 where
      i: "invoke w sym_nvmlSystemGetProcessName (name_lookup_args x) s = (Inr ?a, s1)"
      and e1: "effects s1 = effects s @ [Invoke c (name_lookup_args x)]"
      and b1: "fst (getBinding w sym_nvmlSystemGetProcessName s1) = Inr c"
      by blast
    have nm: "nvmlSystemGetProcessName w (pid x) s = (Inr (ret ?a, first_field (out_text ?a)), s1)"
      using i by (simp add: nvmlSystemGetProcessName_def name_lookup_args_def bindM_def returnM_def)
    from Cons.IH [OF b1, of "insert (pid x) seen" "acc @ [process_entry gi x ?a]"]
    obtain s' where
      ih: "collect_processes w gi xs (insert (pid x) seen) (acc @ [process_entry gi x ?a]) s1
             = (Inr ((acc @ [process_entry gi x ?a])
                     @ map (\<lambda>(i, r). process_entry gi r
                              (native w (length (effects s1) + i) c (name_lookup_args r)))
                         (enumerate 0 ?kept)), s')"
      and e': "effects s' = effects s1 @ map (\<lambda>r. Invoke c (name_lookup_args r)) ?kept"
      by blast
    have sh: "map (\<lambda>(i, r). process_entry gi r
                              (native w (length (effects s1) + i) c (name_lookup_args r)))
                (enumerate 0 ?kept)
              = map (\<lambda>(i, r). process_entry gi r
                              (native w (length (effects s) + i) c (name_lookup_args r)))
                  (enumerate (Suc 0) ?kept)"
      using enumerate_shift
              [of "\<lambda>i r. process_entry gi r (native w (length (effects s) + i) c (name_lookup_args r))"
                  0 ?kept]
      by (simp add: e1)
    have run: "collect_processes w gi (x # xs) seen acc s
                 = (Inr (acc @ map (\<lambda>(i, r). process_entry gi r
                                      (native w (length (effects s) + i) c (name_lookup_args r)))
                                 (enumerate 0 (x # ?kept))), s')"
      using False nm ih sh
      by (simp add: bindM_def process_entry_def isSuccess_def)
    have eff: "effects s' = effects s @ map (\<lambda>r. Invoke c (name_lookup_args r)) (x # ?kept)"
      using e1 e' by simp
    show ?thesis
      using run eff False by (simp add: first_by_pid_unseen del: first_by_pid.simps)
  qed
qed

lemma bytesToMiB_word:
  fixes b :: "64 word"
  shows "bytesToMiB (uint b) = uint b div 1048576"
    and "0 \<le> bytesToMiB (uint b)" and "bytesToMiB (uint b) < 2 ^ 44"
proof -
  have "uint b < 2 ^ 64" using uint_bounded [of b] by simp
  then have u: "uint b div 1048576 < 2 ^ 44" by simp
  have l: "0 \<le> uint b div 1048576" by (simp add: pos_imp_zdiv_nonneg_iff)
  from u l have "\<bar>uint b div 1048576\<bar> < 2 ^ 53" by simp
  then show e: "bytesToMiB (uint b) = uint b div 1048576"
    by (simp add: bytesToMiB_def Number_of_bigint_def)
  show "0 \<le> bytesToMiB (uint b)" using l e by simp
  show "bytesToMiB (uint b) < 2 ^ 44" using u e by simp
qed

lemma getProcesses_spec:
  assumes c: "nvmlDeviceGetComputeRunningProcesses w (handle d) s = (Inr (SUCCESS, cprocs), s1)"
    and g: "nvmlDeviceGetGraphicsRunningProcesses w (handle d) s1 = (Inr (SUCCESS, gprocs), s2)"
    and b: "fst (getBinding w sym_nvmlSystemGetProcessName s2) = Inr c"
  shows "\<exists>s'. getProcesses w d s
                 = (Inr (Ok (map (\<lambda>(i, r). process_entry (index d) r
                                    (native w (length (effects s2) + i) c (name_lookup_args r)))
                               (enumerate 0 (first_by_pid (cprocs @ gprocs))))), s')
              \<and> effects s' = effects s2 @ map (\<lambda>r. Invoke c (name_lookup_args r))
                                             (first_by_pid (cprocs @ gprocs))"
proof -
  from collect_processes_spec [OF b, of "index d" "cprocs @ gprocs" "{}" "[]"]
  obtain s' where
    n: "collect_processes w (index d) (cprocs @ gprocs) {} [] s2
          = (Inr (map (\<lambda>(i, r). process_entry (index d) r
                                    (native w (length (effects s2) + i) c (name_lookup_args r)))
                    (enumerate 0 (first_by_pid (cprocs @ gprocs)))), s')"
    and e: "effects s' = effects s2 @ map (\<lambda>r. Invoke c (name_lookup_args r))
                                             (first_by_pid (cprocs @ gprocs))"
    by auto
  have "getProcesses w d s
                 = (Inr (Ok (map (\<lambda>(i, r). process_entry (index d) r
                                    (native w (length (effects s2) + i) c (name_lookup_args r)))
                               (enumerate 0 (first_by_pid (cprocs @ gprocs))))), s')"
    using c g n by (simp add: getProcesses_def bindM_def returnM_def code_defs)
  with e show ?thesis by blast
qed

lemma map_enumerate_snd: "map (\<lambda>(i, r). f r) (enumerate n xs) = map f xs"
  by (induction xs arbitrary: n) simp_all

text \<open>
  Claim C7. Let both enumerations succeed, with the raw lists \<open>cprocs\<close> (compute) and
  \<open>gprocs\<close> (graphics), and let the name-lookup function be bound or bindable. Then
  \<^verbatim>\<open>getProcesses\<close> succeeds, and its list is, entry by entry, the first occurrences by
  pid of \<open>cprocs @ gprocs\<close>: the pids are distinct and are all the pids of both lists, a
  pid that is in both lists has exactly one entry, the entry kept for a pid is the first
  raw entry with that pid (the one of the compute list when the pid occurs there), and the
  memory of an entry is the bytes of that raw entry divided by 1048576. After the
  enumerations the native calls are one name lookup per entry, in the order of the list,
  through the one bound function \<open>c\<close>; the name of an entry is decided by the answer to
  its own lookup: the text before the first NUL when that call returns \<open>SUCCESS\<close>, and
  "pid:" followed by the decimal pid when it returns anything else.
\<close>

theorem getProcesses_deduplicates:
  "nvmlDeviceGetComputeRunningProcesses w (handle d) s = (Inr (SUCCESS, cprocs), s1)
   \<and> nvmlDeviceGetGraphicsRunningProcesses w (handle d) s1 = (Inr (SUCCESS, gprocs), s2)
   \<and> can_bind w s sym_nvmlSystemGetProcessName
   \<longrightarrow> (\<exists>ps s' c. getProcesses w d s = (Inr (Ok ps), s')
         \<and> map proc_pid ps = map pid (first_by_pid (cprocs @ gprocs))
         \<and> map usedMemoryMiB ps
             = map (\<lambda>r. uint (usedGpuMemory r) div 1048576) (first_by_pid (cprocs @ gprocs))
         \<and> (\<forall>p \<in> set ps. gpuIndex p = index d)
         \<and> distinct (map proc_pid ps)
         \<and> set (map proc_pid ps) = pid ` set (cprocs @ gprocs)
         \<and> (\<forall>n. n \<in> pid ` set cprocs \<and> n \<in> pid ` set gprocs
                \<longrightarrow> length (filter (\<lambda>p. proc_pid p = n) ps) = 1)
         \<and> (\<forall>n. find (\<lambda>r. pid r = n) (first_by_pid (cprocs @ gprocs))
                  = find (\<lambda>r. pid r = n) (cprocs @ gprocs))
         \<and> (\<forall>n. n \<in> pid ` set cprocs
                \<longrightarrow> find (\<lambda>r. pid r = n) (first_by_pid (cprocs @ gprocs))
                    = find (\<lambda>r. pid r = n) cprocs)
         \<and> fst (getBinding w sym_nvmlSystemGetProcessName s2) = Inr c
         \<and> effects s' = effects s2 @ map (\<lambda>p. Invoke c [ANum (int (proc_pid p)), ANum 256]) ps
         \<and> (\<forall>i < length ps.
               processName (ps ! i)
               = (if ret (native w (length (effects s2) + i) c
                            [ANum (int (proc_pid (ps ! i))), ANum 256]) = SUCCESS
                  then first_field (out_text (native w (length (effects s2) + i) c
                                                [ANum (int (proc_pid (ps ! i))), ANum 256]))
                  else ''pid:'' @ show_nat (proc_pid (ps ! i)))))"
proof (intro impI, elim conjE)
  assume c: "nvmlDeviceGetComputeRunningProcesses w (handle d) s = (Inr (SUCCESS, cprocs), s1)"
    and g: "nvmlDeviceGetGraphicsRunningProcesses w (handle d) s1 = (Inr (SUCCESS, gprocs), s2)"
    and cb: "can_bind w s sym_nvmlSystemGetProcessName"
  let ?raw = "first_by_pid (cprocs @ gprocs)"
  let ?N = sym_nvmlSystemGetProcessName
  obtain x1 where "invoke w sym_nvmlDeviceGetComputeRunningProcesses_v3
                     [ADevice (handle d), ANum (int MAX_PROCESSES)] s = (x1, s1)"
    using c by (auto simp: nvmlDeviceGetComputeRunningProcesses_def bindM_def returnM_def
        split: prod.splits sum.splits)
  from invoke_keeps_can_bind [OF this cb] have cb1: "can_bind w s1 ?N" .
  obtain x2 where "invoke w sym_nvmlDeviceGetGraphicsRunningProcesses_v3
                     [ADevice (handle d), ANum (int MAX_PROCESSES)] s1 = (x2, s2)"
    using g by (auto simp: nvmlDeviceGetGraphicsRunningProcesses_def bindM_def returnM_def
        split: prod.splits sum.splits)
  from invoke_keeps_can_bind [OF this cb1] have cb2: "can_bind w s2 ?N" .
  from can_bind_getBinding [OF cb2] obtain cl sb where "getBinding w ?N s2 = (Inr cl, sb)"
    by blast
  then have b: "fst (getBinding w ?N s2) = Inr cl" by simp
  define ps where
    "ps = map (\<lambda>(i, r). process_entry (index d) r
                           (native w (length (effects s2) + i) cl (name_lookup_args r)))
            (enumerate 0 ?raw)"
  from getProcesses_spec [OF c g b] obtain s' where
    run: "getProcesses w d s = (Inr (Ok ps), s')"
    and eff0: "effects s' = effects s2 @ map (\<lambda>r. Invoke cl (name_lookup_args r)) ?raw"
    unfolding ps_def by blast
  have pids: "map proc_pid ps = map pid ?raw"
    using map_enumerate_snd [of pid 0 ?raw]
    unfolding ps_def by (simp add: process_entry_def case_prod_unfold comp_def)
  have "map usedMemoryMiB ps = map (\<lambda>r. bytesToMiB (uint (usedGpuMemory r))) ?raw"
    using map_enumerate_snd [of "\<lambda>r. bytesToMiB (uint (usedGpuMemory r))" 0 ?raw]
    unfolding ps_def by (simp add: process_entry_def case_prod_unfold comp_def)
  then have mem: "map usedMemoryMiB ps = map (\<lambda>r. uint (usedGpuMemory r) div 1048576) ?raw"
    by (simp add: bytesToMiB_word(1))
  have gi: "\<forall>p \<in> set ps. gpuIndex p = index d"
    unfolding ps_def by (auto simp: process_entry_def)
  have dist: "distinct (map proc_pid ps)"
    unfolding pids by (rule distinct_first_by_pid)
  have st: "set (map proc_pid ps) = pid ` set (cprocs @ gprocs)"
    unfolding pids using pids_first_by_pid [of "cprocs @ gprocs"] by simp
  have one: "\<forall>n. n \<in> pid ` set cprocs \<and> n \<in> pid ` set gprocs
                \<longrightarrow> length (filter (\<lambda>p. proc_pid p = n) ps) = 1"
  proof (intro allI impI)
    fix n assume "n \<in> pid ` set cprocs \<and> n \<in> pid ` set gprocs"
    then have "n \<in> proc_pid ` set ps" using st by auto
    with dist show "length (filter (\<lambda>p. proc_pid p = n) ps) = 1"
      by (rule count_one)
  qed
  have f1: "\<forall>n. find (\<lambda>r. pid r = n) ?raw = find (\<lambda>r. pid r = n) (cprocs @ gprocs)"
    by (simp add: find_first_by_pid)
  have f2: "\<forall>n. n \<in> pid ` set cprocs
                \<longrightarrow> find (\<lambda>r. pid r = n) ?raw = find (\<lambda>r. pid r = n) cprocs"
    by (simp add: find_first_by_pid find_append_first)
  have "map (\<lambda>p. Invoke cl [ANum (int (proc_pid p)), ANum 256]) ps
        = map (\<lambda>r. Invoke cl (name_lookup_args r)) ?raw"
    using map_enumerate_snd [of "\<lambda>r. Invoke cl (name_lookup_args r)" 0 ?raw]
    unfolding ps_def by (simp add: process_entry_def case_prod_unfold name_lookup_args_def comp_def)
  with eff0 have eff:
    "effects s' = effects s2 @ map (\<lambda>p. Invoke cl [ANum (int (proc_pid p)), ANum 256]) ps"
    by simp
  have nm: "\<forall>i < length ps.
               processName (ps ! i)
               = (if ret (native w (length (effects s2) + i) cl
                            [ANum (int (proc_pid (ps ! i))), ANum 256]) = SUCCESS
                  then first_field (out_text (native w (length (effects s2) + i) cl
                                                [ANum (int (proc_pid (ps ! i))), ANum 256]))
                  else ''pid:'' @ show_nat (proc_pid (ps ! i)))"
    unfolding ps_def by (simp add: nth_enumerate_eq process_entry_def name_lookup_args_def)
  show "\<exists>ps s' c. getProcesses w d s = (Inr (Ok ps), s')
         \<and> map proc_pid ps = map pid ?raw
         \<and> map usedMemoryMiB ps = map (\<lambda>r. uint (usedGpuMemory r) div 1048576) ?raw
         \<and> (\<forall>p \<in> set ps. gpuIndex p = index d)
         \<and> distinct (map proc_pid ps)
         \<and> set (map proc_pid ps) = pid ` set (cprocs @ gprocs)
         \<and> (\<forall>n. n \<in> pid ` set cprocs \<and> n \<in> pid ` set gprocs
                \<longrightarrow> length (filter (\<lambda>p. proc_pid p = n) ps) = 1)
         \<and> (\<forall>n. find (\<lambda>r. pid r = n) ?raw = find (\<lambda>r. pid r = n) (cprocs @ gprocs))
         \<and> (\<forall>n. n \<in> pid ` set cprocs
                \<longrightarrow> find (\<lambda>r. pid r = n) ?raw = find (\<lambda>r. pid r = n) cprocs)
         \<and> fst (getBinding w ?N s2) = Inr c
         \<and> effects s' = effects s2 @ map (\<lambda>p. Invoke c [ANum (int (proc_pid p)), ANum 256]) ps
         \<and> (\<forall>i < length ps.
               processName (ps ! i)
               = (if ret (native w (length (effects s2) + i) c
                            [ANum (int (proc_pid (ps ! i))), ANum 256]) = SUCCESS
                  then first_field (out_text (native w (length (effects s2) + i) c
                                                [ANum (int (proc_pid (ps ! i))), ANum 256]))
                  else ''pid:'' @ show_nat (proc_pid (ps ! i))))"
    by (intro exI [of _ ps] exI [of _ s'] exI [of _ cl] conjI)
       (rule run pids mem gi dist st one f1 f2 b eff nm)+
qed

lemma sim_first_by_pid:
  "map pid (first_by_pid (sim_compute @ sim_graphics)) = [1234, 5678, 9999, 4242]"
  "map (\<lambda>r. uint (usedGpuMemory r) div 1048576) (first_by_pid (sim_compute @ sim_graphics))
     = [512, 1024, 256, 16]"
  by (simp_all add: sim_compute_def sim_graphics_def)

lemma can_bind_sim_ready: "can_bind sim_world sim_ready f"
  by (simp add: can_bind_def sim_ready_def)

lemma can_bind_sim_returning: "can_bind (sim_world_returning f' r) sim_ready f"
  by (simp add: can_bind_def sim_ready_def)

theorem getProcesses_deduplicates_witness:
  "\<exists>ps s'. getProcesses sim_world sim_device sim_ready = (Inr (Ok ps), s')
      \<and> map proc_pid ps = [1234, 5678, 9999, 4242]
      \<and> map usedMemoryMiB ps = [512, 1024, 256, 16]
      \<and> processName (ps ! 0) = ''/usr/bin/python3''
      \<and> processName (ps ! 3) = ''pid:4242''
      \<and> length (effects s') = 7"
proof -
  let ?s1 = "sim_called sym_nvmlDeviceGetComputeRunningProcesses_v3
               [ADevice (DevHandle 0), ANum 128]"
  let ?s2 = "?s1\<lparr>bindings := (bindings ?s1)
                (sym_nvmlDeviceGetGraphicsRunningProcesses_v3 :=
                   Some (Callable sim_lib sym_nvmlDeviceGetGraphicsRunningProcesses_v3)),
              effects := effects ?s1 @
                [Invoke (Callable sim_lib sym_nvmlDeviceGetGraphicsRunningProcesses_v3)
                   [ADevice (DevHandle 0), ANum 128]]\<rparr>"
  have c: "nvmlDeviceGetComputeRunningProcesses sim_world (handle sim_device) sim_ready
           = (Inr (SUCCESS, sim_compute), ?s1)"
    by (simp add: nvmlDeviceGetComputeRunningProcesses_def bindM_def returnM_def
        invoke_sim_ready sim_device_def MAX_PROCESSES_def blank_def SUCCESS_def
        extract_processes_def sim_compute_def)
  have g: "nvmlDeviceGetGraphicsRunningProcesses sim_world (handle sim_device) ?s1
             = (Inr (SUCCESS, sim_graphics), ?s2)"
    by (simp add: nvmlDeviceGetGraphicsRunningProcesses_def run_defs sim_called_def
        sim_ready_def sim_lib_def sim_device_def MAX_PROCESSES_def blank_def SUCCESS_def
        extract_processes_def sim_graphics_def)
  have h: "nvmlDeviceGetComputeRunningProcesses sim_world (handle sim_device) sim_ready
         = (Inr (SUCCESS, sim_compute), ?s1)
     \<and> nvmlDeviceGetGraphicsRunningProcesses sim_world (handle sim_device) ?s1
         = (Inr (SUCCESS, sim_graphics), ?s2)
     \<and> can_bind sim_world sim_ready sym_nvmlSystemGetProcessName"
    by (intro conjI) (rule c g can_bind_sim_ready)+
  from getProcesses_deduplicates [rule_format, OF h] obtain ps s' cl where
    r: "getProcesses sim_world sim_device sim_ready = (Inr (Ok ps), s')"
       "map proc_pid ps = map pid (first_by_pid (sim_compute @ sim_graphics))"
       "map usedMemoryMiB ps
          = map (\<lambda>r. uint (usedGpuMemory r) div 1048576) (first_by_pid (sim_compute @ sim_graphics))"
       "fst (getBinding sim_world sym_nvmlSystemGetProcessName ?s2) = Inr cl"
       "effects s' = effects ?s2
                      @ map (\<lambda>p. Invoke cl [ANum (int (proc_pid p)), ANum 256]) ps"
       "\<forall>i < length ps.
               processName (ps ! i)
               = (if ret (native sim_world (length (effects ?s2) + i) cl
                            [ANum (int (proc_pid (ps ! i))), ANum 256]) = SUCCESS
                  then first_field (out_text (native sim_world (length (effects ?s2) + i) cl
                                                [ANum (int (proc_pid (ps ! i))), ANum 256]))
                  else ''pid:'' @ show_nat (proc_pid (ps ! i)))"
    by (elim exE conjE)
  have pids: "map proc_pid ps = [1234, 5678, 9999, 4242]"
    using r(2) unfolding sim_first_by_pid .
  have mem: "map usedMemoryMiB ps = [512, 1024, 256, 16]"
    using r(3) unfolding sim_first_by_pid .
  have len: "length ps = 4"
    using arg_cong [OF pids, of length] by simp
  have p0: "proc_pid (ps ! 0) = 1234" and p3: "proc_pid (ps ! 3) = 4242"
    using arg_cong [OF pids, of "\<lambda>xs. xs ! 0"] arg_cong [OF pids, of "\<lambda>xs. xs ! 3"] len
    by simp_all
  have cl: "bound_symbol cl = sym_nvmlSystemGetProcessName"
    using r(4)
    by (auto simp: getBinding_def getLibrary_def sim_called_def sim_ready_def split: if_splits)
  have n0: "processName (ps ! 0) = ''/usr/bin/python3''"
    using r(6) [rule_format, of 0] len p0 cl
    by (simp add: blank_def SUCCESS_def first_field_def)
  have n3: "processName (ps ! 3) = ''pid:4242''"
    using r(6) [rule_format, of 3] len p3 cl
    by (simp add: blank_def SUCCESS_def show_nat_4242)
  have le: "length (effects s') = 7"
    using r(5) len by (simp add: sim_called_def sim_ready_def)
  show ?thesis
    using r(1) pids mem n0 n3 le
    by (intro exI [of _ ps] exI [of _ s'] conjI)
qed

subsection \<open>Where the clock is read\<close>

lemma only_invokesD:
  "only_invokes m \<Longrightarrow> m s = (x, s') \<Longrightarrow>
   \<exists>evs. effects s' = effects s @ evs \<and> ClockRead \<notin> set evs"
  by (simp add: only_invokes_def)

lemma only_invokes_returnM: "only_invokes (returnM x)"
  by (simp add: only_invokes_def returnM_def)

lemma only_invokes_throwM: "only_invokes (throwM e)"
  by (simp add: only_invokes_def throwM_def)

lemma only_invokes_bindM:
  assumes "only_invokes m" and "\<And>x. only_invokes (f x)"
  shows "only_invokes (bindM m f)"
  unfolding only_invokes_def
proof (intro allI impI)
  fix s y s' assume run: "bindM m f s = (y, s')"
  obtain x s1 where m: "m s = (x, s1)" by (cases "m s")
  from only_invokesD [OF assms(1) m] obtain evs where
    e1: "effects s1 = effects s @ evs" "ClockRead \<notin> set evs" by blast
  show "\<exists>evs. effects s' = effects s @ evs \<and> ClockRead \<notin> set evs"
  proof (cases x)
    case (Inl e)
    with run m e1 show ?thesis by (auto simp: bindM_def)
  next
    case (Inr v)
    with run m have "f v s1 = (y, s')" by (simp add: bindM_def)
    from only_invokesD [OF assms(2) this] obtain evs' where
      "effects s' = effects s1 @ evs'" "ClockRead \<notin> set evs'" by blast
    with e1 have "effects s' = effects s @ (evs @ evs')" "ClockRead \<notin> set (evs @ evs')"
      by simp_all
    then show ?thesis by blast
  qed
qed

lemma only_invokes_if:
  "only_invokes a \<Longrightarrow> only_invokes b \<Longrightarrow> only_invokes (if c then a else b)"
  by simp

lemma only_invokes_case_prod:
  "(\<And>a b. only_invokes (f a b)) \<Longrightarrow> only_invokes (case p of (a, b) \<Rightarrow> f a b)"
  by (cases p) simp

lemma only_invokes_case_Result:
  "(\<And>v. only_invokes (f v)) \<Longrightarrow> (\<And>e. only_invokes (g e)) \<Longrightarrow>
   only_invokes (case r of Ok v \<Rightarrow> f v | Err e \<Rightarrow> g e)"
  by (cases r) simp_all

lemma only_invokes_invoke: "only_invokes (invoke w f args)"
  by (auto simp: only_invokes_def run_defs split: option.splits if_splits prod.splits sum.splits)

lemma only_invokes_ensureInitialized: "only_invokes ensureInitialized"
  by (simp add: only_invokes_def ensureInitialized_def)

lemma only_invokes_query:
  "only_invokes (getName w d)" "only_invokes (getUUID w d)" "only_invokes (getMemoryInfo w d)"
  "only_invokes (getUtilizationRates w d)" "only_invokes (getTemperature w d)"
  "only_invokes (getPowerUsage w d)" "only_invokes (getPowerLimit w d)"
  "only_invokes (getFanSpeed w d)" "only_invokes (getPerformanceState w d)"
  "only_invokes (getPciInfo w d)" "only_invokes (getPersistenceMode w d)"
  "only_invokes (getDisplayActive w d)" "only_invokes (getComputeMode w d)"
  "only_invokes (getMigMode w d)" "only_invokes (getEccErrorsCorrected w d)"
  unfolding query_defs binding_defs by (intro only_invokes_bindM only_invokes_invoke
      only_invokes_returnM only_invokes_if only_invokes_case_prod)+

lemma only_invokes_getStatus: "only_invokes (getStatus w d)"
  unfolding getStatus_def
  by (intro only_invokes_bindM only_invokes_query only_invokes_case_Result
      only_invokes_returnM)

lemma only_invokes_getByIndex: "only_invokes (getByIndex w i)"
  unfolding getByIndex_def nvmlDeviceGetHandleByIndex_def
  by (intro only_invokes_bindM only_invokes_invoke only_invokes_returnM only_invokes_if
      only_invokes_case_prod only_invokes_throwM)

lemma only_invokes_collect_processes:
  "only_invokes (collect_processes w gi raws seen acc)"
proof (induction raws arbitrary: seen acc)
  case Nil
  show ?case by (simp add: only_invokes_returnM)
next
  case (Cons x xs)
  show ?case
    unfolding collect_processes.simps nvmlSystemGetProcessName_def
    by (intro only_invokes_bindM only_invokes_invoke only_invokes_returnM only_invokes_if
        only_invokes_case_prod Cons.IH)
qed

lemma only_invokes_getProcesses: "only_invokes (getProcesses w d)"
  unfolding getProcesses_def nvmlDeviceGetComputeRunningProcesses_def
    nvmlDeviceGetGraphicsRunningProcesses_def
  by (intro only_invokes_bindM only_invokes_invoke only_invokes_returnM only_invokes_if
      only_invokes_case_prod only_invokes_collect_processes)

lemma only_invokes_getAllGpuStatus_loop: "only_invokes (getAllGpuStatus_loop w is acc)"
proof (induction "is" arbitrary: acc)
  case Nil
  show ?case by (simp add: only_invokes_returnM)
next
  case (Cons i "is")
  show ?case
    unfolding getAllGpuStatus_loop.simps
    by (intro only_invokes_bindM only_invokes_getByIndex only_invokes_getStatus
        only_invokes_case_Result only_invokes_returnM Cons.IH)
qed

lemma only_invokes_allProcesses_loop: "only_invokes (allProcesses_loop w is acc)"
proof (induction "is" arbitrary: acc)
  case Nil
  show ?case by (simp add: only_invokes_returnM)
next
  case (Cons i "is")
  show ?case
    unfolding allProcesses_loop.simps
    by (intro only_invokes_bindM only_invokes_getByIndex only_invokes_getProcesses
        only_invokes_case_Result only_invokes_returnM Cons.IH)
qed

lemma only_invokes_nvmlDeviceGetCount: "only_invokes (nvmlDeviceGetCount w)"
  unfolding nvmlDeviceGetCount_def
  by (intro only_invokes_bindM only_invokes_invoke only_invokes_returnM)

lemma only_invokes_getDriverInfo: "only_invokes (getDriverInfo w)"
  unfolding getDriverInfo_def nvmlSystemGetDriverVersion_def nvmlSystemGetNvmlVersion_def
    nvmlSystemGetCudaDriverVersion_v2_def
  by (intro only_invokes_bindM only_invokes_invoke only_invokes_returnM only_invokes_if
      only_invokes_case_prod only_invokes_ensureInitialized)

lemma only_invokes_getAllGpuStatus: "only_invokes (getAllGpuStatus w)"
  unfolding getAllGpuStatus_def
  by (intro only_invokes_bindM only_invokes_nvmlDeviceGetCount only_invokes_returnM
      only_invokes_if only_invokes_case_prod only_invokes_ensureInitialized
      only_invokes_getAllGpuStatus_loop)

lemma getSystemSnapshot_Ok:
  assumes "getSystemSnapshot w s = (Inr (Ok snap), s')"
  shows "\<exists>di s1 gs s2 count s3 ps s4.
           initialized s
           \<and> getDriverInfo w s = (Inr (Ok di), s1)
           \<and> getAllGpuStatus w s1 = (Inr (Ok gs), s2)
           \<and> nvmlDeviceGetCount w s2 = (Inr (SUCCESS, count), s3)
           \<and> allProcesses_loop w (indices count) [] s3 = (Inr (Ok ps), s4)
           \<and> s' = s4\<lparr>effects := effects s4 @ [ClockRead]\<rparr>
           \<and> snap = \<lparr>timestamp = clock w (length (effects s4)), driver = di, gpus = gs,
                       processes = ps\<rparr>"
  using assms
  by (auto simp: getSystemSnapshot_def bindM_def returnM_def ensureInitialized_def newDate_def
      code_defs split: prod.splits sum.splits Result.splits if_splits)


text \<open>
  Claim C5, amended. \<^verbatim>\<open>getSystemSnapshot\<close> succeeds exactly when, from an initialised
  state, the driver-info query, then the status queries of all GPUs, then the device count
  and then the process enumeration of all devices succeed, each from the state the one
  before left. The clock is not read during any of these; it is read once, as the last
  effect, in the state the process loop left, and the snapshot carries that reading with
  the results of the four steps.
\<close>

theorem snapshot_timestamp_is_taken_last:
  "getSystemSnapshot w s = (Inr (Ok snap), s') \<longleftrightarrow>
     (\<exists>di s1 gs s2 count s3 ps s4.
         initialized s
         \<and> getDriverInfo w s = (Inr (Ok di), s1)
         \<and> getAllGpuStatus w s1 = (Inr (Ok gs), s2)
         \<and> nvmlDeviceGetCount w s2 = (Inr (SUCCESS, count), s3)
         \<and> allProcesses_loop w (indices count) [] s3 = (Inr (Ok ps), s4)
         \<and> effects s4 = effects s @ effects_since s s4
         \<and> ClockRead \<notin> set (effects_since s s4)
         \<and> s' = s4\<lparr>effects := effects s4 @ [ClockRead]\<rparr>
         \<and> snap = \<lparr>timestamp = clock w (length (effects s4)), driver = di, gpus = gs,
                     processes = ps\<rparr>)"
proof
  assume "getSystemSnapshot w s = (Inr (Ok snap), s')"
  from getSystemSnapshot_Ok [OF this] obtain di s1 gs s2 count s3 ps s4 where
    i: "initialized s"
    and d: "getDriverInfo w s = (Inr (Ok di), s1)"
    and g: "getAllGpuStatus w s1 = (Inr (Ok gs), s2)"
    and c: "nvmlDeviceGetCount w s2 = (Inr (SUCCESS, count), s3)"
    and p: "allProcesses_loop w (indices count) [] s3 = (Inr (Ok ps), s4)"
    and s': "s' = s4\<lparr>effects := effects s4 @ [ClockRead]\<rparr>"
    and snap: "snap = \<lparr>timestamp = clock w (length (effects s4)), driver = di, gpus = gs,
                       processes = ps\<rparr>"
    by blast
  from only_invokesD [OF only_invokes_getDriverInfo d] obtain e1 where
    e1: "effects s1 = effects s @ e1" "ClockRead \<notin> set e1" by blast
  from only_invokesD [OF only_invokes_getAllGpuStatus g] obtain e2 where
    e2: "effects s2 = effects s1 @ e2" "ClockRead \<notin> set e2" by blast
  from only_invokesD [OF only_invokes_nvmlDeviceGetCount c] obtain e3 where
    e3: "effects s3 = effects s2 @ e3" "ClockRead \<notin> set e3" by blast
  from only_invokesD [OF only_invokes_allProcesses_loop p] obtain e4 where
    e4: "effects s4 = effects s3 @ e4" "ClockRead \<notin> set e4" by blast
  have a: "effects s4 = effects s @ (e1 @ e2 @ e3 @ e4)"
    using e1 e2 e3 e4 by simp
  then have es: "effects_since s s4 = e1 @ e2 @ e3 @ e4"
    by (rule effects_since_append)
  have a': "effects s4 = effects s @ effects_since s s4"
    using a es by simp
  have b: "ClockRead \<notin> set (effects_since s s4)"
    using e1 e2 e3 e4 es by simp
  show "\<exists>di s1 gs s2 count s3 ps s4.
         initialized s
         \<and> getDriverInfo w s = (Inr (Ok di), s1)
         \<and> getAllGpuStatus w s1 = (Inr (Ok gs), s2)
         \<and> nvmlDeviceGetCount w s2 = (Inr (SUCCESS, count), s3)
         \<and> allProcesses_loop w (indices count) [] s3 = (Inr (Ok ps), s4)
         \<and> effects s4 = effects s @ effects_since s s4
         \<and> ClockRead \<notin> set (effects_since s s4)
         \<and> s' = s4\<lparr>effects := effects s4 @ [ClockRead]\<rparr>
         \<and> snap = \<lparr>timestamp = clock w (length (effects s4)), driver = di, gpus = gs,
                     processes = ps\<rparr>"
    by (intro exI [of _ di] exI [of _ s1] exI [of _ gs] exI [of _ s2] exI [of _ count]
          exI [of _ s3] exI [of _ ps] exI [of _ s4] conjI)
       (rule i d g c p a' b s' snap)+
next
  assume "\<exists>di s1 gs s2 count s3 ps s4.
         initialized s
         \<and> getDriverInfo w s = (Inr (Ok di), s1)
         \<and> getAllGpuStatus w s1 = (Inr (Ok gs), s2)
         \<and> nvmlDeviceGetCount w s2 = (Inr (SUCCESS, count), s3)
         \<and> allProcesses_loop w (indices count) [] s3 = (Inr (Ok ps), s4)
         \<and> effects s4 = effects s @ effects_since s s4
         \<and> ClockRead \<notin> set (effects_since s s4)
         \<and> s' = s4\<lparr>effects := effects s4 @ [ClockRead]\<rparr>
         \<and> snap = \<lparr>timestamp = clock w (length (effects s4)), driver = di, gpus = gs,
                     processes = ps\<rparr>"
  then obtain di s1 gs s2 count s3 ps s4 where
    i: "initialized s"
    and d: "getDriverInfo w s = (Inr (Ok di), s1)"
    and g: "getAllGpuStatus w s1 = (Inr (Ok gs), s2)"
    and c: "nvmlDeviceGetCount w s2 = (Inr (SUCCESS, count), s3)"
    and p: "allProcesses_loop w (indices count) [] s3 = (Inr (Ok ps), s4)"
    and s': "s' = s4\<lparr>effects := effects s4 @ [ClockRead]\<rparr>"
    and snap: "snap = \<lparr>timestamp = clock w (length (effects s4)), driver = di, gpus = gs,
                       processes = ps\<rparr>"
    by blast
  show "getSystemSnapshot w s = (Inr (Ok snap), s')"
    using i d g c p s' snap
    by (simp add: getSystemSnapshot_def bindM_def returnM_def ensureInitialized_def newDate_def
        code_defs)
qed

lemma indices_1: "indices 1 = [0]"
  by (simp add: indices_def)

lemma show_nat_pids:
  "show_nat 4242 = ''4242''"
  by (simp add: show_nat.simps digit_char_def)

lemma show_int_0: "show_int 0 = ''0''"
  by (simp add: show_int_def show_nat.simps digit_char_def)

lemma snapshot_sim:
  "\<exists>snap s'. getSystemSnapshot sim_world sim_ready = (Inr (Ok snap), s')
        \<and> map event_symbol (effects_since sim_ready s')
          = [Some sym_nvmlSystemGetDriverVersion, Some sym_nvmlSystemGetNVMLVersion,
             Some sym_nvmlSystemGetCudaDriverVersion_v2,
             Some sym_nvmlDeviceGetCount_v2, Some sym_nvmlDeviceGetHandleByIndex_v2,
             Some sym_nvmlDeviceGetName, Some sym_nvmlDeviceGetPersistenceMode,
             Some sym_nvmlDeviceGetPciInfo_v3, Some sym_nvmlDeviceGetDisplayActive,
             Some sym_nvmlDeviceGetTotalEccErrors, Some sym_nvmlDeviceGetFanSpeed,
             Some sym_nvmlDeviceGetTemperature, Some sym_nvmlDeviceGetPerformanceState,
             Some sym_nvmlDeviceGetPowerUsage, Some sym_nvmlDeviceGetPowerManagementLimit,
             Some sym_nvmlDeviceGetMemoryInfo, Some sym_nvmlDeviceGetUtilizationRates,
             Some sym_nvmlDeviceGetComputeMode, Some sym_nvmlDeviceGetMigMode,
             Some sym_nvmlDeviceGetCount_v2, Some sym_nvmlDeviceGetHandleByIndex_v2,
             Some sym_nvmlDeviceGetComputeRunningProcesses_v3,
             Some sym_nvmlDeviceGetGraphicsRunningProcesses_v3,
             Some sym_nvmlSystemGetProcessName, Some sym_nvmlSystemGetProcessName,
             Some sym_nvmlSystemGetProcessName, Some sym_nvmlSystemGetProcessName,
             None]
        \<and> timestamp snap = 1700000000028"
  by (simp add: getSystemSnapshot_def getDriverInfo_def getAllGpuStatus_def getStatus_def
      getProcesses_def getByIndex_def isInteger_def indices_1 newDate_def
      ensureInitialized_def query_defs binding_defs code_defs run_defs
      sim_ready_def sim_lib_def blank_def strip_nuls_def first_field_def effects_since_def
      cudaVersionToString_eq js_rem_12040 show_12 show_4 show_int_0 show_nat_pids
      extract_processes_def MAX_PROCESSES_def sim_compute_def sim_graphics_def
      bytesToMiB_def)


theorem snapshot_timestamp_is_taken_last_witness:
  "\<exists>snap s' di s1 gs s2 count s3 ps s4.
      getSystemSnapshot sim_world sim_ready = (Inr (Ok snap), s')
      \<and> getDriverInfo sim_world sim_ready = (Inr (Ok di), s1)
      \<and> getAllGpuStatus sim_world s1 = (Inr (Ok gs), s2)
      \<and> nvmlDeviceGetCount sim_world s2 = (Inr (SUCCESS, count), s3)
      \<and> allProcesses_loop sim_world (indices count) [] s3 = (Inr (Ok ps), s4)
      \<and> ClockRead \<notin> set (effects_since sim_ready s4)
      \<and> effects s' = effects s4 @ [ClockRead]
      \<and> processes snap = ps
      \<and> timestamp snap = 1700000000028"
proof -
  from snapshot_sim obtain snap s' where
    r: "getSystemSnapshot sim_world sim_ready = (Inr (Ok snap), s')"
       "timestamp snap = 1700000000028"
    by (elim exE conjE)
  from snapshot_timestamp_is_taken_last [THEN iffD1, OF r(1)]
  obtain di s1 gs s2 count s3 ps s4 where
    c: "getDriverInfo sim_world sim_ready = (Inr (Ok di), s1)"
       "getAllGpuStatus sim_world s1 = (Inr (Ok gs), s2)"
       "nvmlDeviceGetCount sim_world s2 = (Inr (SUCCESS, count), s3)"
       "allProcesses_loop sim_world (indices count) [] s3 = (Inr (Ok ps), s4)"
       "ClockRead \<notin> set (effects_since sim_ready s4)"
       "s' = s4\<lparr>effects := effects s4 @ [ClockRead]\<rparr>"
       "snap = \<lparr>timestamp = clock sim_world (length (effects s4)), driver = di, gpus = gs,
                 processes = ps\<rparr>"
    by (elim exE conjE)
  have e: "effects s' = effects s4 @ [ClockRead]" using c(6) by simp
  have p: "processes snap = ps" using c(7) by simp
  show ?thesis
    by (intro exI [of _ snap] exI [of _ s'] exI [of _ di] exI [of _ s1] exI [of _ gs]
          exI [of _ s2] exI [of _ count] exI [of _ s3] exI [of _ ps] exI [of _ s4] conjI)
       (rule r c(1-5) e p)+
qed

text \<open>
  Claim C5 says that the timestamp of \<^verbatim>\<open>getSystemSnapshot\<close> is taken before process
  enumeration begins. In the simulated system the snapshot succeeds and the effects of the
  call are, in order, the 27 native calls below, the two process enumerations and the
  four name lookups among them, and only then the clock read.
\<close>

theorem snapshot_stamped_before_processes_counterexample:
  "fst (failure_only (getSystemSnapshot sim_world) sim_ready) = Inr None
   \<and> \<not> stamped_before_process_enumeration
         (effects_since sim_ready (snd (getSystemSnapshot sim_world sim_ready)))
   \<and> map event_symbol (effects_since sim_ready (snd (getSystemSnapshot sim_world sim_ready)))
     = [Some sym_nvmlSystemGetDriverVersion, Some sym_nvmlSystemGetNVMLVersion,
             Some sym_nvmlSystemGetCudaDriverVersion_v2,
             Some sym_nvmlDeviceGetCount_v2, Some sym_nvmlDeviceGetHandleByIndex_v2,
             Some sym_nvmlDeviceGetName, Some sym_nvmlDeviceGetPersistenceMode,
             Some sym_nvmlDeviceGetPciInfo_v3, Some sym_nvmlDeviceGetDisplayActive,
             Some sym_nvmlDeviceGetTotalEccErrors, Some sym_nvmlDeviceGetFanSpeed,
             Some sym_nvmlDeviceGetTemperature, Some sym_nvmlDeviceGetPerformanceState,
             Some sym_nvmlDeviceGetPowerUsage, Some sym_nvmlDeviceGetPowerManagementLimit,
             Some sym_nvmlDeviceGetMemoryInfo, Some sym_nvmlDeviceGetUtilizationRates,
             Some sym_nvmlDeviceGetComputeMode, Some sym_nvmlDeviceGetMigMode,
             Some sym_nvmlDeviceGetCount_v2, Some sym_nvmlDeviceGetHandleByIndex_v2,
             Some sym_nvmlDeviceGetComputeRunningProcesses_v3,
             Some sym_nvmlDeviceGetGraphicsRunningProcesses_v3,
             Some sym_nvmlSystemGetProcessName, Some sym_nvmlSystemGetProcessName,
             Some sym_nvmlSystemGetProcessName, Some sym_nvmlSystemGetProcessName,
             None]"
proof -
  from snapshot_sim obtain snap s' where
    r: "getSystemSnapshot sim_world sim_ready = (Inr (Ok snap), s')"
    and e: "map event_symbol (effects_since sim_ready s')
     = [Some sym_nvmlSystemGetDriverVersion, Some sym_nvmlSystemGetNVMLVersion,
             Some sym_nvmlSystemGetCudaDriverVersion_v2,
             Some sym_nvmlDeviceGetCount_v2, Some sym_nvmlDeviceGetHandleByIndex_v2,
             Some sym_nvmlDeviceGetName, Some sym_nvmlDeviceGetPersistenceMode,
             Some sym_nvmlDeviceGetPciInfo_v3, Some sym_nvmlDeviceGetDisplayActive,
             Some sym_nvmlDeviceGetTotalEccErrors, Some sym_nvmlDeviceGetFanSpeed,
             Some sym_nvmlDeviceGetTemperature, Some sym_nvmlDeviceGetPerformanceState,
             Some sym_nvmlDeviceGetPowerUsage, Some sym_nvmlDeviceGetPowerManagementLimit,
             Some sym_nvmlDeviceGetMemoryInfo, Some sym_nvmlDeviceGetUtilizationRates,
             Some sym_nvmlDeviceGetComputeMode, Some sym_nvmlDeviceGetMigMode,
             Some sym_nvmlDeviceGetCount_v2, Some sym_nvmlDeviceGetHandleByIndex_v2,
             Some sym_nvmlDeviceGetComputeRunningProcesses_v3,
             Some sym_nvmlDeviceGetGraphicsRunningProcesses_v3,
             Some sym_nvmlSystemGetProcessName, Some sym_nvmlSystemGetProcessName,
             Some sym_nvmlSystemGetProcessName, Some sym_nvmlSystemGetProcessName,
             None]"
    by (elim exE conjE)
  have a: "fst (failure_only (getSystemSnapshot sim_world) sim_ready) = Inr None"
    using r by (simp add: failure_only_apply failure_of_def)
  have b: "\<not> stamped_before_process_enumeration (effects_since sim_ready s')"
    unfolding stamped_before_process_enumeration_def e
    by (simp add: is_process_enumeration_def)
  have s: "snd (getSystemSnapshot sim_world sim_ready) = s'"
    using r by simp
  show ?thesis
    unfolding s by (intro conjI a b e)
qed


subsection \<open>Error texts and the simulated system\<close>

lemma nvmlErrorString_999: "nvmlErrorString 999 = ''Unknown error''"
  by (simp add: nvmlErrorString_def messages_def)

lemma nvmlErrorString_2: "nvmlErrorString 2 = ''Invalid argument''"
  by (simp add: nvmlErrorString_def messages_def)

lemma show_int_999: "show_int 999 = ''999''"
  by (simp add: show_int_def show_nat.simps digit_char_def)

lemma initialized_sim_ready: "initialized sim_ready"
  by (simp add: sim_ready_def)

subsection \<open>Feature absence against failure\<close>

lemmas failure_defs = binding_defs code_defs bindM_def returnM_def throwM_def
  ensureInitialized_def fromReturn_def MAX_PROCESSES_def

lemma getProcesses_compute_failure:
  "invoke w sym_nvmlDeviceGetComputeRunningProcesses_v3 [ADevice (handle d), ANum 128] s
     = (Inr r, s') \<and> ret r \<noteq> SUCCESS
   \<longrightarrow> getProcesses w d s
         = (Inr (Err (NvmlError (ret r)
                        (''Failed to get compute processes: '' @ nvmlErrorString (ret r)))), s')"
  by (simp add: getProcesses_def failure_defs)

lemma getProcesses_graphics_failure:
  "invoke w sym_nvmlDeviceGetComputeRunningProcesses_v3 [ADevice (handle d), ANum 128] s
     = (Inr r1, s1) \<and> ret r1 = SUCCESS
   \<and> invoke w sym_nvmlDeviceGetGraphicsRunningProcesses_v3 [ADevice (handle d), ANum 128] s1
     = (Inr r, s') \<and> ret r \<noteq> SUCCESS
   \<longrightarrow> getProcesses w d s
         = (Inr (Err (NvmlError (ret r)
                        (''Failed to get graphics processes: '' @ nvmlErrorString (ret r)))), s')"
  by (simp add: getProcesses_def failure_defs)

lemma getDriverVersion_failure:
  "initialized s \<and> invoke w sym_nvmlSystemGetDriverVersion [ANum 80] s = (Inr r, s')
   \<and> ret r \<noteq> SUCCESS
   \<longrightarrow> getDriverVersion w s
         = (Inr (Err (NvmlError (ret r)
                        (''Failed to get driver version: '' @ nvmlErrorString (ret r)))), s')
       \<and> getDriverInfo w s
         = (Inr (Err (NvmlError (ret r)
                        (''Failed to get driver version: '' @ nvmlErrorString (ret r)))), s')"
  by (simp add: getDriverVersion_def getDriverInfo_def failure_defs)

lemma getNvmlVersion_failure:
  "initialized s \<and> invoke w sym_nvmlSystemGetNVMLVersion [ANum 80] s = (Inr r, s')
   \<and> ret r \<noteq> SUCCESS
   \<longrightarrow> getNvmlVersion w s
         = (Inr (Err (NvmlError (ret r)
                        (''Failed to get NVML version: '' @ nvmlErrorString (ret r)))), s')"
  by (simp add: getNvmlVersion_def failure_defs)

lemma getCudaVersion_failure:
  "initialized s \<and> invoke w sym_nvmlSystemGetCudaDriverVersion_v2 [] s = (Inr r, s')
   \<and> ret r \<noteq> SUCCESS
   \<longrightarrow> getCudaVersion w s
         = (Inr (Err (NvmlError (ret r)
                        (''Failed to get CUDA version: '' @ nvmlErrorString (ret r)))), s')"
  by (simp add: getCudaVersion_def failure_defs)

lemma getDriverInfo_nvml_failure:
  "initialized s \<and> invoke w sym_nvmlSystemGetDriverVersion [ANum 80] s = (Inr r1, s1)
   \<and> ret r1 = SUCCESS
   \<and> invoke w sym_nvmlSystemGetNVMLVersion [ANum 80] s1 = (Inr r, s') \<and> ret r \<noteq> SUCCESS
   \<longrightarrow> getDriverInfo w s
         = (Inr (Err (NvmlError (ret r)
                        (''Failed to get NVML version: '' @ nvmlErrorString (ret r)))), s')"
  by (simp add: getDriverInfo_def failure_defs)

lemma getDriverInfo_cuda_failure:
  "initialized s \<and> invoke w sym_nvmlSystemGetDriverVersion [ANum 80] s = (Inr r1, s1)
   \<and> ret r1 = SUCCESS
   \<and> invoke w sym_nvmlSystemGetNVMLVersion [ANum 80] s1 = (Inr r2, s2) \<and> ret r2 = SUCCESS
   \<and> invoke w sym_nvmlSystemGetCudaDriverVersion_v2 [] s2 = (Inr r, s') \<and> ret r \<noteq> SUCCESS
   \<longrightarrow> getDriverInfo w s
         = (Inr (Err (NvmlError (ret r)
                        (''Failed to get CUDA version: '' @ nvmlErrorString (ret r)))), s')"
  by (simp add: getDriverInfo_def failure_defs)

lemma getAllGpuStatus_count_failure:
  "initialized s \<and> invoke w sym_nvmlDeviceGetCount_v2 [] s = (Inr r, s') \<and> ret r \<noteq> SUCCESS
   \<longrightarrow> getAllGpuStatus w s
         = (Inr (Err (NvmlError (ret r)
                        (''Failed to get device count: '' @ nvmlErrorString (ret r)))), s')"
  by (simp add: getAllGpuStatus_def failure_defs)

lemma getSystemSnapshot_count_failure:
  "initialized s \<and> getDriverInfo w s = (Inr (Ok di), s1)
   \<and> getAllGpuStatus w s1 = (Inr (Ok gs), s2)
   \<and> invoke w sym_nvmlDeviceGetCount_v2 [] s2 = (Inr r, s') \<and> ret r \<noteq> SUCCESS
   \<longrightarrow> getSystemSnapshot w s
         = (Inr (Err (NvmlError (ret r)
                        (''Failed to get device count for process query: ''
                         @ nvmlErrorString (ret r)))), s')"
  by (simp add: getSystemSnapshot_def failure_defs)

lemma getDeviceCount_failure:
  "initialized s \<and> invoke w sym_nvmlDeviceGetCount_v2 [] s = (Inr r, s') \<and> ret r \<noteq> SUCCESS
   \<longrightarrow> getDeviceCount w s
         = (Inl (Nvml (NvmlError (ret r)
                         (''Failed to get device count: '' @ nvmlErrorString (ret r)))), s')"
  by (simp add: getDeviceCount_def failure_defs)

lemma getDevice_failure:
  "initialized s \<and> isInteger i \<and> 0 \<le> i
   \<and> invoke w sym_nvmlDeviceGetHandleByIndex_v2 [ANum \<lfloor>i\<rfloor>] s = (Inr r, s')
   \<and> ret r \<noteq> SUCCESS
   \<longrightarrow> getDevice w i s
         = (Inl (Nvml (NvmlError (ret r)
                         (''Failed to get device at index '' @ js_number_string w i @ '': ''
                          @ nvmlErrorString (ret r)))), s')"
  by (simp add: getDevice_def getByIndex_def failure_defs)

lemma getDeviceByUUID_failure:
  "initialized s \<and> \<not> trim_is_empty uuid
   \<and> invoke w sym_nvmlDeviceGetHandleByUUID [AStr uuid] s = (Inr r, s')
   \<and> ret r \<noteq> SUCCESS
   \<longrightarrow> getDeviceByUUID w uuid s
         = (Inl (Nvml (NvmlError (ret r)
                         (''Failed to get device with UUID '' @ uuid @ '': ''
                          @ nvmlErrorString (ret r)))), s')"
  by (simp add: getDeviceByUUID_def getByUUID_def failure_defs)

lemma optional_queries_absent:
  "invoke w sym_nvmlDeviceGetFanSpeed [ADevice (handle d)] s = (Inr r, s')
      \<and> ret r = ERROR_NOT_SUPPORTED
      \<longrightarrow> getFanSpeed w d s = (Inr (Ok None), s')"
  "invoke w sym_nvmlDeviceGetMigMode [ADevice (handle d)] s = (Inr r, s')
      \<and> ret r = ERROR_NOT_SUPPORTED
      \<longrightarrow> getMigMode w d s = (Inr (Ok None), s')"
  "invoke w sym_nvmlDeviceGetTotalEccErrors [ADevice (handle d), ANum 0, ANum 0] s
        = (Inr r, s')
      \<and> ret r = ERROR_NOT_SUPPORTED
      \<longrightarrow> getEccErrorsCorrected w d s = (Inr (Ok None), s')"
  by (simp_all add: getFanSpeed_eq getMigMode_eq getEccErrorsCorrected_eq bindM_Inr
      returnM_apply)

lemma field_queries_fail:
  "invoke w (query_symbol q) (query_args d q) s = (Inr r, s')
      \<and> ret r \<noteq> SUCCESS \<and> \<not> (optional_query q \<and> ret r = ERROR_NOT_SUPPORTED)
      \<longrightarrow> run_query w d q s
            = (Inr (Some (NvmlError (ret r)
                            (query_context q @ '': '' @ nvmlErrorString (ret r)))), s')"
  "invoke w sym_nvmlDeviceGetTemperature [ADevice (handle d), ANum 0] s = (Inr r, s')
      \<and> ret r \<noteq> SUCCESS
      \<longrightarrow> getTemperature w d s
            = (Inr (Err (NvmlError (ret r)
                           (''Failed to get temperature: '' @ nvmlErrorString (ret r)))), s')"
  "invoke w sym_nvmlDeviceGetPersistenceMode [ADevice (handle d)] s = (Inr r, s')
      \<and> ret r \<noteq> SUCCESS
      \<longrightarrow> getPersistenceMode w d s
            = (Inr (Err (NvmlError (ret r)
                           (''Failed to get persistence mode: '' @ nvmlErrorString (ret r)))), s')"
  "optional_query q \<longleftrightarrow> q = QFanSpeed \<or> q = QMigMode \<or> q = QEccErrorsCorrected"
  by (simp_all add: run_query_eq getTemperature_eq getPersistenceMode_eq bindM_Inr returnM_apply
      optional_query_def fromReturn_context query_context_nonempty
      ERROR_NOT_SUPPORTED_def SUCCESS_def)

text \<open>
  Claim C4, amended. For the fan-speed, MIG-mode and corrected-ECC queries, and for these
  three only, the native code \<open>ERROR_NOT_SUPPORTED\<close> (3) gives a success carrying no
  value. Any other nonzero code on these three, and any nonzero code (3 included) on every
  other call whose status a Result-returning query inspects, gives a failure whose error
  carries the native code and the message "context: text of the code", the context naming
  the call: the other single-field queries of a device, the two enumerations of
  \<^verbatim>\<open>getProcesses\<close>, the calls of \<^verbatim>\<open>getDriverVersion\<close>, \<^verbatim>\<open>getNvmlVersion\<close>,
  \<^verbatim>\<open>getCudaVersion\<close> and \<^verbatim>\<open>getDriverInfo\<close>, and the device-count calls of
  \<^verbatim>\<open>getAllGpuStatus\<close> and \<^verbatim>\<open>getSystemSnapshot\<close>. \<^verbatim>\<open>Nvml.getDeviceCount\<close>,
  \<^verbatim>\<open>Nvml.getDevice\<close> and \<^verbatim>\<open>Nvml.getDeviceByUUID\<close> return no Result: on a nonzero
  code they throw the \<^verbatim>\<open>NvmlError\<close> with that code and their context. The hypothesis of
  each part is that the native function is called and answers \<open>r\<close>.
\<close>

theorem not_supported_is_absence_only_for_optional_queries:
  "(invoke w sym_nvmlDeviceGetFanSpeed [ADevice (handle d)] s = (Inr r, s')
      \<and> ret r = ERROR_NOT_SUPPORTED
      \<longrightarrow> getFanSpeed w d s = (Inr (Ok None), s'))
   \<and> (invoke w sym_nvmlDeviceGetMigMode [ADevice (handle d)] s = (Inr r, s')
      \<and> ret r = ERROR_NOT_SUPPORTED
      \<longrightarrow> getMigMode w d s = (Inr (Ok None), s'))
   \<and> (invoke w sym_nvmlDeviceGetTotalEccErrors [ADevice (handle d), ANum 0, ANum 0] s
        = (Inr r, s')
      \<and> ret r = ERROR_NOT_SUPPORTED
      \<longrightarrow> getEccErrorsCorrected w d s = (Inr (Ok None), s'))
   \<and> (invoke w (query_symbol q) (query_args d q) s = (Inr r, s')
      \<and> ret r \<noteq> SUCCESS \<and> \<not> (optional_query q \<and> ret r = ERROR_NOT_SUPPORTED)
      \<longrightarrow> run_query w d q s
            = (Inr (Some (NvmlError (ret r)
                            (query_context q @ '': '' @ nvmlErrorString (ret r)))), s'))
   \<and> (invoke w sym_nvmlDeviceGetTemperature [ADevice (handle d), ANum 0] s = (Inr r, s')
      \<and> ret r \<noteq> SUCCESS
      \<longrightarrow> getTemperature w d s
            = (Inr (Err (NvmlError (ret r)
                           (''Failed to get temperature: '' @ nvmlErrorString (ret r)))), s'))
   \<and> (invoke w sym_nvmlDeviceGetPersistenceMode [ADevice (handle d)] s = (Inr r, s')
      \<and> ret r \<noteq> SUCCESS
      \<longrightarrow> getPersistenceMode w d s
            = (Inr (Err (NvmlError (ret r)
                           (''Failed to get persistence mode: '' @ nvmlErrorString (ret r)))), s'))
   \<and> (optional_query q \<longleftrightarrow> q = QFanSpeed \<or> q = QMigMode \<or> q = QEccErrorsCorrected)
   \<and> (invoke w sym_nvmlDeviceGetComputeRunningProcesses_v3 [ADevice (handle d), ANum 128] s
        = (Inr r, s') \<and> ret r \<noteq> SUCCESS
      \<longrightarrow> getProcesses w d s
            = (Inr (Err (NvmlError (ret r)
                           (''Failed to get compute processes: '' @ nvmlErrorString (ret r)))),
               s'))
   \<and> (invoke w sym_nvmlDeviceGetComputeRunningProcesses_v3 [ADevice (handle d), ANum 128] s
        = (Inr r1, s1) \<and> ret r1 = SUCCESS
      \<and> invoke w sym_nvmlDeviceGetGraphicsRunningProcesses_v3 [ADevice (handle d), ANum 128] s1
        = (Inr r, s') \<and> ret r \<noteq> SUCCESS
      \<longrightarrow> getProcesses w d s
            = (Inr (Err (NvmlError (ret r)
                           (''Failed to get graphics processes: '' @ nvmlErrorString (ret r)))),
               s'))
   \<and> (initialized s \<and> invoke w sym_nvmlSystemGetDriverVersion [ANum 80] s = (Inr r, s')
      \<and> ret r \<noteq> SUCCESS
      \<longrightarrow> getDriverVersion w s
            = (Inr (Err (NvmlError (ret r)
                           (''Failed to get driver version: '' @ nvmlErrorString (ret r)))), s')
          \<and> getDriverInfo w s
            = (Inr (Err (NvmlError (ret r)
                           (''Failed to get driver version: '' @ nvmlErrorString (ret r)))), s'))
   \<and> (initialized s \<and> invoke w sym_nvmlSystemGetNVMLVersion [ANum 80] s = (Inr r, s')
      \<and> ret r \<noteq> SUCCESS
      \<longrightarrow> getNvmlVersion w s
            = (Inr (Err (NvmlError (ret r)
                           (''Failed to get NVML version: '' @ nvmlErrorString (ret r)))), s'))
   \<and> (initialized s \<and> invoke w sym_nvmlSystemGetCudaDriverVersion_v2 [] s = (Inr r, s')
      \<and> ret r \<noteq> SUCCESS
      \<longrightarrow> getCudaVersion w s
            = (Inr (Err (NvmlError (ret r)
                           (''Failed to get CUDA version: '' @ nvmlErrorString (ret r)))), s'))
   \<and> (initialized s \<and> invoke w sym_nvmlSystemGetDriverVersion [ANum 80] s = (Inr r1, s1)
      \<and> ret r1 = SUCCESS
      \<and> invoke w sym_nvmlSystemGetNVMLVersion [ANum 80] s1 = (Inr r, s') \<and> ret r \<noteq> SUCCESS
      \<longrightarrow> getDriverInfo w s
            = (Inr (Err (NvmlError (ret r)
                           (''Failed to get NVML version: '' @ nvmlErrorString (ret r)))), s'))
   \<and> (initialized s \<and> invoke w sym_nvmlSystemGetDriverVersion [ANum 80] s = (Inr r1, s1)
      \<and> ret r1 = SUCCESS
      \<and> invoke w sym_nvmlSystemGetNVMLVersion [ANum 80] s1 = (Inr r2, s2) \<and> ret r2 = SUCCESS
      \<and> invoke w sym_nvmlSystemGetCudaDriverVersion_v2 [] s2 = (Inr r, s') \<and> ret r \<noteq> SUCCESS
      \<longrightarrow> getDriverInfo w s
            = (Inr (Err (NvmlError (ret r)
                           (''Failed to get CUDA version: '' @ nvmlErrorString (ret r)))), s'))
   \<and> (initialized s \<and> invoke w sym_nvmlDeviceGetCount_v2 [] s = (Inr r, s')
      \<and> ret r \<noteq> SUCCESS
      \<longrightarrow> getAllGpuStatus w s
            = (Inr (Err (NvmlError (ret r)
                           (''Failed to get device count: '' @ nvmlErrorString (ret r)))), s'))
   \<and> (initialized s \<and> getDriverInfo w s = (Inr (Ok di), s1)
      \<and> getAllGpuStatus w s1 = (Inr (Ok gs), s2)
      \<and> invoke w sym_nvmlDeviceGetCount_v2 [] s2 = (Inr r, s') \<and> ret r \<noteq> SUCCESS
      \<longrightarrow> getSystemSnapshot w s
            = (Inr (Err (NvmlError (ret r)
                           (''Failed to get device count for process query: ''
                            @ nvmlErrorString (ret r)))), s'))
   \<and> (initialized s \<and> invoke w sym_nvmlDeviceGetCount_v2 [] s = (Inr r, s')
      \<and> ret r \<noteq> SUCCESS
      \<longrightarrow> getDeviceCount w s
            = (Inl (Nvml (NvmlError (ret r)
                            (''Failed to get device count: '' @ nvmlErrorString (ret r)))), s'))
   \<and> (initialized s \<and> isInteger i \<and> 0 \<le> i
      \<and> invoke w sym_nvmlDeviceGetHandleByIndex_v2 [ANum \<lfloor>i\<rfloor>] s = (Inr r, s')
      \<and> ret r \<noteq> SUCCESS
      \<longrightarrow> getDevice w i s
            = (Inl (Nvml (NvmlError (ret r)
                            (''Failed to get device at index '' @ js_number_string w i @ '': ''
                             @ nvmlErrorString (ret r)))), s'))
   \<and> (initialized s \<and> \<not> trim_is_empty uuid
      \<and> invoke w sym_nvmlDeviceGetHandleByUUID [AStr uuid] s = (Inr r, s')
      \<and> ret r \<noteq> SUCCESS
      \<longrightarrow> getDeviceByUUID w uuid s
            = (Inl (Nvml (NvmlError (ret r)
                            (''Failed to get device with UUID '' @ uuid @ '': ''
                             @ nvmlErrorString (ret r)))), s'))"
  by (intro conjI)
     (rule optional_queries_absent field_queries_fail getProcesses_compute_failure
        getProcesses_graphics_failure getDriverVersion_failure getNvmlVersion_failure
        getCudaVersion_failure getDriverInfo_nvml_failure getDriverInfo_cuda_failure
        getAllGpuStatus_count_failure getSystemSnapshot_count_failure getDeviceCount_failure
        getDevice_failure getDeviceByUUID_failure)+

lemma sim_returning_invoke:
  "f \<noteq> sym_nvmlInit_v2 \<Longrightarrow>
   invoke (sim_world_returning g c) f args sim_ready
     = (Inr (native (sim_world_returning g c) 1 (Callable sim_lib f) args), sim_called f args)"
  by (rule invoke_sim_ready) simp_all

theorem not_supported_is_absence_only_for_optional_queries_witness:
  "getFanSpeed (sim_world_returning sym_nvmlDeviceGetFanSpeed 3) sim_device sim_ready
     = (Inr (Ok None), sim_called sym_nvmlDeviceGetFanSpeed [ADevice (DevHandle 0)])
   \<and> getTemperature (sim_world_returning sym_nvmlDeviceGetTemperature 3) sim_device sim_ready
     = (Inr (Err (NvmlError 3 ''Failed to get temperature: Operation not supported'')),
        sim_called sym_nvmlDeviceGetTemperature [ADevice (DevHandle 0), ANum 0])
   \<and> getProcesses (sim_world_returning sym_nvmlDeviceGetComputeRunningProcesses_v3 3)
        sim_device sim_ready
     = (Inr (Err (NvmlError 3 ''Failed to get compute processes: Operation not supported'')),
        sim_called sym_nvmlDeviceGetComputeRunningProcesses_v3
          [ADevice (DevHandle 0), ANum 128])
   \<and> getCudaVersion (sim_world_returning sym_nvmlSystemGetCudaDriverVersion_v2 3) sim_ready
     = (Inr (Err (NvmlError 3 ''Failed to get CUDA version: Operation not supported'')),
        sim_called sym_nvmlSystemGetCudaDriverVersion_v2 [])
   \<and> getDeviceCount (sim_world_returning sym_nvmlDeviceGetCount_v2 15) sim_ready
     = (Inl (Nvml (NvmlError 15 ''Failed to get device count: GPU is lost'')),
        sim_called sym_nvmlDeviceGetCount_v2 [])"
proof -
  let ?wf = "sim_world_returning sym_nvmlDeviceGetFanSpeed 3"
  let ?wt = "sim_world_returning sym_nvmlDeviceGetTemperature 3"
  let ?wp = "sim_world_returning sym_nvmlDeviceGetComputeRunningProcesses_v3 3"
  let ?wc = "sim_world_returning sym_nvmlSystemGetCudaDriverVersion_v2 3"
  let ?wn = "sim_world_returning sym_nvmlDeviceGetCount_v2 15"
  have f: "invoke ?wf sym_nvmlDeviceGetFanSpeed [ADevice (handle sim_device)] sim_ready
             = (Inr (native ?wf 1 (Callable sim_lib sym_nvmlDeviceGetFanSpeed)
                       [ADevice (handle sim_device)]),
                sim_called sym_nvmlDeviceGetFanSpeed [ADevice (handle sim_device)])
           \<and> ret (native ?wf 1 (Callable sim_lib sym_nvmlDeviceGetFanSpeed)
                       [ADevice (handle sim_device)]) = ERROR_NOT_SUPPORTED"
    by (simp add: sim_returning_invoke ERROR_NOT_SUPPORTED_def)
  have t: "invoke ?wt sym_nvmlDeviceGetTemperature [ADevice (handle sim_device), ANum 0] sim_ready
             = (Inr (native ?wt 1 (Callable sim_lib sym_nvmlDeviceGetTemperature)
                       [ADevice (handle sim_device), ANum 0]),
                sim_called sym_nvmlDeviceGetTemperature [ADevice (handle sim_device), ANum 0])
           \<and> ret (native ?wt 1 (Callable sim_lib sym_nvmlDeviceGetTemperature)
                       [ADevice (handle sim_device), ANum 0]) \<noteq> SUCCESS"
    by (simp add: sim_returning_invoke SUCCESS_def)
  have p: "invoke ?wp sym_nvmlDeviceGetComputeRunningProcesses_v3
               [ADevice (handle sim_device), ANum 128] sim_ready
             = (Inr (native ?wp 1 (Callable sim_lib sym_nvmlDeviceGetComputeRunningProcesses_v3)
                       [ADevice (handle sim_device), ANum 128]),
                sim_called sym_nvmlDeviceGetComputeRunningProcesses_v3
                  [ADevice (handle sim_device), ANum 128])
           \<and> ret (native ?wp 1 (Callable sim_lib sym_nvmlDeviceGetComputeRunningProcesses_v3)
                       [ADevice (handle sim_device), ANum 128]) \<noteq> SUCCESS"
    by (simp add: sim_returning_invoke SUCCESS_def)
  have c: "initialized sim_ready
           \<and> invoke ?wc sym_nvmlSystemGetCudaDriverVersion_v2 [] sim_ready
             = (Inr (native ?wc 1 (Callable sim_lib sym_nvmlSystemGetCudaDriverVersion_v2) []),
                sim_called sym_nvmlSystemGetCudaDriverVersion_v2 [])
           \<and> ret (native ?wc 1 (Callable sim_lib sym_nvmlSystemGetCudaDriverVersion_v2) [])
               \<noteq> SUCCESS"
    by (simp add: sim_returning_invoke SUCCESS_def initialized_sim_ready)
  have n: "initialized sim_ready
           \<and> invoke ?wn sym_nvmlDeviceGetCount_v2 [] sim_ready
             = (Inr (native ?wn 1 (Callable sim_lib sym_nvmlDeviceGetCount_v2) []),
                sim_called sym_nvmlDeviceGetCount_v2 [])
           \<and> ret (native ?wn 1 (Callable sim_lib sym_nvmlDeviceGetCount_v2) []) \<noteq> SUCCESS"
    by (simp add: sim_returning_invoke SUCCESS_def initialized_sim_ready)
  have a1: "getFanSpeed ?wf sim_device sim_ready
     = (Inr (Ok None), sim_called sym_nvmlDeviceGetFanSpeed [ADevice (DevHandle 0)])"
    using not_supported_is_absence_only_for_optional_queries
            [where w = ?wf and d = sim_device and s = sim_ready,
             THEN conjunct1, rule_format, OF f]
    by (simp add: sim_device_def)
  have a2: "getTemperature ?wt sim_device sim_ready
     = (Inr (Err (NvmlError 3 ''Failed to get temperature: Operation not supported'')),
        sim_called sym_nvmlDeviceGetTemperature [ADevice (DevHandle 0), ANum 0])"
    using not_supported_is_absence_only_for_optional_queries
            [where w = ?wt and d = sim_device and s = sim_ready,
             THEN conjunct2, THEN conjunct2, THEN conjunct2, THEN conjunct2, THEN conjunct1,
             rule_format, OF t]
    by (simp add: sim_device_def nvmlErrorString_3)
  have a3: "getProcesses ?wp sim_device sim_ready
     = (Inr (Err (NvmlError 3 ''Failed to get compute processes: Operation not supported'')),
        sim_called sym_nvmlDeviceGetComputeRunningProcesses_v3
          [ADevice (DevHandle 0), ANum 128])"
    using not_supported_is_absence_only_for_optional_queries
            [where w = ?wp and d = sim_device and s = sim_ready,
             THEN conjunct2, THEN conjunct2, THEN conjunct2, THEN conjunct2, THEN conjunct2,
             THEN conjunct2, THEN conjunct2, THEN conjunct1, rule_format, OF p]
    by (simp add: sim_device_def nvmlErrorString_3)
  have a4: "getCudaVersion ?wc sim_ready
     = (Inr (Err (NvmlError 3 ''Failed to get CUDA version: Operation not supported'')),
        sim_called sym_nvmlSystemGetCudaDriverVersion_v2 [])"
    using not_supported_is_absence_only_for_optional_queries
            [where w = ?wc and s = sim_ready,
             THEN conjunct2, THEN conjunct2, THEN conjunct2, THEN conjunct2, THEN conjunct2,
             THEN conjunct2, THEN conjunct2, THEN conjunct2, THEN conjunct2, THEN conjunct2,
             THEN conjunct2, THEN conjunct1, rule_format, OF c]
    by (simp add: nvmlErrorString_3)
  have a5: "getDeviceCount ?wn sim_ready
     = (Inl (Nvml (NvmlError 15 ''Failed to get device count: GPU is lost'')),
        sim_called sym_nvmlDeviceGetCount_v2 [])"
    using not_supported_is_absence_only_for_optional_queries
            [where w = ?wn and s = sim_ready,
             THEN conjunct2, THEN conjunct2, THEN conjunct2, THEN conjunct2, THEN conjunct2,
             THEN conjunct2, THEN conjunct2, THEN conjunct2, THEN conjunct2, THEN conjunct2,
             THEN conjunct2, THEN conjunct2, THEN conjunct2, THEN conjunct2, THEN conjunct2,
             THEN conjunct2, THEN conjunct1, rule_format, OF n]
    by (simp add: nvmlErrorString_15)
  show ?thesis by (intro conjI a1 a2 a3 a4 a5)
qed

text \<open>
  Claim C4 says that every query other than the three optional ones returns a failure
  Result for a nonzero native code. \<^verbatim>\<open>Nvml.getDeviceCount\<close> is such a query; in the
  simulated system, initialised, its native call returns 3 and the query throws.
\<close>

theorem every_other_query_fails_counterexample:
  "getDeviceCount (sim_world_returning sym_nvmlDeviceGetCount_v2 3) sim_ready
     = (Inl (Nvml (NvmlError 3 ''Failed to get device count: Operation not supported'')),
        sim_called sym_nvmlDeviceGetCount_v2 [])"
  using getDeviceCount_failure
          [where w = "sim_world_returning sym_nvmlDeviceGetCount_v2 3" and s = sim_ready,
           rule_format, OF conjI, OF initialized_sim_ready, OF conjI,
           OF sim_returning_invoke]
  by (simp add: SUCCESS_def nvmlErrorString_3)

subsection \<open>Unit conversions\<close>

lemma bits_upper: "n < 2 ^ bits n"
proof (induction n rule: bits.induct)
  case (1 n)
  show ?case
  proof (cases "n = 0")
    case True
    then show ?thesis by (simp add: bits.simps)
  next
    case False
    with 1 have "n div 2 < 2 ^ bits (n div 2)" by simp
    then have "n < 2 * 2 ^ bits (n div 2)" by linarith
    with False show ?thesis by (simp add: bits.simps [of n])
  qed
qed

lemma bits_lower: "n \<noteq> 0 \<Longrightarrow> 2 ^ (bits n - 1) \<le> n"
proof (induction n rule: bits.induct)
  case (1 n)
  show ?case
  proof (cases "n div 2 = 0")
    case True
    with 1 have "n = 1" by (simp add: div_eq_0_iff)
    then show ?thesis by (simp add: bits.simps)
  next
    case False
    with 1 have "2 ^ (bits (n div 2) - 1) \<le> n div 2" by simp
    then have "2 * 2 ^ (bits (n div 2) - 1) \<le> n" by linarith
    moreover have "bits (n div 2) \<noteq> 0" using False by (simp add: bits.simps [of "n div 2"])
    ultimately have "2 ^ bits (n div 2) \<le> n"
      by (cases "bits (n div 2)") simp_all
    with 1 show ?thesis by (simp add: bits.simps [of n])
  qed
qed

lemma bits_pos: "n \<noteq> 0 \<Longrightarrow> 0 < bits n"
  by (simp add: bits.simps [of n])

lemma binary_exponent_nonneg:
  assumes "a \<noteq> 0" and "0 \<le> binary_exponent a b"
  shows "b * 2 ^ nat (binary_exponent a b) \<le> a"
proof -
  let ?e = "int (bits a) - int (bits b)"
  show ?thesis
  proof (cases "if 0 \<le> ?e then b * 2 ^ nat ?e \<le> a else b \<le> a * 2 ^ nat (- ?e)")
    case True
    then have e: "binary_exponent a b = ?e" by (simp add: binary_exponent_def Let_def)
    with assms(2) True show ?thesis by simp
  next
    case False
    then have e: "binary_exponent a b = ?e - 1" by (simp add: binary_exponent_def Let_def)
    with assms(2) have ge: "1 \<le> ?e" by simp
    then have n: "nat (?e - 1) + bits b = bits a - 1" by linarith
    have "b * 2 ^ nat (?e - 1) \<le> 2 ^ bits b * 2 ^ nat (?e - 1)"
      using bits_upper [of b] by simp
    also have "\<dots> = 2 ^ (bits a - 1)"
      using n by (simp add: power_add [symmetric] add.commute)
    also have "\<dots> \<le> a" using assms(1) by (rule bits_lower)
    finally show ?thesis using e by simp
  qed
qed

lemma binary_exponent_neg:
  assumes "a \<noteq> 0" and "binary_exponent a b < 0"
  shows "b \<le> a * 2 ^ nat (- binary_exponent a b)"
proof -
  let ?e = "int (bits a) - int (bits b)"
  show ?thesis
  proof (cases "if 0 \<le> ?e then b * 2 ^ nat ?e \<le> a else b \<le> a * 2 ^ nat (- ?e)")
    case True
    then have e: "binary_exponent a b = ?e" by (simp add: binary_exponent_def Let_def)
    with assms(2) True show ?thesis by simp
  next
    case False
    then have e: "binary_exponent a b = ?e - 1" by (simp add: binary_exponent_def Let_def)
    with assms(2) have ge: "?e \<le> 0" by simp
    have pa: "0 < bits a" using assms(1) by (rule bits_pos)
    then have n: "(bits a - 1) + nat (1 - ?e) = bits b" using ge by linarith
    have "b \<le> 2 ^ bits b" using bits_upper [of b] by simp
    also have "\<dots> = 2 ^ (bits a - 1) * 2 ^ nat (1 - ?e)"
      using n by (simp add: power_add [symmetric])
    also have "\<dots> \<le> a * 2 ^ nat (1 - ?e)"
      using bits_lower [OF assms(1)] by simp
    finally have "b \<le> a * 2 ^ nat (1 - ?e)" .
    moreover have "nat (- binary_exponent a b) = nat (1 - ?e)" using e by simp
    ultimately show ?thesis by simp
  qed
qed

lemma binary_exponent_le_52:
  assumes "a \<noteq> 0" and "a < 2 ^ 53 * b"
  shows "binary_exponent a b \<le> 52"
proof (rule ccontr)
  assume "\<not> binary_exponent a b \<le> 52"
  then have ge: "53 \<le> binary_exponent a b" by simp
  then have "0 \<le> binary_exponent a b" by simp
  from binary_exponent_nonneg [OF assms(1) this]
  have le: "b * 2 ^ nat (binary_exponent a b) \<le> a" .
  have "(2::nat) ^ 53 \<le> 2 ^ nat (binary_exponent a b)"
    using ge by (intro power_increasing) auto
  then have "b * 2 ^ 53 \<le> b * 2 ^ nat (binary_exponent a b)"
    by (rule mult_le_mono2)
  also note le
  finally have "2 ^ 53 * b \<le> a" by (simp only: mult.commute)
  with assms(2) show False by simp
qed

lemma round_half_even_exact: "y dvd x \<Longrightarrow> round_half_even x y = x div y"
  by (auto simp: round_half_even_def Let_def)

lemma double_quotient_exact:
  assumes "b dvd a" and "b \<noteq> 0" and "a < 2 ^ 53 * b"
  shows "double_quotient a b = real (a div b)"
proof (cases "a = 0")
  case True
  then show ?thesis by (simp add: double_quotient_def)
next
  case False
  let ?t = "nat (52 - binary_exponent a b)"
  have t: "0 \<le> 52 - binary_exponent a b"
    using binary_exponent_le_52 [OF False assms(3)] by simp
  have d: "b dvd a * 2 ^ ?t" using assms(1) by simp
  have "(a * 2 ^ ?t) div b = (a div b) * 2 ^ ?t"
    using assms(1) by (simp add: div_mult_swap dvd_div_mult)
  then have "round_half_even (a * 2 ^ ?t) b = (a div b) * 2 ^ ?t"
    using round_half_even_exact [OF d] by simp
  with False t show ?thesis
    by (simp add: double_quotient_def Let_def)
qed

lemma js_divide_exact:
  assumes "0 \<le> m" and "m < 2 ^ 53" and "int b dvd m" and "b \<noteq> 0"
  shows "js_divide m b = real_of_int m / real b"
proof -
  have d: "b dvd nat m" using assms(1,3)
    by (metis dvd_nat_abs_iff abs_of_nonneg)
  have "nat m < 2 ^ 53" using assms(1,2) by (simp add: nat_less_iff)
  also have "\<dots> \<le> 2 ^ 53 * b" using assms(4) by simp
  finally have "double_quotient (nat m) b = real (nat m div b)"
    using double_quotient_exact [OF d assms(4)] by simp
  also have "\<dots> = real (nat m) / real b"
    using d by (simp add: real_of_nat_div)
  finally show ?thesis using assms(1) by (simp add: js_divide_def)
qed

lemma round_half_even_near:
  assumes "y \<noteq> 0"
  shows "\<bar>real (round_half_even x y) - real x / real y\<bar> \<le> 1 / 2"
proof -
  let ?q = "x div y" and ?r = "x mod y"
  have x: "real x = real ?q * real y + real ?r"
    by (metis div_mult_mod_eq of_nat_add of_nat_mult)
  have y: "0 < real y" using assms by simp
  have r: "real ?r < real y" using assms by simp
  have q: "real x / real y = real ?q + real ?r / real y"
    using y by (simp add: x field_simps)
  show ?thesis
  proof (cases "2 * ?r < y")
    case True
    then have "2 * real ?r < real y" by (metis of_nat_less_iff of_nat_mult of_nat_numeral)
    then have "real ?r / real y \<le> 1 / 2" using y by (simp add: field_simps)
    moreover have "0 \<le> real ?r / real y" using y by simp
    ultimately show ?thesis using True by (simp add: round_half_even_def Let_def q)
  next
    case False
    then have "real y \<le> 2 * real ?r" by (metis not_less of_nat_le_iff of_nat_mult of_nat_numeral)
    then have h: "1 / 2 \<le> real ?r / real y" using y by (simp add: field_simps)
    have l: "real ?r / real y < 1" using r y by simp
    show ?thesis
    proof (cases "y < 2 * ?r")
      case True
      with False h l show ?thesis by (simp add: round_half_even_def Let_def q)
    next
      case F2: False
      with False have "2 * ?r = y" by simp
      then have "2 * real ?r = real y" by (metis of_nat_mult of_nat_numeral)
      then have "real ?r / real y = 1 / 2" using y by (simp add: field_simps)
      with False F2 show ?thesis by (simp add: round_half_even_def Let_def q)
    qed
  qed
qed

lemma double_quotient_near:
  assumes "b \<noteq> 0"
  shows "\<bar>double_quotient a b - real a / real b\<bar> * 2 ^ 53 \<le> real a / real b"
proof (cases "a = 0")
  case True
  then show ?thesis by (simp add: double_quotient_def)
next
  case False
  let ?e = "binary_exponent a b"
  have bpos: "0 < real b" using assms by simp
  show ?thesis
  proof (cases "0 \<le> 52 - ?e")
    case True
    let ?t = "nat (52 - ?e)"
    have dq: "double_quotient a b = real (round_half_even (a * 2 ^ ?t) b) / 2 ^ ?t"
      using False True by (simp add: double_quotient_def Let_def)
    have "\<bar>real (round_half_even (a * 2 ^ ?t) b) - real (a * 2 ^ ?t) / real b\<bar> \<le> 1 / 2"
      using assms by (rule round_half_even_near)
    then have le: "\<bar>real (round_half_even (a * 2 ^ ?t) b) - real (a * 2 ^ ?t) / real b\<bar> / 2 ^ ?t
                 \<le> (1 / 2) / 2 ^ ?t"
      by (intro divide_right_mono) simp_all
    have eq: "\<bar>real (round_half_even (a * 2 ^ ?t) b) - real (a * 2 ^ ?t) / real b\<bar> / 2 ^ ?t
                   = \<bar>double_quotient a b - real a / real b\<bar>"
    proof -
      have "\<bar>real (round_half_even (a * 2 ^ ?t) b) - real (a * 2 ^ ?t) / real b\<bar> / 2 ^ ?t
            = \<bar>(real (round_half_even (a * 2 ^ ?t) b) - real (a * 2 ^ ?t) / real b) / 2 ^ ?t\<bar>"
        by simp
      also have "(real (round_half_even (a * 2 ^ ?t) b) - real (a * 2 ^ ?t) / real b) / 2 ^ ?t
                 = double_quotient a b - real a / real b"
        by (simp add: dq diff_divide_distrib)
      finally show ?thesis .
    qed
    have near: "\<bar>double_quotient a b - real a / real b\<bar> \<le> 1 / (2 * 2 ^ ?t)"
      using le unfolding eq by simp
    have low: "2 ^ 52 \<le> (real a / real b) * 2 ^ ?t"
    proof (cases "0 \<le> ?e")
      case T: True
      from binary_exponent_nonneg [OF False T] have "real (b * 2 ^ nat ?e) \<le> real a"
        by (rule iffD2 [OF of_nat_le_iff])
      then have "2 ^ nat ?e \<le> real a / real b"
        using bpos by (simp add: field_simps)
      then have "2 ^ nat ?e * 2 ^ ?t \<le> (real a / real b) * 2 ^ ?t"
        by (intro mult_right_mono) simp_all
      moreover have "nat ?e + ?t = 52" using T True by linarith
      then have "(2::real) ^ nat ?e * 2 ^ ?t = 2 ^ 52"
        by (simp add: power_add [symmetric])
      ultimately show ?thesis by simp
    next
      case F: False
      then have "?e < 0" by simp
      from binary_exponent_neg [OF \<open>a \<noteq> 0\<close> this] have "real b \<le> real (a * 2 ^ nat (- ?e))"
        by (rule iffD2 [OF of_nat_le_iff])
      then have "1 \<le> (real a / real b) * 2 ^ nat (- ?e)"
        using bpos by (simp add: field_simps)
      then have "1 * 2 ^ 52 \<le> ((real a / real b) * 2 ^ nat (- ?e)) * 2 ^ 52"
        by (intro mult_right_mono) simp_all
      moreover have "nat (- ?e) + 52 = ?t" using F by linarith
      then have "(2::real) ^ ?t = 2 ^ (nat (- ?e) + 52)"
        by simp
      then have "(2::real) ^ ?t = 2 ^ nat (- ?e) * 2 ^ 52"
        by (simp only: power_add)
      ultimately show ?thesis by simp
    qed
    have "\<bar>double_quotient a b - real a / real b\<bar> * 2 ^ 53 \<le> 1 / (2 * 2 ^ ?t) * 2 ^ 53"
      using near by (intro mult_right_mono) simp_all
    also have "\<dots> = 2 ^ 52 / 2 ^ ?t" by simp
    also have "\<dots> \<le> real a / real b"
      using low by (simp add: field_simps)
    finally show ?thesis .
  next
    case False': False
    let ?k = "nat (- (52 - ?e))"
    have e: "0 \<le> ?e" "nat ?e = ?k + 52" using False' by linarith+
    have dq: "double_quotient a b = real (round_half_even a (b * 2 ^ ?k)) * 2 ^ ?k"
      using False False' by (simp add: double_quotient_def Let_def)
    have "b * 2 ^ ?k \<noteq> 0" using assms by simp
    then have "\<bar>real (round_half_even a (b * 2 ^ ?k)) - real a / real (b * 2 ^ ?k)\<bar> \<le> 1 / 2"
      by (rule round_half_even_near)
    then have le: "\<bar>real (round_half_even a (b * 2 ^ ?k)) - real a / real (b * 2 ^ ?k)\<bar> * 2 ^ ?k
                 \<le> (1 / 2) * 2 ^ ?k"
      by (intro mult_right_mono) simp_all
    have eq: "\<bar>real (round_half_even a (b * 2 ^ ?k)) - real a / real (b * 2 ^ ?k)\<bar> * 2 ^ ?k
                   = \<bar>double_quotient a b - real a / real b\<bar>"
    proof -
      have "\<bar>real (round_half_even a (b * 2 ^ ?k)) - real a / real (b * 2 ^ ?k)\<bar> * 2 ^ ?k
            = \<bar>(real (round_half_even a (b * 2 ^ ?k)) - real a / real (b * 2 ^ ?k)) * 2 ^ ?k\<bar>"
        by (simp add: abs_mult)
      also have "(real (round_half_even a (b * 2 ^ ?k)) - real a / real (b * 2 ^ ?k)) * 2 ^ ?k
                 = double_quotient a b - real a / real b"
        by (simp add: dq left_diff_distrib)
      finally show ?thesis .
    qed
    have near: "\<bar>double_quotient a b - real a / real b\<bar> \<le> 2 ^ ?k / 2"
      using le unfolding eq by simp
    from binary_exponent_nonneg [OF \<open>a \<noteq> 0\<close> e(1)] have "real (b * 2 ^ nat ?e) \<le> real a"
      by (rule iffD2 [OF of_nat_le_iff])
    then have "2 ^ nat ?e \<le> real a / real b"
      using bpos by (simp add: field_simps)
    then have low: "2 ^ ?k * 2 ^ 52 \<le> real a / real b"
      using e(2) by (simp add: power_add)
    have "\<bar>double_quotient a b - real a / real b\<bar> * 2 ^ 53 \<le> 2 ^ ?k / 2 * 2 ^ 53"
      using near by (intro mult_right_mono) simp_all
    also have "\<dots> = 2 ^ ?k * 2 ^ 52" by simp
    also note low
    finally show ?thesis .
  qed
qed

lemma js_divide_near:
  assumes "0 \<le> m" and "b \<noteq> 0"
  shows "\<bar>js_divide m b - real_of_int m / real b\<bar> * 2 ^ 53 \<le> real_of_int m / real b"
  using double_quotient_near [OF assms(2), of "nat m"] assms(1)
  by (simp add: js_divide_def)

lemma Number_of_bigint_small: "\<bar>n\<bar> < 2 ^ 53 \<Longrightarrow> Number_of_bigint n = n"
  by (simp add: Number_of_bigint_def)

lemma bits_54: "bits 9007199254740993 = 54" "bits 9007199254740995 = 54"
  by (simp_all add: bits.simps)

lemma Number_of_bigint_rounds:
  "Number_of_bigint (2 ^ 53 + 1) = 2 ^ 53"
  "Number_of_bigint (2 ^ 53 + 3) = 2 ^ 53 + 4"
  by (simp_all add: Number_of_bigint_def bits_54 round_half_even_def Let_def)

lemma bits_1001: "bits 1001 = 10" "bits 1000 = 10"
  by (simp_all add: bits.simps)

lemma js_divide_1001: "js_divide 1001 1000 = 4508103226997866 / 4503599627370496"
  by (simp add: js_divide_def double_quotient_def binary_exponent_def bits_1001
      round_half_even_def Let_def)

lemma js_divide_150000: "js_divide 150000 1000 = 150"
  using js_divide_exact [of 150000 1000] by simp

lemma js_divide_1500: "js_divide 1500 1000 = 3 / 2"
  by (simp add: js_divide_def double_quotient_def binary_exponent_def
      round_half_even_def Let_def bits.simps)


lemma getMemoryInfo_Ok:
  assumes "getMemoryInfo w d s = (Inr (Ok m), s')"
  shows "\<exists>(t :: 64 word) (f :: 64 word) (u :: 64 word). m = \<lparr>mem_total = uint t, mem_free = uint f, mem_used = uint u\<rparr>"
proof -
  obtain x st where i: "invoke w sym_nvmlDeviceGetMemoryInfo [ADevice (handle d)] s = (x, st)"
    by (cases "invoke w sym_nvmlDeviceGetMemoryInfo [ADevice (handle d)] s")
  show ?thesis
  proof (cases x)
    case (Inl e)
    with i assms show ?thesis
      by (simp add: getMemoryInfo_def nvmlDeviceGetMemoryInfo_def bindM_def)
  next
    case (Inr r)
    with i assms have
      "m = \<lparr>mem_total = uint (raw_total (out_memory r)),
            mem_free = uint (raw_free (out_memory r)),
            mem_used = uint (raw_used (out_memory r))\<rparr>"
      by (simp add: getMemoryInfo_def nvmlDeviceGetMemoryInfo_def bindM_def returnM_def
          code_defs split: if_splits)
    then show ?thesis by (intro exI)
  qed
qed

lemma getBasicInfo_Ok:
  assumes n: "getName w d s = (Inr (Ok name), s1)"
    and m: "getMemoryInfo w d s1 = (Inr (Ok memory), s2)"
  shows "getBasicInfo w d s
         = (Inr (Ok \<lparr>info_index = index d,
                      info_name = name,
                      info_memoryTotalMiB = mem_total memory div 1048576,
                      info_memoryTotalGiB =
                        js_divide (js_round (real_of_int (mem_total memory div 1048576)
                                             / 1024 * 10)) 10\<rparr>), s2)"
proof -
  from getMemoryInfo_Ok [OF m] obtain t :: "64 word" and f :: "64 word" and u :: "64 word" where
    "memory = \<lparr>mem_total = uint t, mem_free = uint f, mem_used = uint u\<rparr>" by blast
  then have "bytesToMiB (mem_total memory) = mem_total memory div 1048576"
    by (simp add: bytesToMiB_word(1))
  then show ?thesis
    using n m by (simp add: getBasicInfo_def bindM_def returnM_def ok_def)
qed

lemma getStatus_Ok:
  assumes "getName w d s = (Inr (Ok name), s1)"
    and "getPersistenceMode w d s1 = (Inr (Ok persistence), s2)"
    and "getPciInfo w d s2 = (Inr (Ok pci), s3)"
    and "getDisplayActive w d s3 = (Inr (Ok display), s4)"
    and "getEccErrorsCorrected w d s4 = (Inr (Ok ecc), s5)"
    and "getFanSpeed w d s5 = (Inr (Ok fan), s6)"
    and "getTemperature w d s6 = (Inr (Ok temp), s7)"
    and "getPerformanceState w d s7 = (Inr (Ok pstateValue), s8)"
    and "getPowerUsage w d s8 = (Inr (Ok powerValue), s9)"
    and "getPowerLimit w d s9 = (Inr (Ok limit), s10)"
    and m: "getMemoryInfo w d s10 = (Inr (Ok memory), s11)"
    and "getUtilizationRates w d s11 = (Inr (Ok util), s12)"
    and "getComputeMode w d s12 = (Inr (Ok cmode), s13)"
    and "getMigMode w d s13 = (Inr (Ok mig), s14)"
  shows "getStatus w d s
         = (Inr (Ok \<lparr>status_index = index d,
                      status_name = name,
                      persistenceMode = persistence,
                      pciBusId = pci_busId pci,
                      displayActive = display,
                      eccErrorsCorrected = ecc,
                      fanSpeed = fan,
                      temperature = temp,
                      pstate = pstateValue,
                      powerDraw = powerValue,
                      powerLimit = limit,
                      memoryUsedMiB = mem_used memory div 1048576,
                      memoryTotalMiB = mem_total memory div 1048576,
                      utilizationGpu = util_gpu util,
                      utilizationMemory = util_memory util,
                      computeMode = cmode,
                      migMode = mig\<rparr>), s14)"
proof -
  from getMemoryInfo_Ok [OF m] obtain t :: "64 word" and f :: "64 word" and u :: "64 word" where
    "memory = \<lparr>mem_total = uint t, mem_free = uint f, mem_used = uint u\<rparr>" by blast
  then have "bytesToMiB (mem_total memory) = mem_total memory div 1048576"
    "bytesToMiB (mem_used memory) = mem_used memory div 1048576"
    by (simp_all add: bytesToMiB_word(1))
  then show ?thesis
    using assms by (simp add: getStatus_def bindM_def returnM_def ok_def)
qed

lemma getPerformanceState_eq:
  "getPerformanceState w d =
     bindM (invoke w sym_nvmlDeviceGetPerformanceState [ADevice (handle d)]) (\<lambda>r.
       returnM (if ret r \<noteq> SUCCESS
                then Err (fromReturn (ret r) ''Failed to get performance state'')
                else Ok (out_num r)))"
  by (simp add: getPerformanceState_def binding_defs code_defs fun_eq_iff bindM_def returnM_def
      split: prod.splits sum.splits)

text \<open>
  Claim C8. \<^verbatim>\<open>getPowerUsage\<close> and \<^verbatim>\<open>getPowerLimit\<close> return the double that the
  division of the raw milliwatts by 1000 gives: the quotient itself when 1000 divides the
  reading (150000 mW gives 150), and otherwise the double nearest to it, within a relative
  error of \<open>2 ^ - 53\<close> (1500 mW gives 1.5, and 1001 mW gives
  \<open>4508103226997866 / 2 ^ 52\<close>, not 1.001; nothing is truncated). Bytes become MiB by
  integer division of the 64-bit count by 1048576, on the \<^verbatim>\<open>bigint\<close>, and the quotient
  is below \<open>2 ^ 44\<close>, so the narrowing to a number loses nothing; 8 GiB gives 8192. That
  quotient is what \<^verbatim>\<open>getBasicInfo\<close> reports as total MiB and what \<^verbatim>\<open>getStatus\<close>
  reports as used and total MiB, beside the other fields, which are the values of the
  single-field queries. A CUDA version \<open>v\<close> is rendered as \<open>floor (v / 1000)\<close>, a dot,
  and \<open>floor ((v % 1000) / 10)\<close>, where \<open>%\<close> is the remainder of JavaScript
  (\<open>v mod 1000\<close> for \<open>v \<ge> 0\<close>); 12040 gives "12.4", and every
  \<open>major * 1000 + minor * 10\<close> gives back "major.minor".
\<close>

theorem unit_conversions_exact:
  fixes b :: "64 word"
  shows
  "(invoke w sym_nvmlDeviceGetPowerUsage [ADevice (handle d)] s = (Inr r, s') \<and> ret r = SUCCESS
      \<longrightarrow> getPowerUsage w d s = (Inr (Ok (js_divide (out_num r) 1000)), s'))
   \<and> (invoke w sym_nvmlDeviceGetPowerManagementLimit [ADevice (handle d)] s = (Inr r, s')
        \<and> ret r = SUCCESS
      \<longrightarrow> getPowerLimit w d s = (Inr (Ok (js_divide (out_num r) 1000)), s'))
   \<and> (0 \<le> m \<and> m < 2 ^ 53 \<and> 1000 dvd m \<longrightarrow> js_divide m 1000 = real_of_int m / 1000)
   \<and> (0 \<le> m
      \<longrightarrow> \<bar>js_divide m 1000 - real_of_int m / 1000\<bar> * 2 ^ 53 \<le> real_of_int m / 1000)
   \<and> js_divide 150000 1000 = 150
   \<and> js_divide 1500 1000 = 3 / 2
   \<and> js_divide 1001 1000 = 4508103226997866 / 4503599627370496
   \<and> bytesToMiB (uint b) = uint b div 1048576
   \<and> 0 \<le> bytesToMiB (uint b) \<and> bytesToMiB (uint b) < 2 ^ 44
   \<and> bytesToMiB (8 * 1024 ^ 3) = 8192
   \<and> (getName w d s = (Inr (Ok name), s1) \<and> getMemoryInfo w d s1 = (Inr (Ok memory), s2)
      \<longrightarrow> getBasicInfo w d s
            = (Inr (Ok \<lparr>info_index = index d,
                         info_name = name,
                         info_memoryTotalMiB = mem_total memory div 1048576,
                         info_memoryTotalGiB =
                           js_divide (js_round (real_of_int (mem_total memory div 1048576)
                                                / 1024 * 10)) 10\<rparr>), s2))
   \<and> (getName w d s = (Inr (Ok name), s1)
      \<and> getPersistenceMode w d s1 = (Inr (Ok persistence), s2)
      \<and> getPciInfo w d s2 = (Inr (Ok pci), s3)
      \<and> getDisplayActive w d s3 = (Inr (Ok display), s4)
      \<and> getEccErrorsCorrected w d s4 = (Inr (Ok ecc), s5)
      \<and> getFanSpeed w d s5 = (Inr (Ok fan), s6)
      \<and> getTemperature w d s6 = (Inr (Ok temp), s7)
      \<and> getPerformanceState w d s7 = (Inr (Ok pstateValue), s8)
      \<and> getPowerUsage w d s8 = (Inr (Ok powerValue), s9)
      \<and> getPowerLimit w d s9 = (Inr (Ok limit), s10)
      \<and> getMemoryInfo w d s10 = (Inr (Ok memory), s11)
      \<and> getUtilizationRates w d s11 = (Inr (Ok util), s12)
      \<and> getComputeMode w d s12 = (Inr (Ok cmode), s13)
      \<and> getMigMode w d s13 = (Inr (Ok mig), s14)
      \<longrightarrow> getStatus w d s
            = (Inr (Ok \<lparr>status_index = index d,
                         status_name = name,
                         persistenceMode = persistence,
                         pciBusId = pci_busId pci,
                         displayActive = display,
                         eccErrorsCorrected = ecc,
                         fanSpeed = fan,
                         temperature = temp,
                         pstate = pstateValue,
                         powerDraw = powerValue,
                         powerLimit = limit,
                         memoryUsedMiB = mem_used memory div 1048576,
                         memoryTotalMiB = mem_total memory div 1048576,
                         utilizationGpu = util_gpu util,
                         utilizationMemory = util_memory util,
                         computeMode = cmode,
                         migMode = mig\<rparr>), s14))
   \<and> cudaVersionToString v = show_int (v div 1000) @ ''.'' @ show_int (js_rem v 1000 div 10)
   \<and> (0 \<le> v \<longrightarrow> js_rem v 1000 = v mod 1000)
   \<and> (0 \<le> major \<and> 0 \<le> minor \<and> minor < 100
      \<longrightarrow> cudaVersionToString (major * 1000 + minor * 10)
            = show_int major @ ''.'' @ show_int minor)
   \<and> cudaVersionToString 12040 = ''12.4''"
proof -
  have p1: "invoke w sym_nvmlDeviceGetPowerUsage [ADevice (handle d)] s = (Inr r, s')
        \<and> ret r = SUCCESS
      \<longrightarrow> getPowerUsage w d s = (Inr (Ok (js_divide (out_num r) 1000)), s')"
    by (simp add: getPowerUsage_eq bindM_def returnM_def)
  have p2: "invoke w sym_nvmlDeviceGetPowerManagementLimit [ADevice (handle d)] s = (Inr r, s')
        \<and> ret r = SUCCESS
      \<longrightarrow> getPowerLimit w d s = (Inr (Ok (js_divide (out_num r) 1000)), s')"
    by (simp add: getPowerLimit_eq bindM_def returnM_def)
  have p3: "0 \<le> m \<and> m < 2 ^ 53 \<and> 1000 dvd m \<longrightarrow> js_divide m 1000 = real_of_int m / 1000"
    using js_divide_exact [of m 1000] by simp
  have p4: "0 \<le> m
      \<longrightarrow> \<bar>js_divide m 1000 - real_of_int m / 1000\<bar> * 2 ^ 53 \<le> real_of_int m / 1000"
    using js_divide_near [of m 1000] by simp
  have m2: "bytesToMiB (8 * 1024 ^ 3) = 8192"
    by (simp add: bytesToMiB_def Number_of_bigint_def)
  have bi: "getName w d s = (Inr (Ok name), s1) \<and> getMemoryInfo w d s1 = (Inr (Ok memory), s2)
      \<longrightarrow> getBasicInfo w d s
            = (Inr (Ok \<lparr>info_index = index d,
                         info_name = name,
                         info_memoryTotalMiB = mem_total memory div 1048576,
                         info_memoryTotalGiB =
                           js_divide (js_round (real_of_int (mem_total memory div 1048576)
                                                / 1024 * 10)) 10\<rparr>), s2)"
    using getBasicInfo_Ok by blast
  have st: "getName w d s = (Inr (Ok name), s1)
      \<and> getPersistenceMode w d s1 = (Inr (Ok persistence), s2)
      \<and> getPciInfo w d s2 = (Inr (Ok pci), s3)
      \<and> getDisplayActive w d s3 = (Inr (Ok display), s4)
      \<and> getEccErrorsCorrected w d s4 = (Inr (Ok ecc), s5)
      \<and> getFanSpeed w d s5 = (Inr (Ok fan), s6)
      \<and> getTemperature w d s6 = (Inr (Ok temp), s7)
      \<and> getPerformanceState w d s7 = (Inr (Ok pstateValue), s8)
      \<and> getPowerUsage w d s8 = (Inr (Ok powerValue), s9)
      \<and> getPowerLimit w d s9 = (Inr (Ok limit), s10)
      \<and> getMemoryInfo w d s10 = (Inr (Ok memory), s11)
      \<and> getUtilizationRates w d s11 = (Inr (Ok util), s12)
      \<and> getComputeMode w d s12 = (Inr (Ok cmode), s13)
      \<and> getMigMode w d s13 = (Inr (Ok mig), s14)
      \<longrightarrow> getStatus w d s
            = (Inr (Ok \<lparr>status_index = index d,
                         status_name = name,
                         persistenceMode = persistence,
                         pciBusId = pci_busId pci,
                         displayActive = display,
                         eccErrorsCorrected = ecc,
                         fanSpeed = fan,
                         temperature = temp,
                         pstate = pstateValue,
                         powerDraw = powerValue,
                         powerLimit = limit,
                         memoryUsedMiB = mem_used memory div 1048576,
                         memoryTotalMiB = mem_total memory div 1048576,
                         utilizationGpu = util_gpu util,
                         utilizationMemory = util_memory util,
                         computeMode = cmode,
                         migMode = mig\<rparr>), s14)"
    by (intro impI, elim conjE, rule getStatus_Ok)
  have c1: "0 \<le> v \<longrightarrow> js_rem v 1000 = v mod 1000"
    by (simp add: js_rem_nonneg)
  have c2: "0 \<le> major \<and> 0 \<le> minor \<and> minor < 100
      \<longrightarrow> cudaVersionToString (major * 1000 + minor * 10)
            = show_int major @ ''.'' @ show_int minor"
    by (simp add: cuda_roundtrip)
  have c3: "cudaVersionToString 12040 = ''12.4''"
    by (simp add: cudaVersionToString_eq js_rem_12040 show_12 show_4)
  show ?thesis
    by (intro conjI)
       (rule p1 p2 p3 p4 js_divide_150000 js_divide_1500 js_divide_1001 bytesToMiB_word m2
          bi st cudaVersionToString_eq c1 c2 c3)+
qed

lemma sim_after_simps [simp]:
  "lib (sim_after s f args) = lib s"
  "initialized (sim_after s f args) = initialized s"
  "bindings (sim_after s f args) g = (if g = f then Some (Callable sim_lib f) else bindings s g)"
  "effects (sim_after s f args) = effects s @ [Invoke (Callable sim_lib f) args]"
  by (simp_all add: sim_after_def)

lemma invoke_sim_after:
  "lib s = Some sim_lib \<Longrightarrow> bindings s f = None \<Longrightarrow>
   invoke sim_world f args s = (Inr (sim_response f args), sim_after s f args)"
  by (simp add: invoke_loaded [where l = sim_lib] sim_after_def sim_lib_def)

lemma sim_ready_simps:
  "lib sim_ready = Some sim_lib"
  "bindings sim_ready g
     = (if g = sym_nvmlInit_v2 then Some (Callable sim_lib sym_nvmlInit_v2) else None)"
  by (simp_all add: sim_ready_def)

lemmas sim_query_defs = query_defs binding_defs code_defs bindM_def returnM_def
  invoke_sim_after sim_ready_simps sim_device_def blank_def

theorem unit_conversions_exact_witness:
  "(\<exists>s'. getPowerUsage sim_world sim_device sim_ready = (Inr (Ok 150), s'))
   \<and> (\<exists>s'. getBasicInfo sim_world sim_device sim_ready
            = (Inr (Ok \<lparr>info_index = 0, info_name = ''NVIDIA Mock GPU'',
                         info_memoryTotalMiB = 8192, info_memoryTotalGiB = 8\<rparr>), s'))
   \<and> (\<exists>s'. getStatus sim_world sim_device sim_ready
            = (Inr (Ok \<lparr>status_index = 0,
                         status_name = ''NVIDIA Mock GPU'',
                         persistenceMode = True,
                         pciBusId = ''00000000:00:1E.1'',
                         displayActive = False,
                         eccErrorsCorrected = Some 0,
                         fanSpeed = Some 50,
                         temperature = 55,
                         pstate = 0,
                         powerDraw = 150,
                         powerLimit = 300,
                         memoryUsedMiB = 2048,
                         memoryTotalMiB = 8192,
                         utilizationGpu = 45,
                         utilizationMemory = 25,
                         computeMode = 0,
                         migMode = Some False\<rparr>), s'))
   \<and> cudaVersionToString (12 * 1000 + 4 * 10) = show_int 12 @ ''.'' @ show_int 4"
proof -
  let ?h = "[ADevice (DevHandle 0)]"
  let ?s1 = "sim_after sim_ready sym_nvmlDeviceGetName [ADevice (DevHandle 0), ANum 64]"
  let ?s2 = "sim_after ?s1 sym_nvmlDeviceGetPersistenceMode ?h"
  let ?s3 = "sim_after ?s2 sym_nvmlDeviceGetPciInfo_v3 ?h"
  let ?s4 = "sim_after ?s3 sym_nvmlDeviceGetDisplayActive ?h"
  let ?s5 = "sim_after ?s4 sym_nvmlDeviceGetTotalEccErrors [ADevice (DevHandle 0), ANum 0, ANum 0]"
  let ?s6 = "sim_after ?s5 sym_nvmlDeviceGetFanSpeed ?h"
  let ?s7 = "sim_after ?s6 sym_nvmlDeviceGetTemperature [ADevice (DevHandle 0), ANum 0]"
  let ?s8 = "sim_after ?s7 sym_nvmlDeviceGetPerformanceState ?h"
  let ?s9 = "sim_after ?s8 sym_nvmlDeviceGetPowerUsage ?h"
  let ?s10 = "sim_after ?s9 sym_nvmlDeviceGetPowerManagementLimit ?h"
  let ?s11 = "sim_after ?s10 sym_nvmlDeviceGetMemoryInfo ?h"
  let ?s12 = "sim_after ?s11 sym_nvmlDeviceGetUtilizationRates ?h"
  let ?s13 = "sim_after ?s12 sym_nvmlDeviceGetComputeMode ?h"
  let ?s14 = "sim_after ?s13 sym_nvmlDeviceGetMigMode ?h"
  let ?m = "\<lparr>mem_total = 8589934592, mem_free = 6442450944, mem_used = 2147483648\<rparr>"
  let ?pci = "\<lparr>pci_busId = ''00000000:00:1E.1'', pci_domain = 0, pci_bus = 0, pci_device = 30,
               pci_function = 0, pci_pciDeviceId = 1193046, pci_pciSubsystemId = 7903932\<rparr>"
  have u: "invoke sim_world sym_nvmlDeviceGetPowerUsage [ADevice (handle sim_device)] sim_ready
             = (Inr (sim_response sym_nvmlDeviceGetPowerUsage [ADevice (handle sim_device)]),
                sim_after sim_ready sym_nvmlDeviceGetPowerUsage [ADevice (handle sim_device)])
           \<and> ret (sim_response sym_nvmlDeviceGetPowerUsage [ADevice (handle sim_device)])
               = SUCCESS"
    by (simp add: invoke_sim_after sim_ready_simps blank_def SUCCESS_def)
  have a: "\<exists>s'. getPowerUsage sim_world sim_device sim_ready = (Inr (Ok 150), s')"
    using unit_conversions_exact [where w = sim_world and d = sim_device and s = sim_ready,
            THEN conjunct1, rule_format, OF u]
          unit_conversions_exact [THEN conjunct2, THEN conjunct2, THEN conjunct2,
            THEN conjunct2, THEN conjunct1]
    by (simp add: blank_def)
  have n: "getName sim_world sim_device sim_ready = (Inr (Ok ''NVIDIA Mock GPU''), ?s1)"
    by (simp add: sim_query_defs strip_nuls_def)
  have m1: "getMemoryInfo sim_world sim_device ?s1
              = (Inr (Ok ?m), sim_after ?s1 sym_nvmlDeviceGetMemoryInfo ?h)"
    by (simp add: sim_query_defs)
  have b: "\<exists>s'. getBasicInfo sim_world sim_device sim_ready
            = (Inr (Ok \<lparr>info_index = 0, info_name = ''NVIDIA Mock GPU'',
                         info_memoryTotalMiB = 8192, info_memoryTotalGiB = 8\<rparr>), s')"
    using unit_conversions_exact [where w = sim_world and d = sim_device and s = sim_ready,
            THEN conjunct2, THEN conjunct2, THEN conjunct2, THEN conjunct2, THEN conjunct2,
            THEN conjunct2, THEN conjunct2, THEN conjunct2, THEN conjunct2, THEN conjunct2,
            THEN conjunct2, THEN conjunct1, rule_format, OF conjI, OF n m1]
          js_divide_exact [of 80 10]
    by (simp add: sim_device_def js_round_def)
  have q2: "getPersistenceMode sim_world sim_device ?s1 = (Inr (Ok True), ?s2)"
    by (simp add: sim_query_defs)
  have q3: "getPciInfo sim_world sim_device ?s2 = (Inr (Ok ?pci), ?s3)"
    by (simp add: sim_query_defs)
  have q4: "getDisplayActive sim_world sim_device ?s3 = (Inr (Ok False), ?s4)"
    by (simp add: sim_query_defs)
  have q5: "getEccErrorsCorrected sim_world sim_device ?s4 = (Inr (Ok (Some 0)), ?s5)"
    by (simp add: sim_query_defs Number_of_bigint_def)
  have q6: "getFanSpeed sim_world sim_device ?s5 = (Inr (Ok (Some 50)), ?s6)"
    by (simp add: sim_query_defs)
  have q7: "getTemperature sim_world sim_device ?s6 = (Inr (Ok 55), ?s7)"
    by (simp add: sim_query_defs)
  have q8: "getPerformanceState sim_world sim_device ?s7 = (Inr (Ok 0), ?s8)"
    by (simp add: sim_query_defs)
  have q9: "getPowerUsage sim_world sim_device ?s8 = (Inr (Ok 150), ?s9)"
    by (simp add: sim_query_defs js_divide_150000)
  have q10: "getPowerLimit sim_world sim_device ?s9 = (Inr (Ok 300), ?s10)"
    using js_divide_exact [of 300000 1000] by (simp add: sim_query_defs)
  have q11: "getMemoryInfo sim_world sim_device ?s10 = (Inr (Ok ?m), ?s11)"
    by (simp add: sim_query_defs)
  have q12: "getUtilizationRates sim_world sim_device ?s11
               = (Inr (Ok \<lparr>util_gpu = 45, util_memory = 25\<rparr>), ?s12)"
    by (simp add: sim_query_defs)
  have q13: "getComputeMode sim_world sim_device ?s12 = (Inr (Ok 0), ?s13)"
    by (simp add: sim_query_defs)
  have q14: "getMigMode sim_world sim_device ?s13 = (Inr (Ok (Some False)), ?s14)"
    by (simp add: sim_query_defs)
  have h: "getName sim_world sim_device sim_ready = (Inr (Ok ''NVIDIA Mock GPU''), ?s1)
      \<and> getPersistenceMode sim_world sim_device ?s1 = (Inr (Ok True), ?s2)
      \<and> getPciInfo sim_world sim_device ?s2 = (Inr (Ok ?pci), ?s3)
      \<and> getDisplayActive sim_world sim_device ?s3 = (Inr (Ok False), ?s4)
      \<and> getEccErrorsCorrected sim_world sim_device ?s4 = (Inr (Ok (Some 0)), ?s5)
      \<and> getFanSpeed sim_world sim_device ?s5 = (Inr (Ok (Some 50)), ?s6)
      \<and> getTemperature sim_world sim_device ?s6 = (Inr (Ok 55), ?s7)
      \<and> getPerformanceState sim_world sim_device ?s7 = (Inr (Ok 0), ?s8)
      \<and> getPowerUsage sim_world sim_device ?s8 = (Inr (Ok 150), ?s9)
      \<and> getPowerLimit sim_world sim_device ?s9 = (Inr (Ok 300), ?s10)
      \<and> getMemoryInfo sim_world sim_device ?s10 = (Inr (Ok ?m), ?s11)
      \<and> getUtilizationRates sim_world sim_device ?s11
          = (Inr (Ok \<lparr>util_gpu = 45, util_memory = 25\<rparr>), ?s12)
      \<and> getComputeMode sim_world sim_device ?s12 = (Inr (Ok 0), ?s13)
      \<and> getMigMode sim_world sim_device ?s13 = (Inr (Ok (Some False)), ?s14)"
    by (intro conjI) (rule n q2 q3 q4 q5 q6 q7 q8 q9 q10 q11 q12 q13 q14)+
  have c: "\<exists>s'. getStatus sim_world sim_device sim_ready
            = (Inr (Ok \<lparr>status_index = 0,
                         status_name = ''NVIDIA Mock GPU'',
                         persistenceMode = True,
                         pciBusId = ''00000000:00:1E.1'',
                         displayActive = False,
                         eccErrorsCorrected = Some 0,
                         fanSpeed = Some 50,
                         temperature = 55,
                         pstate = 0,
                         powerDraw = 150,
                         powerLimit = 300,
                         memoryUsedMiB = 2048,
                         memoryTotalMiB = 8192,
                         utilizationGpu = 45,
                         utilizationMemory = 25,
                         computeMode = 0,
                         migMode = Some False\<rparr>), s')"
    using unit_conversions_exact [where w = sim_world and d = sim_device and s = sim_ready,
            THEN conjunct2, THEN conjunct2, THEN conjunct2, THEN conjunct2, THEN conjunct2,
            THEN conjunct2, THEN conjunct2, THEN conjunct2, THEN conjunct2, THEN conjunct2,
            THEN conjunct2, THEN conjunct2, THEN conjunct1, rule_format, OF h]
    by (simp add: sim_device_def)
  have d: "cudaVersionToString (12 * 1000 + 4 * 10) = show_int 12 @ ''.'' @ show_int 4"
    using unit_conversions_exact [where major = 12 and minor = 4] by simp
  show ?thesis by (intro conjI a b c d)
qed

subsection \<open>Which calls return and which throw\<close>

lemma returns_valueD:
  "returns_value w F m \<Longrightarrow> (\<And>f. f \<in> F \<Longrightarrow> can_bind w s f) \<Longrightarrow>
   \<exists>x s'. m s = (Inr x, s') \<and> (\<forall>g. can_bind w s g \<longrightarrow> can_bind w s' g)
           \<and> initialized s' = initialized s"
  by (simp add: returns_value_def)

lemma returns_value_returnM: "returns_value w F (returnM x)"
  by (simp add: returns_value_def returnM_def)

lemma returns_value_bindM:
  assumes "returns_value w F m" and "\<And>x. returns_value w F (k x)"
  shows "returns_value w F (bindM m k)"
  unfolding returns_value_def
proof (intro allI impI)
  fix s assume F: "\<forall>f \<in> F. can_bind w s f"
  from returns_valueD [OF assms(1), of s] F obtain x s1 where
    m: "m s = (Inr x, s1)" "\<forall>g. can_bind w s g \<longrightarrow> can_bind w s1 g"
       "initialized s1 = initialized s"
    by blast
  from F m(2) have "\<And>f. f \<in> F \<Longrightarrow> can_bind w s1 f" by blast
  from returns_valueD [OF assms(2), of s1 x, OF this] obtain y s' where
    k: "k x s1 = (Inr y, s')" "\<forall>g. can_bind w s1 g \<longrightarrow> can_bind w s' g"
       "initialized s' = initialized s1"
    by blast
  from m k show "\<exists>x s'. bindM m k s = (Inr x, s')
                   \<and> (\<forall>g. can_bind w s g \<longrightarrow> can_bind w s' g)
                   \<and> initialized s' = initialized s"
    by (simp add: bindM_def)
qed

lemma returns_value_if:
  "returns_value w F a \<Longrightarrow> returns_value w F b \<Longrightarrow> returns_value w F (if c then a else b)"
  by simp

lemma returns_value_case_prod:
  "(\<And>a b. returns_value w F (f a b)) \<Longrightarrow> returns_value w F (case p of (a, b) \<Rightarrow> f a b)"
  by (cases p) simp

lemma returns_value_case_Result:
  "(\<And>v. returns_value w F (f v)) \<Longrightarrow> (\<And>e. returns_value w F (g e)) \<Longrightarrow>
   returns_value w F (case r of Ok v \<Rightarrow> f v | Err e \<Rightarrow> g e)"
  by (cases r) simp_all

lemma returns_value_invoke: "f \<in> F \<Longrightarrow> returns_value w F (invoke w f args)"
  unfolding returns_value_def using invoke_can by blast

lemmas returns_value_intros =
  returns_value_bindM returns_value_returnM returns_value_if
  returns_value_case_prod returns_value_case_Result

lemma returns_value_run_query:
  "query_symbol q \<in> F \<Longrightarrow> returns_value w F (run_query w d q)"
  unfolding run_query_eq by (intro returns_value_intros returns_value_invoke)

lemma failure_only_Inr:
  "(\<exists>x s'. failure_only m s = (Inr x, s')) \<longleftrightarrow> (\<exists>x s'. m s = (Inr x, s'))"
  by (auto simp: failure_only_apply split: prod.splits sum.splits)

lemma returns_value_query:
  "sym_nvmlDeviceGetName \<in> F \<Longrightarrow> returns_value w F (getName w d)"
  "sym_nvmlDeviceGetUUID \<in> F \<Longrightarrow> returns_value w F (getUUID w d)"
  "sym_nvmlDeviceGetMemoryInfo \<in> F \<Longrightarrow> returns_value w F (getMemoryInfo w d)"
  "sym_nvmlDeviceGetUtilizationRates \<in> F \<Longrightarrow> returns_value w F (getUtilizationRates w d)"
  "sym_nvmlDeviceGetTemperature \<in> F \<Longrightarrow> returns_value w F (getTemperature w d)"
  "sym_nvmlDeviceGetPowerUsage \<in> F \<Longrightarrow> returns_value w F (getPowerUsage w d)"
  "sym_nvmlDeviceGetPowerManagementLimit \<in> F \<Longrightarrow> returns_value w F (getPowerLimit w d)"
  "sym_nvmlDeviceGetFanSpeed \<in> F \<Longrightarrow> returns_value w F (getFanSpeed w d)"
  "sym_nvmlDeviceGetPerformanceState \<in> F \<Longrightarrow> returns_value w F (getPerformanceState w d)"
  "sym_nvmlDeviceGetPciInfo_v3 \<in> F \<Longrightarrow> returns_value w F (getPciInfo w d)"
  "sym_nvmlDeviceGetPersistenceMode \<in> F \<Longrightarrow> returns_value w F (getPersistenceMode w d)"
  "sym_nvmlDeviceGetDisplayActive \<in> F \<Longrightarrow> returns_value w F (getDisplayActive w d)"
  "sym_nvmlDeviceGetComputeMode \<in> F \<Longrightarrow> returns_value w F (getComputeMode w d)"
  "sym_nvmlDeviceGetMigMode \<in> F \<Longrightarrow> returns_value w F (getMigMode w d)"
  "sym_nvmlDeviceGetTotalEccErrors \<in> F \<Longrightarrow> returns_value w F (getEccErrorsCorrected w d)"
  unfolding query_defs binding_defs
  by (intro returns_value_intros returns_value_invoke; assumption)+

lemma returns_value_getBasicInfo:
  "sym_nvmlDeviceGetName \<in> F \<Longrightarrow> sym_nvmlDeviceGetMemoryInfo \<in> F \<Longrightarrow>
   returns_value w F (getBasicInfo w d)"
  unfolding getBasicInfo_def by (intro returns_value_intros returns_value_query; assumption)

lemma returns_value_getStatus:
  "query_symbol ` set status_sequence \<subseteq> F \<Longrightarrow> returns_value w F (getStatus w d)"
  unfolding getStatus_def
  by (intro returns_value_intros returns_value_query) (auto simp: status_sequence_def)

lemma returns_value_collect_processes:
  "sym_nvmlSystemGetProcessName \<in> F \<Longrightarrow>
   returns_value w F (collect_processes w gi raws seen acc)"
proof (induction raws arbitrary: seen acc)
  case Nil
  show ?case by (simp add: returns_value_returnM)
next
  case (Cons x xs)
  show ?case
    unfolding collect_processes.simps nvmlSystemGetProcessName_def
    by (intro returns_value_intros returns_value_invoke Cons.IH Cons.prems)
qed

lemma returns_value_getProcesses:
  "sym_nvmlDeviceGetComputeRunningProcesses_v3 \<in> F \<Longrightarrow>
   sym_nvmlDeviceGetGraphicsRunningProcesses_v3 \<in> F \<Longrightarrow>
   sym_nvmlSystemGetProcessName \<in> F \<Longrightarrow>
   returns_value w F (getProcesses w d)"
  unfolding getProcesses_def nvmlDeviceGetComputeRunningProcesses_def
    nvmlDeviceGetGraphicsRunningProcesses_def
  by (intro returns_value_intros returns_value_invoke returns_value_collect_processes;
      assumption)

lemma after_ensureInitialized:
  assumes "initialized s" and "returns_value w F m" and "\<And>f. f \<in> F \<Longrightarrow> can_bind w s f"
  shows "\<exists>x s'. bindM ensureInitialized (\<lambda>_. m) s = (Inr x, s')"
  using returns_valueD [OF assms(2), of s, OF assms(3)] assms(1)
  by (auto simp: ensureInitialized_True)

lemma run_query_throws:
  "\<not> can_bind w s (query_symbol q) \<Longrightarrow> \<exists>e s'. run_query w d q s = (Inl e, s')"
  by (auto simp: run_query_eq run_defs can_bind_def split: option.splits)

lemma run_query_returns_iff:
  "can_bind w s (query_symbol q) \<longleftrightarrow> (\<exists>x s'. run_query w d q s = (Inr x, s'))"
proof
  assume c: "can_bind w s (query_symbol q)"
  have "returns_value w {query_symbol q} (run_query w d q)"
    by (rule returns_value_run_query) simp
  from returns_valueD [OF this, of s] c show "\<exists>x s'. run_query w d q s = (Inr x, s')"
    by auto
next
  assume r: "\<exists>x s'. run_query w d q s = (Inr x, s')"
  show "can_bind w s (query_symbol q)"
  proof (rule ccontr)
    assume "\<not> can_bind w s (query_symbol q)"
    from run_query_throws [OF this, of d] obtain e s'' where
      "run_query w d q s = (Inl e, s'')" by blast
    with r show False by simp
  qed
qed

lemma returns_single:
  "returns_value w {f} m \<Longrightarrow> can_bind w s f \<longrightarrow> (\<exists>x s'. m s = (Inr x, s'))"
  using returns_valueD [of w "{f}" m s] by auto

lemma getDeviceCount_eq:
  "initialized s \<and> invoke w sym_nvmlDeviceGetCount_v2 [] s = (Inr r, s')
   \<longrightarrow> getDeviceCount w s
         = (if ret r \<noteq> SUCCESS
            then (Inl (Nvml (fromReturn (ret r) ''Failed to get device count'')), s')
            else (Inr (out_num r), s'))"
  by (simp add: getDeviceCount_def ensureInitialized_def nvmlDeviceGetCount_def bindM_def
      returnM_def throwM_def code_defs)

lemma getDevice_eq:
  "initialized s \<and> isInteger i \<and> 0 \<le> i
   \<and> invoke w sym_nvmlDeviceGetHandleByIndex_v2 [ANum \<lfloor>i\<rfloor>] s = (Inr r, s')
   \<longrightarrow> getDevice w i s
         = (if ret r \<noteq> SUCCESS \<or> out_device r = None
            then (Inl (Nvml (fromReturn (ret r)
                               (''Failed to get device at index '' @ js_number_string w i))), s')
            else (Inr \<lparr>handle = the (out_device r), index = \<lfloor>i\<rfloor>\<rparr>, s'))"
  by (simp add: getDevice_def ensureInitialized_def getByIndex_def
      nvmlDeviceGetHandleByIndex_def bindM_def returnM_def throwM_def code_defs)

lemma getDeviceByUUID_eq:
  "initialized s \<and> \<not> trim_is_empty uuid
   \<and> invoke w sym_nvmlDeviceGetHandleByUUID [AStr uuid] s = (Inr r, s')
   \<longrightarrow> getDeviceByUUID w uuid s
         = (if ret r \<noteq> SUCCESS \<or> out_device r = None
            then (Inl (Nvml (fromReturn (ret r) (''Failed to get device with UUID '' @ uuid))), s')
            else (Inr \<lparr>handle = the (out_device r), index = - 1\<rparr>, s'))"
  by (simp add: getDeviceByUUID_def ensureInitialized_def getByUUID_def
      nvmlDeviceGetHandleByUUID_def bindM_def returnM_def throwM_def code_defs)

lemma query_returns:
  "can_bind w s sym_nvmlDeviceGetName \<longrightarrow> (\<exists>x s'. getName w d s = (Inr x, s'))"
  "can_bind w s sym_nvmlDeviceGetUUID \<longrightarrow> (\<exists>x s'. getUUID w d s = (Inr x, s'))"
  "can_bind w s sym_nvmlDeviceGetMemoryInfo \<longrightarrow> (\<exists>x s'. getMemoryInfo w d s = (Inr x, s'))"
  "can_bind w s sym_nvmlDeviceGetUtilizationRates
     \<longrightarrow> (\<exists>x s'. getUtilizationRates w d s = (Inr x, s'))"
  "can_bind w s sym_nvmlDeviceGetTemperature \<longrightarrow> (\<exists>x s'. getTemperature w d s = (Inr x, s'))"
  "can_bind w s sym_nvmlDeviceGetPowerUsage \<longrightarrow> (\<exists>x s'. getPowerUsage w d s = (Inr x, s'))"
  "can_bind w s sym_nvmlDeviceGetPowerManagementLimit
     \<longrightarrow> (\<exists>x s'. getPowerLimit w d s = (Inr x, s'))"
  "can_bind w s sym_nvmlDeviceGetFanSpeed \<longrightarrow> (\<exists>x s'. getFanSpeed w d s = (Inr x, s'))"
  "can_bind w s sym_nvmlDeviceGetPerformanceState
     \<longrightarrow> (\<exists>x s'. getPerformanceState w d s = (Inr x, s'))"
  "can_bind w s sym_nvmlDeviceGetPciInfo_v3 \<longrightarrow> (\<exists>x s'. getPciInfo w d s = (Inr x, s'))"
  "can_bind w s sym_nvmlDeviceGetPersistenceMode
     \<longrightarrow> (\<exists>x s'. getPersistenceMode w d s = (Inr x, s'))"
  "can_bind w s sym_nvmlDeviceGetDisplayActive
     \<longrightarrow> (\<exists>x s'. getDisplayActive w d s = (Inr x, s'))"
  "can_bind w s sym_nvmlDeviceGetComputeMode \<longrightarrow> (\<exists>x s'. getComputeMode w d s = (Inr x, s'))"
  "can_bind w s sym_nvmlDeviceGetMigMode \<longrightarrow> (\<exists>x s'. getMigMode w d s = (Inr x, s'))"
  "can_bind w s sym_nvmlDeviceGetTotalEccErrors
     \<longrightarrow> (\<exists>x s'. getEccErrorsCorrected w d s = (Inr x, s'))"
  by (rule returns_single, rule returns_value_query, simp)+

lemma composite_returns:
  "can_bind w s sym_nvmlDeviceGetName \<and> can_bind w s sym_nvmlDeviceGetMemoryInfo
     \<longrightarrow> (\<exists>x s'. getBasicInfo w d s = (Inr x, s'))"
  "(\<forall>q \<in> set status_sequence. can_bind w s (query_symbol q))
     \<longrightarrow> (\<exists>x s'. getStatus w d s = (Inr x, s'))"
  "can_bind w s sym_nvmlDeviceGetComputeRunningProcesses_v3
   \<and> can_bind w s sym_nvmlDeviceGetGraphicsRunningProcesses_v3
   \<and> can_bind w s sym_nvmlSystemGetProcessName
     \<longrightarrow> (\<exists>x s'. getProcesses w d s = (Inr x, s'))"
proof -
  have a: "returns_value w {sym_nvmlDeviceGetName, sym_nvmlDeviceGetMemoryInfo}
             (getBasicInfo w d)"
    by (rule returns_value_getBasicInfo) simp_all
  from returns_valueD [OF a, of s]
  show "can_bind w s sym_nvmlDeviceGetName \<and> can_bind w s sym_nvmlDeviceGetMemoryInfo
     \<longrightarrow> (\<exists>x s'. getBasicInfo w d s = (Inr x, s'))"
    by auto
  have b: "returns_value w (query_symbol ` set status_sequence) (getStatus w d)"
    by (rule returns_value_getStatus) simp
  from returns_valueD [OF b, of s]
  show "(\<forall>q \<in> set status_sequence. can_bind w s (query_symbol q))
     \<longrightarrow> (\<exists>x s'. getStatus w d s = (Inr x, s'))"
    by blast
  have c: "returns_value w {sym_nvmlDeviceGetComputeRunningProcesses_v3,
                            sym_nvmlDeviceGetGraphicsRunningProcesses_v3,
                            sym_nvmlSystemGetProcessName} (getProcesses w d)"
    by (rule returns_value_getProcesses) simp_all
  from returns_valueD [OF c, of s]
  show "can_bind w s sym_nvmlDeviceGetComputeRunningProcesses_v3
   \<and> can_bind w s sym_nvmlDeviceGetGraphicsRunningProcesses_v3
   \<and> can_bind w s sym_nvmlSystemGetProcessName
     \<longrightarrow> (\<exists>x s'. getProcesses w d s = (Inr x, s'))"
    by auto
qed

lemma system_returns:
  "initialized s \<and> can_bind w s sym_nvmlSystemGetDriverVersion
   \<and> can_bind w s sym_nvmlSystemGetNVMLVersion
   \<and> can_bind w s sym_nvmlSystemGetCudaDriverVersion_v2
     \<longrightarrow> (\<exists>x s'. getDriverInfo w s = (Inr x, s'))"
  "initialized s \<and> can_bind w s sym_nvmlSystemGetDriverVersion
     \<longrightarrow> (\<exists>x s'. getDriverVersion w s = (Inr x, s'))"
  "initialized s \<and> can_bind w s sym_nvmlSystemGetNVMLVersion
     \<longrightarrow> (\<exists>x s'. getNvmlVersion w s = (Inr x, s'))"
  "initialized s \<and> can_bind w s sym_nvmlSystemGetCudaDriverVersion_v2
     \<longrightarrow> (\<exists>x s'. getCudaVersion w s = (Inr x, s'))"
proof -
  show "initialized s \<and> can_bind w s sym_nvmlSystemGetDriverVersion
   \<and> can_bind w s sym_nvmlSystemGetNVMLVersion
   \<and> can_bind w s sym_nvmlSystemGetCudaDriverVersion_v2
     \<longrightarrow> (\<exists>x s'. getDriverInfo w s = (Inr x, s'))"
    unfolding getDriverInfo_def nvmlSystemGetDriverVersion_def nvmlSystemGetNvmlVersion_def
      nvmlSystemGetCudaDriverVersion_v2_def
    by (intro impI, elim conjE,
        rule after_ensureInitialized
          [where w = w and F = "{sym_nvmlSystemGetDriverVersion, sym_nvmlSystemGetNVMLVersion,
                                 sym_nvmlSystemGetCudaDriverVersion_v2}"],
        assumption, (intro returns_value_intros returns_value_invoke; simp), auto)
  show "initialized s \<and> can_bind w s sym_nvmlSystemGetDriverVersion
     \<longrightarrow> (\<exists>x s'. getDriverVersion w s = (Inr x, s'))"
    unfolding getDriverVersion_def nvmlSystemGetDriverVersion_def
    by (intro impI, elim conjE,
        rule after_ensureInitialized [where w = w and F = "{sym_nvmlSystemGetDriverVersion}"],
        assumption, (intro returns_value_intros returns_value_invoke; simp), auto)
  show "initialized s \<and> can_bind w s sym_nvmlSystemGetNVMLVersion
     \<longrightarrow> (\<exists>x s'. getNvmlVersion w s = (Inr x, s'))"
    unfolding getNvmlVersion_def nvmlSystemGetNvmlVersion_def
    by (intro impI, elim conjE,
        rule after_ensureInitialized [where w = w and F = "{sym_nvmlSystemGetNVMLVersion}"],
        assumption, (intro returns_value_intros returns_value_invoke; simp), auto)
  show "initialized s \<and> can_bind w s sym_nvmlSystemGetCudaDriverVersion_v2
     \<longrightarrow> (\<exists>x s'. getCudaVersion w s = (Inr x, s'))"
    unfolding getCudaVersion_def nvmlSystemGetCudaDriverVersion_v2_def
    by (intro impI, elim conjE,
        rule after_ensureInitialized
          [where w = w and F = "{sym_nvmlSystemGetCudaDriverVersion_v2}"],
        assumption, (intro returns_value_intros returns_value_invoke; simp), auto)
qed

lemma malformed_arguments:
  "\<not> isInteger i \<or> i < 0 \<longrightarrow> getByIndex w i s = (Inl (InvalidDeviceIndex i), s)"
  "trim_is_empty uuid \<longrightarrow> getByUUID w uuid s = (Inl InvalidDeviceUUID, s)"
  "\<bar>i\<bar> \<le> 2 ^ 53 \<longrightarrow> js_number_string w i = show_int \<lfloor>i\<rfloor>"
  by (auto simp: getByIndex_def getByUUID_def throwM_def js_number_string_def)

text \<open>
  Claim C1, amended. A query of a \<^verbatim>\<open>Device\<close> returns a Result, whatever the native
  functions answer, as soon as the symbols it calls can be bound: its own symbol for each
  of the fifteen single-field queries (which return exactly then), name and memory for
  \<^verbatim>\<open>getBasicInfo\<close>, the fourteen of its sequence for \<^verbatim>\<open>getStatus\<close>, the two
  enumerations and the name lookup for \<^verbatim>\<open>getProcesses\<close>; so do \<^verbatim>\<open>getDriverInfo\<close>,
  \<^verbatim>\<open>getDriverVersion\<close>, \<^verbatim>\<open>getNvmlVersion\<close> and \<^verbatim>\<open>getCudaVersion\<close> once
  initialised. \<^verbatim>\<open>Nvml.getDeviceCount\<close>, \<^verbatim>\<open>Nvml.getDevice\<close> and
  \<^verbatim>\<open>Nvml.getDeviceByUUID\<close> return a bare value (the count; the device of the handle
  with the index asked for, or with index -1) when their native call returns \<open>SUCCESS\<close>
  (and a handle), and otherwise throw an \<^verbatim>\<open>NvmlError\<close> carrying the native status and
  their context. An index that is not a non-negative integer and a UUID that is empty
  after trimming make \<^verbatim>\<open>getByIndex\<close> and \<^verbatim>\<open>getByUUID\<close> throw at once, with the
  state untouched. An index up to \<open>2 ^ 53\<close> is printed digit for digit.
\<close>

theorem result_or_exception:
  "(can_bind w s sym_nvmlDeviceGetName \<longrightarrow> (\<exists>x s'. getName w d s = (Inr x, s')))
   \<and> (can_bind w s sym_nvmlDeviceGetUUID \<longrightarrow> (\<exists>x s'. getUUID w d s = (Inr x, s')))
   \<and> (can_bind w s sym_nvmlDeviceGetMemoryInfo
        \<longrightarrow> (\<exists>x s'. getMemoryInfo w d s = (Inr x, s')))
   \<and> (can_bind w s sym_nvmlDeviceGetUtilizationRates
        \<longrightarrow> (\<exists>x s'. getUtilizationRates w d s = (Inr x, s')))
   \<and> (can_bind w s sym_nvmlDeviceGetTemperature
        \<longrightarrow> (\<exists>x s'. getTemperature w d s = (Inr x, s')))
   \<and> (can_bind w s sym_nvmlDeviceGetPowerUsage
        \<longrightarrow> (\<exists>x s'. getPowerUsage w d s = (Inr x, s')))
   \<and> (can_bind w s sym_nvmlDeviceGetPowerManagementLimit
        \<longrightarrow> (\<exists>x s'. getPowerLimit w d s = (Inr x, s')))
   \<and> (can_bind w s sym_nvmlDeviceGetFanSpeed \<longrightarrow> (\<exists>x s'. getFanSpeed w d s = (Inr x, s')))
   \<and> (can_bind w s sym_nvmlDeviceGetPerformanceState
        \<longrightarrow> (\<exists>x s'. getPerformanceState w d s = (Inr x, s')))
   \<and> (can_bind w s sym_nvmlDeviceGetPciInfo_v3 \<longrightarrow> (\<exists>x s'. getPciInfo w d s = (Inr x, s')))
   \<and> (can_bind w s sym_nvmlDeviceGetPersistenceMode
        \<longrightarrow> (\<exists>x s'. getPersistenceMode w d s = (Inr x, s')))
   \<and> (can_bind w s sym_nvmlDeviceGetDisplayActive
        \<longrightarrow> (\<exists>x s'. getDisplayActive w d s = (Inr x, s')))
   \<and> (can_bind w s sym_nvmlDeviceGetComputeMode
        \<longrightarrow> (\<exists>x s'. getComputeMode w d s = (Inr x, s')))
   \<and> (can_bind w s sym_nvmlDeviceGetMigMode \<longrightarrow> (\<exists>x s'. getMigMode w d s = (Inr x, s')))
   \<and> (can_bind w s sym_nvmlDeviceGetTotalEccErrors
        \<longrightarrow> (\<exists>x s'. getEccErrorsCorrected w d s = (Inr x, s')))
   \<and> (can_bind w s (query_symbol q) \<longleftrightarrow> (\<exists>x s'. run_query w d q s = (Inr x, s')))
   \<and> (can_bind w s sym_nvmlDeviceGetName \<and> can_bind w s sym_nvmlDeviceGetMemoryInfo
        \<longrightarrow> (\<exists>x s'. getBasicInfo w d s = (Inr x, s')))
   \<and> ((\<forall>q \<in> set status_sequence. can_bind w s (query_symbol q))
        \<longrightarrow> (\<exists>x s'. getStatus w d s = (Inr x, s')))
   \<and> (can_bind w s sym_nvmlDeviceGetComputeRunningProcesses_v3
        \<and> can_bind w s sym_nvmlDeviceGetGraphicsRunningProcesses_v3
        \<and> can_bind w s sym_nvmlSystemGetProcessName
        \<longrightarrow> (\<exists>x s'. getProcesses w d s = (Inr x, s')))
   \<and> (initialized s \<and> can_bind w s sym_nvmlSystemGetDriverVersion
        \<and> can_bind w s sym_nvmlSystemGetNVMLVersion
        \<and> can_bind w s sym_nvmlSystemGetCudaDriverVersion_v2
        \<longrightarrow> (\<exists>x s'. getDriverInfo w s = (Inr x, s')))
   \<and> (initialized s \<and> can_bind w s sym_nvmlSystemGetDriverVersion
        \<longrightarrow> (\<exists>x s'. getDriverVersion w s = (Inr x, s')))
   \<and> (initialized s \<and> can_bind w s sym_nvmlSystemGetNVMLVersion
        \<longrightarrow> (\<exists>x s'. getNvmlVersion w s = (Inr x, s')))
   \<and> (initialized s \<and> can_bind w s sym_nvmlSystemGetCudaDriverVersion_v2
        \<longrightarrow> (\<exists>x s'. getCudaVersion w s = (Inr x, s')))
   \<and> (initialized s \<and> invoke w sym_nvmlDeviceGetCount_v2 [] s = (Inr r, s')
      \<longrightarrow> getDeviceCount w s
            = (if ret r \<noteq> SUCCESS
               then (Inl (Nvml (fromReturn (ret r) ''Failed to get device count'')), s')
               else (Inr (out_num r), s')))
   \<and> (initialized s \<and> isInteger i \<and> 0 \<le> i
        \<and> invoke w sym_nvmlDeviceGetHandleByIndex_v2 [ANum \<lfloor>i\<rfloor>] s = (Inr r, s')
      \<longrightarrow> getDevice w i s
            = (if ret r \<noteq> SUCCESS \<or> out_device r = None
               then (Inl (Nvml (fromReturn (ret r)
                                  (''Failed to get device at index '' @ js_number_string w i))),
                     s')
               else (Inr \<lparr>handle = the (out_device r), index = \<lfloor>i\<rfloor>\<rparr>, s')))
   \<and> (initialized s \<and> \<not> trim_is_empty uuid
        \<and> invoke w sym_nvmlDeviceGetHandleByUUID [AStr uuid] s = (Inr r, s')
      \<longrightarrow> getDeviceByUUID w uuid s
            = (if ret r \<noteq> SUCCESS \<or> out_device r = None
               then (Inl (Nvml (fromReturn (ret r) (''Failed to get device with UUID '' @ uuid))),
                     s')
               else (Inr \<lparr>handle = the (out_device r), index = - 1\<rparr>, s')))
   \<and> (\<not> isInteger i \<or> i < 0 \<longrightarrow> getByIndex w i s = (Inl (InvalidDeviceIndex i), s))
   \<and> (trim_is_empty uuid \<longrightarrow> getByUUID w uuid s = (Inl InvalidDeviceUUID, s))
   \<and> (\<bar>i\<bar> \<le> 2 ^ 53 \<longrightarrow> js_number_string w i = show_int \<lfloor>i\<rfloor>)"
  by (intro conjI)
     (rule query_returns run_query_returns_iff composite_returns system_returns
        getDeviceCount_eq getDevice_eq getDeviceByUUID_eq malformed_arguments)+

lemma js_number_string_999: "js_number_string w 999 = ''999''"
  by (simp add: js_number_string_def show_int_999)

text \<open>
  Claim C1 says that every fallible query of the public API, \<^verbatim>\<open>Nvml.getDeviceCount\<close>,
  \<^verbatim>\<open>Nvml.getDevice\<close> and \<^verbatim>\<open>Nvml.getDeviceByUUID\<close> included, returns a Result and never
  raises for a nonzero native status. In the simulated system, initialised, the device
  count query whose native call returns 999 throws, and so does \<^verbatim>\<open>getDevice(999)\<close>, whose
  native call returns 2.
\<close>

theorem queries_never_raise_counterexample:
  "getDeviceCount (sim_world_returning sym_nvmlDeviceGetCount_v2 999) sim_ready
     = (Inl (Nvml (NvmlError 999 ''Failed to get device count: Unknown error'')),
        sim_called sym_nvmlDeviceGetCount_v2 [])
   \<and> getDevice sim_world 999 sim_ready
     = (Inl (Nvml (NvmlError 2 ''Failed to get device at index 999: Invalid argument'')),
        sim_called sym_nvmlDeviceGetHandleByIndex_v2 [ANum 999])"
proof -
  have a: "getDeviceCount (sim_world_returning sym_nvmlDeviceGetCount_v2 999) sim_ready
     = (Inl (Nvml (NvmlError 999 ''Failed to get device count: Unknown error'')),
        sim_called sym_nvmlDeviceGetCount_v2 [])"
    using getDeviceCount_eq
            [where w = "sim_world_returning sym_nvmlDeviceGetCount_v2 999" and s = sim_ready,
             rule_format, OF conjI, OF initialized_sim_ready sim_returning_invoke]
    by (simp add: SUCCESS_def fromReturn_def nvmlErrorString_999)
  have i: "isInteger 999" "\<lfloor>999::real\<rfloor> = 999"
    by (simp_all add: isInteger_def)
  have v: "invoke sim_world sym_nvmlDeviceGetHandleByIndex_v2 [ANum \<lfloor>999::real\<rfloor>] sim_ready
           = (Inr (native sim_world 1 (Callable sim_lib sym_nvmlDeviceGetHandleByIndex_v2)
                     [ANum \<lfloor>999::real\<rfloor>]),
              sim_called sym_nvmlDeviceGetHandleByIndex_v2 [ANum \<lfloor>999::real\<rfloor>])"
    by (rule invoke_sim_ready) simp_all
  have h: "initialized sim_ready \<and> isInteger 999 \<and> (0::real) \<le> 999
           \<and> invoke sim_world sym_nvmlDeviceGetHandleByIndex_v2 [ANum \<lfloor>999::real\<rfloor>] sim_ready
           = (Inr (native sim_world 1 (Callable sim_lib sym_nvmlDeviceGetHandleByIndex_v2)
                     [ANum \<lfloor>999::real\<rfloor>]),
              sim_called sym_nvmlDeviceGetHandleByIndex_v2 [ANum \<lfloor>999::real\<rfloor>])"
    using initialized_sim_ready i(1) v by simp
  have b: "getDevice sim_world 999 sim_ready
     = (Inl (Nvml (NvmlError 2 ''Failed to get device at index 999: Invalid argument'')),
        sim_called sym_nvmlDeviceGetHandleByIndex_v2 [ANum 999])"
    using getDevice_eq [where w = sim_world and s = sim_ready and i = 999, rule_format, OF h]
    by (simp add: i blank_def SUCCESS_def fromReturn_def nvmlErrorString_2
        js_number_string_999)
  show ?thesis by (intro conjI a b)
qed

lemma can_bind_lacking:
  "signature_of f \<noteq> signature_of g \<Longrightarrow> can_bind (sim_world_lacking g) sim_ready f"
  by (simp add: can_bind_def sim_ready_def sim_world_lacking_def sim_lib_def)

lemma trim_examples:
  "trim_is_empty []"
  "trim_is_empty ''  ''"
  "trim_is_empty [CHR 0xC2, CHR 0xA0]"
  "trim_is_empty [CHR 0xE2, CHR 0x80, CHR 0xA8, CHR 0x09, CHR 0xEF, CHR 0xBB, CHR 0xBF]"
  "\<not> trim_is_empty ''GPU-mock-uuid-1234-5678-abcdef''"
  "\<not> trim_is_empty [CHR 0xC2]"
  by (simp_all add: trim_is_empty.simps js_space_prefix_def js_white_space_def)

theorem result_or_exception_witness:
  "(\<exists>x s'. getName (sim_world_lacking sym_nvmlDeviceGetMigMode) sim_device sim_ready
             = (Inr x, s'))
   \<and> (\<exists>x s'. getStatus (sim_world_returning sym_nvmlDeviceGetTemperature 15) sim_device
               sim_ready = (Inr x, s'))
   \<and> (\<exists>x s'. getProcesses
               (sim_world_returning sym_nvmlDeviceGetGraphicsRunningProcesses_v3 15)
               sim_device sim_ready = (Inr x, s'))
   \<and> (\<exists>x s'. getCudaVersion (sim_world_returning sym_nvmlSystemGetCudaDriverVersion_v2 999)
               sim_ready = (Inr x, s'))
   \<and> getDeviceCount (sim_world_returning sym_nvmlDeviceGetCount_v2 999) sim_ready
       = (Inl (Nvml (NvmlError 999 ''Failed to get device count: Unknown error'')),
          sim_called sym_nvmlDeviceGetCount_v2 [])
   \<and> getDevice sim_world 0 sim_ready
       = (Inr \<lparr>handle = DevHandle 0, index = 0\<rparr>,
          sim_called sym_nvmlDeviceGetHandleByIndex_v2 [ANum 0])
   \<and> getDeviceByUUID sim_world ''GPU-mock-uuid-1234-5678-abcdef'' sim_ready
       = (Inr \<lparr>handle = DevHandle 0, index = - 1\<rparr>,
          sim_called sym_nvmlDeviceGetHandleByUUID [AStr ''GPU-mock-uuid-1234-5678-abcdef''])
   \<and> getByIndex sim_world (- 1) initial_state = (Inl (InvalidDeviceIndex (- 1)), initial_state)
   \<and> getByUUID sim_world [CHR 0xC2, CHR 0xA0] initial_state
       = (Inl InvalidDeviceUUID, initial_state)
   \<and> js_number_string sim_world 999 = show_int 999"
proof -
  let ?wl = "sim_world_lacking sym_nvmlDeviceGetMigMode"
  let ?wt = "sim_world_returning sym_nvmlDeviceGetTemperature 15"
  let ?wg = "sim_world_returning sym_nvmlDeviceGetGraphicsRunningProcesses_v3 15"
  let ?wc = "sim_world_returning sym_nvmlSystemGetCudaDriverVersion_v2 999"
  let ?wn = "sim_world_returning sym_nvmlDeviceGetCount_v2 999"
  let ?u = "''GPU-mock-uuid-1234-5678-abcdef''"
  have hl: "can_bind ?wl sim_ready sym_nvmlDeviceGetName"
    by (rule can_bind_lacking) simp
  have a: "\<exists>x s'. getName ?wl sim_device sim_ready = (Inr x, s')"
    by (rule result_or_exception [where w = ?wl and s = sim_ready and d = sim_device,
            THEN conjunct1, rule_format, OF hl])
  have ht: "\<forall>q \<in> set status_sequence. can_bind ?wt sim_ready (query_symbol q)"
    by (simp add: can_bind_sim_returning)
  have b: "\<exists>x s'. getStatus ?wt sim_device sim_ready = (Inr x, s')"
    by (rule result_or_exception [where w = ?wt and s = sim_ready and d = sim_device,
            THEN conjunct2, THEN conjunct2, THEN conjunct2, THEN conjunct2, THEN conjunct2,
            THEN conjunct2, THEN conjunct2, THEN conjunct2, THEN conjunct2, THEN conjunct2,
            THEN conjunct2, THEN conjunct2, THEN conjunct2, THEN conjunct2, THEN conjunct2,
            THEN conjunct2, THEN conjunct2, THEN conjunct1, THEN mp, OF ht])
  have hg: "can_bind ?wg sim_ready sym_nvmlDeviceGetComputeRunningProcesses_v3
        \<and> can_bind ?wg sim_ready sym_nvmlDeviceGetGraphicsRunningProcesses_v3
        \<and> can_bind ?wg sim_ready sym_nvmlSystemGetProcessName"
    by (simp add: can_bind_sim_returning)
  have c: "\<exists>x s'. getProcesses ?wg sim_device sim_ready = (Inr x, s')"
    by (rule result_or_exception [where w = ?wg and s = sim_ready and d = sim_device,
            THEN conjunct2, THEN conjunct2, THEN conjunct2, THEN conjunct2, THEN conjunct2,
            THEN conjunct2, THEN conjunct2, THEN conjunct2, THEN conjunct2, THEN conjunct2,
            THEN conjunct2, THEN conjunct2, THEN conjunct2, THEN conjunct2, THEN conjunct2,
            THEN conjunct2, THEN conjunct2, THEN conjunct2, THEN conjunct1, rule_format, OF hg])
  have hc: "initialized sim_ready
            \<and> can_bind ?wc sim_ready sym_nvmlSystemGetCudaDriverVersion_v2"
    by (simp add: can_bind_sim_returning initialized_sim_ready)
  have d: "\<exists>x s'. getCudaVersion ?wc sim_ready = (Inr x, s')"
    by (rule result_or_exception [where w = ?wc and s = sim_ready,
            THEN conjunct2, THEN conjunct2, THEN conjunct2, THEN conjunct2, THEN conjunct2,
            THEN conjunct2, THEN conjunct2, THEN conjunct2, THEN conjunct2, THEN conjunct2,
            THEN conjunct2, THEN conjunct2, THEN conjunct2, THEN conjunct2, THEN conjunct2,
            THEN conjunct2, THEN conjunct2, THEN conjunct2, THEN conjunct2, THEN conjunct2,
            THEN conjunct2, THEN conjunct2, THEN conjunct1, rule_format, OF hc])
  have hn: "initialized sim_ready
            \<and> invoke ?wn sym_nvmlDeviceGetCount_v2 [] sim_ready
                = (Inr (native ?wn 1 (Callable sim_lib sym_nvmlDeviceGetCount_v2) []),
                   sim_called sym_nvmlDeviceGetCount_v2 [])"
    by (simp add: initialized_sim_ready sim_returning_invoke)
  have e: "getDeviceCount ?wn sim_ready
       = (Inl (Nvml (NvmlError 999 ''Failed to get device count: Unknown error'')),
          sim_called sym_nvmlDeviceGetCount_v2 [])"
    using result_or_exception [where w = ?wn and s = sim_ready,
            THEN conjunct2, THEN conjunct2, THEN conjunct2, THEN conjunct2, THEN conjunct2,
            THEN conjunct2, THEN conjunct2, THEN conjunct2, THEN conjunct2, THEN conjunct2,
            THEN conjunct2, THEN conjunct2, THEN conjunct2, THEN conjunct2, THEN conjunct2,
            THEN conjunct2, THEN conjunct2, THEN conjunct2, THEN conjunct2, THEN conjunct2,
            THEN conjunct2, THEN conjunct2, THEN conjunct2, THEN conjunct1, rule_format, OF hn]
    by (simp add: SUCCESS_def fromReturn_def nvmlErrorString_999)
  have vi: "invoke sim_world sym_nvmlDeviceGetHandleByIndex_v2 [ANum \<lfloor>0::real\<rfloor>] sim_ready
           = (Inr (native sim_world 1 (Callable sim_lib sym_nvmlDeviceGetHandleByIndex_v2)
                     [ANum \<lfloor>0::real\<rfloor>]),
              sim_called sym_nvmlDeviceGetHandleByIndex_v2 [ANum \<lfloor>0::real\<rfloor>])"
    by (rule invoke_sim_ready) simp_all
  have hi: "initialized sim_ready \<and> isInteger 0 \<and> (0::real) \<le> 0
           \<and> invoke sim_world sym_nvmlDeviceGetHandleByIndex_v2 [ANum \<lfloor>0::real\<rfloor>] sim_ready
           = (Inr (native sim_world 1 (Callable sim_lib sym_nvmlDeviceGetHandleByIndex_v2)
                     [ANum \<lfloor>0::real\<rfloor>]),
              sim_called sym_nvmlDeviceGetHandleByIndex_v2 [ANum \<lfloor>0::real\<rfloor>])"
    using initialized_sim_ready vi by (simp add: isInteger_def)
  have f: "getDevice sim_world 0 sim_ready
       = (Inr \<lparr>handle = DevHandle 0, index = 0\<rparr>,
          sim_called sym_nvmlDeviceGetHandleByIndex_v2 [ANum 0])"
    using result_or_exception [where w = sim_world and s = sim_ready and i = 0,
            THEN conjunct2, THEN conjunct2, THEN conjunct2, THEN conjunct2, THEN conjunct2,
            THEN conjunct2, THEN conjunct2, THEN conjunct2, THEN conjunct2, THEN conjunct2,
            THEN conjunct2, THEN conjunct2, THEN conjunct2, THEN conjunct2, THEN conjunct2,
            THEN conjunct2, THEN conjunct2, THEN conjunct2, THEN conjunct2, THEN conjunct2,
            THEN conjunct2, THEN conjunct2, THEN conjunct2, THEN conjunct2, THEN conjunct1,
            rule_format, OF hi]
    by (simp add: blank_def SUCCESS_def)
  have hu: "initialized sim_ready \<and> \<not> trim_is_empty ?u
           \<and> invoke sim_world sym_nvmlDeviceGetHandleByUUID [AStr ?u] sim_ready
           = (Inr (native sim_world 1 (Callable sim_lib sym_nvmlDeviceGetHandleByUUID)
                     [AStr ?u]),
              sim_called sym_nvmlDeviceGetHandleByUUID [AStr ?u])"
    by (intro conjI initialized_sim_ready trim_examples(5) invoke_sim_ready) simp_all
  have g: "getDeviceByUUID sim_world ?u sim_ready
       = (Inr \<lparr>handle = DevHandle 0, index = - 1\<rparr>,
          sim_called sym_nvmlDeviceGetHandleByUUID [AStr ?u])"
    using result_or_exception [where w = sim_world and s = sim_ready and uuid = ?u,
            THEN conjunct2, THEN conjunct2, THEN conjunct2, THEN conjunct2, THEN conjunct2,
            THEN conjunct2, THEN conjunct2, THEN conjunct2, THEN conjunct2, THEN conjunct2,
            THEN conjunct2, THEN conjunct2, THEN conjunct2, THEN conjunct2, THEN conjunct2,
            THEN conjunct2, THEN conjunct2, THEN conjunct2, THEN conjunct2, THEN conjunct2,
            THEN conjunct2, THEN conjunct2, THEN conjunct2, THEN conjunct2, THEN conjunct2,
            THEN conjunct1, rule_format, OF hu]
    by (simp add: blank_def SUCCESS_def)
  have ni: "\<not> isInteger (- 1) \<or> (- 1 :: real) < 0"
    by simp
  have h: "getByIndex sim_world (- 1) initial_state
           = (Inl (InvalidDeviceIndex (- 1)), initial_state)"
    by (rule result_or_exception [where w = sim_world and s = initial_state and i = "- 1",
            THEN conjunct2, THEN conjunct2, THEN conjunct2, THEN conjunct2, THEN conjunct2,
            THEN conjunct2, THEN conjunct2, THEN conjunct2, THEN conjunct2, THEN conjunct2,
            THEN conjunct2, THEN conjunct2, THEN conjunct2, THEN conjunct2, THEN conjunct2,
            THEN conjunct2, THEN conjunct2, THEN conjunct2, THEN conjunct2, THEN conjunct2,
            THEN conjunct2, THEN conjunct2, THEN conjunct2, THEN conjunct2, THEN conjunct2,
            THEN conjunct2, THEN conjunct1, rule_format, OF ni])
  have k: "getByUUID sim_world [CHR 0xC2, CHR 0xA0] initial_state
           = (Inl InvalidDeviceUUID, initial_state)"
    by (rule result_or_exception [where w = sim_world and s = initial_state
              and uuid = "[CHR 0xC2, CHR 0xA0]",
            THEN conjunct2, THEN conjunct2, THEN conjunct2, THEN conjunct2, THEN conjunct2,
            THEN conjunct2, THEN conjunct2, THEN conjunct2, THEN conjunct2, THEN conjunct2,
            THEN conjunct2, THEN conjunct2, THEN conjunct2, THEN conjunct2, THEN conjunct2,
            THEN conjunct2, THEN conjunct2, THEN conjunct2, THEN conjunct2, THEN conjunct2,
            THEN conjunct2, THEN conjunct2, THEN conjunct2, THEN conjunct2, THEN conjunct2,
            THEN conjunct2, THEN conjunct2, THEN conjunct1, rule_format, OF trim_examples(3)])
  have l: "js_number_string sim_world 999 = show_int 999"
    using result_or_exception [where w = sim_world and i = 999,
            THEN conjunct2, THEN conjunct2, THEN conjunct2, THEN conjunct2, THEN conjunct2,
            THEN conjunct2, THEN conjunct2, THEN conjunct2, THEN conjunct2, THEN conjunct2,
            THEN conjunct2, THEN conjunct2, THEN conjunct2, THEN conjunct2, THEN conjunct2,
            THEN conjunct2, THEN conjunct2, THEN conjunct2, THEN conjunct2, THEN conjunct2,
            THEN conjunct2, THEN conjunct2, THEN conjunct2, THEN conjunct2, THEN conjunct2,
            THEN conjunct2, THEN conjunct2, THEN conjunct2]
    by simp
  show ?thesis by (intro conjI a b c d e f g h k l)
qed

end
